theory Spec2Isabelle
  imports Complex_Main
begin

section \<open>The path stroker of gsk/gskpathstroke.c\<close>

text \<open>
  The development follows \<^verbatim>\<open>src/gsk/gskpathstroke.c\<close> function by function.

  Numbers. The arithmetic of the source is read as exact arithmetic on \<^typ>\<open>real\<close>, with
  two exceptions, where the value that the source stores in a \<^verbatim>\<open>float\<close> variable is
  rounded to binary32 by \<open>to_float\<close>: the angle of \<^verbatim>\<open>angle_between\<close> (lines 61, 65
  and 67), which the source compares with \<^verbatim>\<open>M_PI\<close>, and the sine of
  \<^verbatim>\<open>add_line_join\<close> (line 219), whose reciprocal it compares with the miter limit.
  There the properties below depend on the rounding. A \<^verbatim>\<open>double\<close> is a real: the
  functions of libm and the constant \<^verbatim>\<open>M_PI\<close> are exact. Infinities and NaN are outside
  this model; wherever the source divides, the model says what the source does for a zero
  divisor.
\<close>

subsection \<open>graphene points and vectors, libm\<close>

type_synonym point = "real \<times> real"  \<comment> \<open>\<^verbatim>\<open>graphene_point_t\<close>: (x, y)\<close>
type_synonym vec2 = "real \<times> real"   \<comment> \<open>\<^verbatim>\<open>graphene_vec2_t\<close>: (x, y)\<close>

text \<open>
  \<^verbatim>\<open>graphene_vec2_normalize\<close>, \<^verbatim>\<open>graphene_vec2_dot\<close> and \<^verbatim>\<open>graphene_point_near\<close>
  belong to the graphene library. Normalising divides by the length; for the zero vector
  the library yields NaN, the model (0, 0).
\<close>

definition graphene_vec2_length :: "vec2 \<Rightarrow> real" where
  "graphene_vec2_length v = sqrt (fst v * fst v + snd v * snd v)"

definition graphene_vec2_normalize :: "vec2 \<Rightarrow> vec2" where
  "graphene_vec2_normalize v = (fst v / graphene_vec2_length v, snd v / graphene_vec2_length v)"

definition graphene_vec2_dot :: "vec2 \<Rightarrow> vec2 \<Rightarrow> real" where
  "graphene_vec2_dot v w = fst v * fst w + snd v * snd w"

definition graphene_point_near :: "point \<Rightarrow> point \<Rightarrow> real \<Rightarrow> bool" where
  "graphene_point_near a b epsilon \<longleftrightarrow>
     \<bar>fst a - fst b\<bar> < epsilon \<and> \<bar>snd a - snd b\<bar> < epsilon"

text \<open>
  \<^verbatim>\<open>atan2 (y, x)\<close> of the C library, on reals (one zero, so the branch cut
  \<^verbatim>\<open>atan2 (0, x)\<close> with negative \<^verbatim>\<open>x\<close> is \<open>pi\<close>).
\<close>

definition atan2 :: "real \<Rightarrow> real \<Rightarrow> real" where
  "atan2 y x =
     (if 0 < x then arctan (y / x)
      else if x < 0 then (if 0 \<le> y then arctan (y / x) + pi else arctan (y / x) - pi)
      else if 0 < y then pi / 2
      else if y < 0 then - (pi / 2)
      else 0)"

definition DEG_TO_RAD :: "real \<Rightarrow> real" where
  "DEG_TO_RAD d = d * pi / 180"

text \<open>
  The conversion of a \<^verbatim>\<open>double\<close> to \<^verbatim>\<open>float\<close> that C makes at an assignment: the
  nearest binary32 number, a tie going to the one with an even significand. A binary32
  number has 24 significant bits; its unit in the last place is \<open>2 ^ (e - 23)\<close> for a
  value between \<open>2 ^ e\<close> and \<open>2 ^ (e + 1)\<close>, and \<open>2 ^ - 149\<close> below \<open>2 ^ - 126\<close>. The
  overflow to infinity beyond the largest binary32 number is not modelled.
\<close>

definition round_to_even :: "real \<Rightarrow> int" where
  "round_to_even y =
     (let f = \<lfloor>y\<rfloor>
      in if y - of_int f < 1 / 2 then f
         else if 1 / 2 < y - of_int f then f + 1
         else if even f then f else f + 1)"

definition to_float :: "real \<Rightarrow> real" where
  "to_float x =
     (if x = 0 then 0
      else let e = max \<lfloor>log 2 \<bar>x\<bar>\<rfloor> (- 126);
               ulp = 2 powr (of_int e - 23)
           in ulp * of_int (round_to_even (x / ulp)))"

subsection \<open>graphene utilities (lines 34-99)\<close>

definition get_tangent :: "point \<Rightarrow> point \<Rightarrow> vec2" where
  "get_tangent p0 p1 = graphene_vec2_normalize (fst p1 - fst p0, snd p1 - snd p0)"

definition get_normal :: "point \<Rightarrow> point \<Rightarrow> vec2" where
  "get_normal p0 p1 = graphene_vec2_normalize (snd p0 - snd p1, fst p1 - fst p0)"

text \<open>
  In \<^verbatim>\<open>angle_between\<close> the variable \<^verbatim>\<open>angle\<close> is a \<^verbatim>\<open>float\<close>: the difference of the
  two arcs, and the result of each of the two corrections by \<^verbatim>\<open>2 * M_PI\<close>, are
  rounded when they are stored in it.
\<close>

definition angle_between :: "vec2 \<Rightarrow> vec2 \<Rightarrow> real" where
  "angle_between t1 t2 =
     (let angle = to_float (atan2 (snd t2) (fst t2) - atan2 (snd t1) (fst t1));
          angle = (if angle > pi then to_float (angle - 2 * pi) else angle);
          angle = (if angle < - pi then to_float (angle + 2 * pi) else angle)
      in angle)"

text \<open>\<^verbatim>\<open>line_intersect\<close> returns 0 or 1 and sets \<^verbatim>\<open>p\<close> in the second case only.\<close>

definition line_intersect :: "point \<Rightarrow> vec2 \<Rightarrow> point \<Rightarrow> vec2 \<Rightarrow> point option" where
  "line_intersect a ab c cd =
     (let a1 = snd ab;
          b1 = - fst ab;
          c1 = a1 * fst a + b1 * snd a;
          a2 = snd cd;
          b2 = - fst cd;
          c2 = a2 * fst c + b2 * snd c;
          det = a1 * b2 - a2 * b1
      in if \<bar>det\<bar> \<le> 0.001 then None
         else Some ((b2 * c1 - b1 * c2) / det, (a1 * c2 - a2 * c1) / det))"

subsection \<open>Curves, paths and path builders\<close>

text \<open>
  \<^verbatim>\<open>GskCurve\<close> (gskcurveprivate.h) is a tagged union of a line, a cubic and a conic. A conic
  keeps its weight in the slot \<^verbatim>\<open>points[2].x\<close>, between the control point and the end
  point, which is the order of the constructor's arguments.
\<close>

datatype GskCurve =
    LineCurve point point
  | CubicCurve point point point point
  | ConicCurve point point real point

text \<open>
  The operations a \<^verbatim>\<open>gsk_path_foreach\<close> or \<^verbatim>\<open>gsk_contour_foreach\<close> callback receives:
  the operation with its points (and the weight of a conic last).
\<close>

datatype path_op =
    MOVE point
  | LINE point point
  | CURVE point point point point
  | CONIC point point point real
  | CLOSE point point

text \<open>
  Modelled from the spec: \<^verbatim>\<open>GskPathBuilder\<close> and \<^verbatim>\<open>GskPath\<close> of gskpathbuilder.c and
  gskpath.c, the output sink of section 6. A builder is the sequence of the calls it has
  received, in order, and \<^verbatim>\<open>gsk_path_builder_free_to_path\<close> yields that sequence: a
  path is the sequence of calls that built it. What the builder makes of a call (of two
  moves in a row, say, or of a close with nothing before it) is not modelled. The
  arguments of \<^verbatim>\<open>svg_arc_to\<close> are the two radii, the rotation of the x axis, the
  large-arc and sweep flags and the end point.
\<close>

datatype path_cmd =
    Move_to point
  | Line_to point
  | Curve_to point point point
  | Conic_to point point real
  | Svg_arc_to real real real bool bool point
  | Close

type_synonym GskPathBuilder = "path_cmd list"
type_synonym GskPath = "path_cmd list"

definition gsk_path_builder_move_to :: "GskPathBuilder \<Rightarrow> real \<Rightarrow> real \<Rightarrow> GskPathBuilder" where
  "gsk_path_builder_move_to b x y = b @ [Move_to (x, y)]"

definition gsk_path_builder_line_to :: "GskPathBuilder \<Rightarrow> real \<Rightarrow> real \<Rightarrow> GskPathBuilder" where
  "gsk_path_builder_line_to b x y = b @ [Line_to (x, y)]"

definition gsk_path_builder_curve_to ::
  "GskPathBuilder \<Rightarrow> real \<Rightarrow> real \<Rightarrow> real \<Rightarrow> real \<Rightarrow> real \<Rightarrow> real \<Rightarrow> GskPathBuilder" where
  "gsk_path_builder_curve_to b x1 y1 x2 y2 x3 y3 = b @ [Curve_to (x1, y1) (x2, y2) (x3, y3)]"

definition gsk_path_builder_conic_to ::
  "GskPathBuilder \<Rightarrow> real \<Rightarrow> real \<Rightarrow> real \<Rightarrow> real \<Rightarrow> real \<Rightarrow> GskPathBuilder" where
  "gsk_path_builder_conic_to b x1 y1 x2 y2 weight = b @ [Conic_to (x1, y1) (x2, y2) weight]"

definition gsk_path_builder_svg_arc_to ::
  "GskPathBuilder \<Rightarrow> real \<Rightarrow> real \<Rightarrow> real \<Rightarrow> bool \<Rightarrow> bool \<Rightarrow> real \<Rightarrow> real \<Rightarrow> GskPathBuilder" where
  "gsk_path_builder_svg_arc_to b rx ry x_axis_rotation large_arc positive_sweep x y =
     b @ [Svg_arc_to rx ry x_axis_rotation large_arc positive_sweep (x, y)]"

definition gsk_path_builder_close :: "GskPathBuilder \<Rightarrow> GskPathBuilder" where
  "gsk_path_builder_close b = b @ [Close]"

text \<open>A path is closed when the last call it received is \<^verbatim>\<open>gsk_path_builder_close\<close>.\<close>

definition closed_path :: "GskPath \<Rightarrow> bool" where
  "closed_path p \<longleftrightarrow> p \<noteq> [] \<and> last p = Close"

subsection \<open>Stroke parameters\<close>

datatype GskLineJoin =
    GSK_LINE_JOIN_MITER
  | GSK_LINE_JOIN_MITER_CLIP
  | GSK_LINE_JOIN_ROUND
  | GSK_LINE_JOIN_BEVEL

datatype GskLineCap =
    GSK_LINE_CAP_BUTT
  | GSK_LINE_CAP_ROUND
  | GSK_LINE_CAP_SQUARE

record GskStroke =
  line_width :: real
  line_cap :: GskLineCap
  line_join :: GskLineJoin
  miter_limit :: real
  dash_length :: real

subsection \<open>The curve primitives of gskcurve.c\<close>

text \<open>
  gskcurve.c and gskpathbuilder.c are not among the sources. What the stroker needs of
  them on straight segments, and the splitting of a cubic, is modelled from the
  specification (section 4.A); what they do on cubics and conics beyond that (offsetting,
  intersection, tangents, conic splitting, sub-segments), the expansion of an arc into
  curves, the dash generator and the content of an uninitialised point are parameters of
  the model, collected in one record. Every theorem holds for all values of the record.
\<close>

record prims =
  curve_offset :: "GskCurve \<Rightarrow> real \<Rightarrow> GskCurve"
  curve_intersect :: "GskCurve \<Rightarrow> GskCurve \<Rightarrow> (real \<times> real \<times> point) option"
  curve_start_tangent :: "GskCurve \<Rightarrow> vec2"
  curve_end_tangent :: "GskCurve \<Rightarrow> vec2"
  conic_split :: "GskCurve \<Rightarrow> real \<Rightarrow> GskCurve \<times> GskCurve"
  curve_segment :: "GskCurve \<Rightarrow> real \<Rightarrow> real \<Rightarrow> GskCurve"
  svg_arc :: "point \<Rightarrow> real \<Rightarrow> real \<Rightarrow> real \<Rightarrow> bool \<Rightarrow> bool \<Rightarrow> point \<Rightarrow> GskCurve list"
  contour_dash :: "GskStroke \<Rightarrow> path_op list \<Rightarrow> path_op list"
  uninitialized_point :: point

text \<open>Modelled from the spec: \<^verbatim>\<open>gsk_curve_get_start_point\<close> and \<^verbatim>\<open>gsk_curve_get_end_point\<close>
  of gskcurve.c, the first and the last point of a curve.\<close>

fun gsk_curve_get_start_point :: "GskCurve \<Rightarrow> point" where
  "gsk_curve_get_start_point (LineCurve p0 p1) = p0"
| "gsk_curve_get_start_point (CubicCurve p0 p1 p2 p3) = p0"
| "gsk_curve_get_start_point (ConicCurve p0 p1 w p3) = p0"

fun gsk_curve_get_end_point :: "GskCurve \<Rightarrow> point" where
  "gsk_curve_get_end_point (LineCurve p0 p1) = p1"
| "gsk_curve_get_end_point (CubicCurve p0 p1 p2 p3) = p3"
| "gsk_curve_get_end_point (ConicCurve p0 p1 w p3) = p3"

text \<open>Modelled from the spec: \<^verbatim>\<open>gsk_curve_reverse\<close> of gskcurve.c, "returns the curve
  traversed backwards": the same control points in the opposite order.\<close>

fun gsk_curve_reverse :: "GskCurve \<Rightarrow> GskCurve" where
  "gsk_curve_reverse (LineCurve p0 p1) = LineCurve p1 p0"
| "gsk_curve_reverse (CubicCurve p0 p1 p2 p3) = CubicCurve p3 p2 p1 p0"
| "gsk_curve_reverse (ConicCurve p0 p1 w p3) = ConicCurve p3 p1 w p0"

text \<open>Modelled from the spec: \<^verbatim>\<open>gsk_curve_init_foreach\<close> of gskcurve.c, the curve of a
  path operation. The closing line of a contour is a line; a move has no curve (the
  source never asks for one).\<close>

fun gsk_curve_init_foreach :: "path_op \<Rightarrow> GskCurve option" where
  "gsk_curve_init_foreach (MOVE p) = None"
| "gsk_curve_init_foreach (LINE p0 p1) = Some (LineCurve p0 p1)"
| "gsk_curve_init_foreach (CURVE p0 p1 p2 p3) = Some (CubicCurve p0 p1 p2 p3)"
| "gsk_curve_init_foreach (CONIC p0 p1 p2 w) = Some (ConicCurve p0 p1 w p2)"
| "gsk_curve_init_foreach (CLOSE p0 p1) = Some (LineCurve p0 p1)"

definition graphene_point_interpolate :: "point \<Rightarrow> point \<Rightarrow> real \<Rightarrow> point" where
  "graphene_point_interpolate a b t = (fst a + (fst b - fst a) * t, snd a + (snd b - snd a) * t)"

text \<open>Modelled from the spec: \<^verbatim>\<open>gsk_curve_split\<close> of gskcurve.c, "returns two curves of
  the same variant whose concatenation equals the original": linear interpolation for a
  line, de Casteljau's construction for a cubic; the split of a conic is a parameter.\<close>

fun gsk_curve_split :: "prims \<Rightarrow> GskCurve \<Rightarrow> real \<Rightarrow> GskCurve \<times> GskCurve" where
  "gsk_curve_split prm (LineCurve p0 p1) t =
     (let m = graphene_point_interpolate p0 p1 t in (LineCurve p0 m, LineCurve m p1))"
| "gsk_curve_split prm (CubicCurve p0 p1 p2 p3) t =
     (let ab = graphene_point_interpolate p0 p1 t;
          bc = graphene_point_interpolate p1 p2 t;
          cd = graphene_point_interpolate p2 p3 t;
          abbc = graphene_point_interpolate ab bc t;
          bccd = graphene_point_interpolate bc cd t;
          final = graphene_point_interpolate abbc bccd t
      in (CubicCurve p0 ab abbc final, CubicCurve final bccd cd p3))"
| "gsk_curve_split prm (ConicCurve p0 p1 w p3) t = conic_split prm (ConicCurve p0 p1 w p3) t"

text \<open>\<^verbatim>\<open>gsk_curve_segment\<close> of gskcurve.c, the sub-curve between two parameters, is a
  parameter for every variant.\<close>

definition gsk_curve_segment :: "prims \<Rightarrow> GskCurve \<Rightarrow> real \<Rightarrow> real \<Rightarrow> GskCurve" where
  "gsk_curve_segment prm curve t0 t1 = curve_segment prm curve t0 t1"

text \<open>Modelled from the spec: \<^verbatim>\<open>gsk_curve_offset\<close> of gskcurve.c on a line, the line
  displaced by the distance along its normal (the \<^verbatim>\<open>get_normal\<close> of the source); the
  offset of a cubic or conic is a parameter.\<close>

fun gsk_curve_offset :: "prims \<Rightarrow> GskCurve \<Rightarrow> real \<Rightarrow> GskCurve" where
  "gsk_curve_offset prm (LineCurve p0 p1) d =
     (let n = get_normal p0 p1
      in LineCurve (fst p0 + d * fst n, snd p0 + d * snd n) (fst p1 + d * fst n, snd p1 + d * snd n))"
| "gsk_curve_offset prm (CubicCurve p0 p1 p2 p3) d = curve_offset prm (CubicCurve p0 p1 p2 p3) d"
| "gsk_curve_offset prm (ConicCurve p0 p1 w p3) d = curve_offset prm (ConicCurve p0 p1 w p3) d"

text \<open>Modelled from the spec: the tangents of gskcurve.c, "unit tangent vector at t=0 /
  t=1"; for a line both are the \<^verbatim>\<open>get_tangent\<close> of its end points.\<close>

fun gsk_curve_get_start_tangent :: "prims \<Rightarrow> GskCurve \<Rightarrow> vec2" where
  "gsk_curve_get_start_tangent prm (LineCurve p0 p1) = get_tangent p0 p1"
| "gsk_curve_get_start_tangent prm (CubicCurve p0 p1 p2 p3) = curve_start_tangent prm (CubicCurve p0 p1 p2 p3)"
| "gsk_curve_get_start_tangent prm (ConicCurve p0 p1 w p3) = curve_start_tangent prm (ConicCurve p0 p1 w p3)"

fun gsk_curve_get_end_tangent :: "prims \<Rightarrow> GskCurve \<Rightarrow> vec2" where
  "gsk_curve_get_end_tangent prm (LineCurve p0 p1) = get_tangent p0 p1"
| "gsk_curve_get_end_tangent prm (CubicCurve p0 p1 p2 p3) = curve_end_tangent prm (CubicCurve p0 p1 p2 p3)"
| "gsk_curve_get_end_tangent prm (ConicCurve p0 p1 w p3) = curve_end_tangent prm (ConicCurve p0 p1 w p3)"

text \<open>Modelled from the spec: \<^verbatim>\<open>gsk_curve_intersect\<close> of gskcurve.c with \<^verbatim>\<open>max_hits = 1\<close>,
  "parameter pairs (t, s) where the two curves cross, plus the crossing point". Two
  straight segments that are not parallel cross where both parameters lie in [0, 1];
  every other pair of curves is a parameter. \<open>None\<close> is the return value 0.\<close>

definition line_curve_intersect ::
  "point \<Rightarrow> point \<Rightarrow> point \<Rightarrow> point \<Rightarrow> (real \<times> real \<times> point) option" where
  "line_curve_intersect p0 p1 q0 q1 =
     (let a1 = fst p1 - fst p0;
          b1 = snd p1 - snd p0;
          a2 = fst q1 - fst q0;
          b2 = snd q1 - snd q0;
          det = a1 * b2 - b1 * a2
      in if det = 0 then None
         else
           let t = ((fst q0 - fst p0) * b2 - (snd q0 - snd p0) * a2) / det;
               s = ((fst q0 - fst p0) * b1 - (snd q0 - snd p0) * a1) / det
           in if 0 \<le> t \<and> t \<le> 1 \<and> 0 \<le> s \<and> s \<le> 1
              then Some (t, s, graphene_point_interpolate p0 p1 t)
              else None)"

fun gsk_curve_intersect :: "prims \<Rightarrow> GskCurve \<Rightarrow> GskCurve \<Rightarrow> (real \<times> real \<times> point) option" where
  "gsk_curve_intersect prm (LineCurve p0 p1) (LineCurve q0 q1) = line_curve_intersect p0 p1 q0 q1"
| "gsk_curve_intersect prm c1 c2 = curve_intersect prm c1 c2"

subsection \<open>GskPathBuilder utilities (lines 104-195)\<close>

definition path_builder_move_to_point :: "GskPathBuilder \<Rightarrow> point \<Rightarrow> GskPathBuilder" where
  "path_builder_move_to_point b p = gsk_path_builder_move_to b (fst p) (snd p)"

definition path_builder_line_to_point :: "GskPathBuilder \<Rightarrow> point \<Rightarrow> GskPathBuilder" where
  "path_builder_line_to_point b p = gsk_path_builder_line_to b (fst p) (snd p)"

fun path_builder_add_curve :: "GskPathBuilder \<Rightarrow> GskCurve \<Rightarrow> GskPathBuilder" where
  "path_builder_add_curve b (LineCurve p0 p1) = gsk_path_builder_line_to b (fst p1) (snd p1)"
| "path_builder_add_curve b (CubicCurve p0 p1 p2 p3) =
     gsk_path_builder_curve_to b (fst p1) (snd p1) (fst p2) (snd p2) (fst p3) (snd p3)"
| "path_builder_add_curve b (ConicCurve p0 p1 w p3) =
     gsk_path_builder_conic_to b (fst p1) (snd p1) (fst p3) (snd p3) w"

text \<open>
  \<^verbatim>\<open>add_op\<close>, the callback of \<^verbatim>\<open>path_builder_add_reverse_path\<close>: \<^verbatim>\<open>ops\<close> is the list the
  callback prepends to.
\<close>

fun add_op :: "path_op \<Rightarrow> GskCurve list \<Rightarrow> GskCurve list" where
  "add_op (MOVE p) ops = ops"
| "add_op pop ops =
     (case gsk_curve_init_foreach pop of
        Some c \<Rightarrow> gsk_curve_reverse c # ops
      | None \<Rightarrow> ops)"

text \<open>
  Modelled from the spec: \<^verbatim>\<open>gsk_path_foreach\<close> of gskpath.c, the operations of a path
  in order (section 6). The operations of a built path follow from the calls: each call
  starts at the current point, \<^verbatim>\<open>close\<close> returns to the point of the last move, and an
  arc contributes the curves the builder expands it to. The arguments \<open>cur\<close> and \<open>start\<close>
  are the current point and the start of the current contour, both (0, 0) for a new
  builder.
\<close>

fun curve_op :: "GskCurve \<Rightarrow> path_op" where
  "curve_op (LineCurve p0 p1) = LINE p0 p1"
| "curve_op (CubicCurve p0 p1 p2 p3) = CURVE p0 p1 p2 p3"
| "curve_op (ConicCurve p0 p1 w p3) = CONIC p0 p1 p3 w"

fun path_ops_from :: "prims \<Rightarrow> point \<Rightarrow> point \<Rightarrow> path_cmd list \<Rightarrow> path_op list" where
  "path_ops_from prm cur start [] = []"
| "path_ops_from prm cur start (Move_to p # cs) = MOVE p # path_ops_from prm p p cs"
| "path_ops_from prm cur start (Line_to p # cs) = LINE cur p # path_ops_from prm p start cs"
| "path_ops_from prm cur start (Curve_to p1 p2 p3 # cs) =
     CURVE cur p1 p2 p3 # path_ops_from prm p3 start cs"
| "path_ops_from prm cur start (Conic_to p1 p2 w # cs) =
     CONIC cur p1 p2 w # path_ops_from prm p2 start cs"
| "path_ops_from prm cur start (Svg_arc_to rx ry rot large sweep p # cs) =
     (let arc = svg_arc prm cur rx ry rot large sweep p
      in map curve_op arc @
         path_ops_from prm (if arc = [] then cur else gsk_curve_get_end_point (last arc)) start cs)"
| "path_ops_from prm cur start (Close # cs) = CLOSE cur start # path_ops_from prm start start cs"

definition gsk_path_foreach :: "prims \<Rightarrow> GskPath \<Rightarrow> path_op list" where
  "gsk_path_foreach prm path = path_ops_from prm (0, 0) (0, 0) path"

definition path_builder_add_reverse_path :: "prims \<Rightarrow> GskPathBuilder \<Rightarrow> GskPath \<Rightarrow> GskPathBuilder" where
  "path_builder_add_reverse_path prm b path =
     (let ops = fold add_op (gsk_path_foreach prm path) []
      in fold (\<lambda>curve b. path_builder_add_curve b curve) ops b)"

subsection \<open>Stroke helpers (lines 200-302)\<close>

text \<open>
  In \<^verbatim>\<open>add_line_join\<close> the sine is stored in the \<^verbatim>\<open>float\<close> variable \<^verbatim>\<open>s\<close>, so it is
  the rounded sine that is divided and compared with the miter limit.
  \<^verbatim>\<open>1.0 / s <= miter_limit\<close> is false when \<^verbatim>\<open>s\<close> is zero (the quotient is infinite),
  which the model writes out. The clipped miter reads \<^verbatim>\<open>a1\<close> and \<^verbatim>\<open>b1\<close> whether or not
  \<^verbatim>\<open>line_intersect\<close> has set them.
\<close>

definition add_line_join ::
  "prims \<Rightarrow> GskPathBuilder \<Rightarrow> GskStroke \<Rightarrow> point \<Rightarrow> point \<Rightarrow> vec2 \<Rightarrow> point \<Rightarrow> vec2 \<Rightarrow> real \<Rightarrow> GskPathBuilder" where
  "add_line_join prm b stk c a ta bb tb angle =
     (if line_join stk = GSK_LINE_JOIN_MITER \<or> line_join stk = GSK_LINE_JOIN_MITER_CLIP then
        (case line_intersect a ta bb tb of
           Some p \<Rightarrow>
             let s = to_float \<bar>sin ((pi - angle) / 2)\<bar>
             in if s \<noteq> 0 \<and> 1 / s \<le> miter_limit stk then
                  path_builder_line_to_point (path_builder_line_to_point b p) bb
                else if line_join stk = GSK_LINE_JOIN_MITER_CLIP then
                  let q = ((fst c + fst p) / 2, (snd c + snd p) / 2);
                      n = get_normal c p;
                      a1 = (case line_intersect a ta q n of Some x \<Rightarrow> x | None \<Rightarrow> uninitialized_point prm);
                      b1 = (case line_intersect bb tb q n of Some x \<Rightarrow> x | None \<Rightarrow> uninitialized_point prm)
                  in path_builder_line_to_point
                       (path_builder_line_to_point (path_builder_line_to_point b a1) b1) bb
                else path_builder_line_to_point b bb
         | None \<Rightarrow> b)
      else if line_join stk = GSK_LINE_JOIN_ROUND then
        gsk_path_builder_svg_arc_to b (line_width stk / 2) (line_width stk / 2) 0 False (angle > 0)
          (fst bb) (snd bb)
      else path_builder_line_to_point b bb)"

definition add_line_cap :: "GskPathBuilder \<Rightarrow> GskStroke \<Rightarrow> point \<Rightarrow> point \<Rightarrow> GskPathBuilder" where
  "add_line_cap b stk s e =
     (case line_cap stk of
        GSK_LINE_CAP_BUTT \<Rightarrow> path_builder_line_to_point b e
      | GSK_LINE_CAP_ROUND \<Rightarrow>
          gsk_path_builder_svg_arc_to b (line_width stk / 2) (line_width stk / 2) 0 True False
            (fst e) (snd e)
      | GSK_LINE_CAP_SQUARE \<Rightarrow>
          let cx = (fst s + fst e) / 2;
              cy = (snd s + snd e) / 2;
              dx = snd s - cy;
              dy = - fst s + cx
          in path_builder_line_to_point
               (gsk_path_builder_line_to
                  (gsk_path_builder_line_to b (fst s + dx) (snd s + dy))
                  (fst e + dx) (snd e + dy))
               e)"

subsection \<open>The stroker's state (lines 342-361)\<close>

text \<open>
  \<^verbatim>\<open>StrokeData\<close>. The curve fields \<^verbatim>\<open>c\<close>, \<^verbatim>\<open>l\<close>, \<^verbatim>\<open>r\<close>, \<^verbatim>\<open>c0\<close>, \<^verbatim>\<open>l0\<close>, \<^verbatim>\<open>r0\<close> carry
  the prefix \<open>sd_\<close>, since a field named by one letter would take that letter away from
  every variable. \<^verbatim>\<open>builder\<close> is the output: the paths added to it with
  \<^verbatim>\<open>gsk_path_builder_add_path\<close>, in order. A \<^verbatim>\<open>left\<close> or \<^verbatim>\<open>right\<close> that is \<^verbatim>\<open>NULL\<close> is
  the empty builder.
\<close>

record StrokeData =
  builder :: "GskPath list"
  stroke :: GskStroke
  left :: GskPathBuilder
  right :: GskPathBuilder
  has_current_point :: bool
  has_current_curve :: bool
  is_first_curve :: bool
  sd_c :: GskCurve
  sd_l :: GskCurve
  sd_r :: GskCurve
  sd_c0 :: GskCurve
  sd_l0 :: GskCurve
  sd_r0 :: GskCurve

text \<open>Modelled from the spec: \<^verbatim>\<open>gsk_path_builder_add_path\<close> of gskpathbuilder.c
  "appends a prebuilt sub-path" to the output.\<close>

definition gsk_path_builder_add_path :: "GskPath list \<Rightarrow> GskPath \<Rightarrow> GskPath list" where
  "gsk_path_builder_add_path bs path = bs @ [path]"

text \<open>
  \<^verbatim>\<open>add_segments\<close> receives its curves by pointer. \<^verbatim>\<open>add_curve\<close> passes the addresses of
  its own locals, \<^verbatim>\<open>close_contours\<close> the addresses of the fields \<^verbatim>\<open>c0\<close>, \<^verbatim>\<open>r0\<close>, \<^verbatim>\<open>l0\<close> of
  the state that \<^verbatim>\<open>append_right\<close> and \<^verbatim>\<open>append_left\<close> write. A pointer is therefore either
  a local with its value or the name of a field, read and written through the state.
\<close>

datatype curve_ptr = Local GskCurve | Field_c0 | Field_l0 | Field_r0

fun deref :: "StrokeData \<Rightarrow> curve_ptr \<Rightarrow> GskCurve" where
  "deref sd (Local v) = v"
| "deref sd Field_c0 = sd_c0 sd"
| "deref sd Field_l0 = sd_l0 sd"
| "deref sd Field_r0 = sd_r0 sd"

fun assign :: "StrokeData \<Rightarrow> curve_ptr \<Rightarrow> GskCurve \<Rightarrow> StrokeData \<times> curve_ptr" where
  "assign sd (Local v) w = (sd, Local w)"
| "assign sd Field_c0 w = (sd\<lparr>sd_c0 := w\<rparr>, Field_c0)"
| "assign sd Field_l0 w = (sd\<lparr>sd_l0 := w\<rparr>, Field_l0)"
| "assign sd Field_r0 w = (sd\<lparr>sd_r0 := w\<rparr>, Field_r0)"

subsection \<open>The orchestrator (lines 363-523)\<close>

definition append_right :: "StrokeData \<Rightarrow> GskCurve \<Rightarrow> StrokeData" where
  "append_right sd curve =
     (if is_first_curve sd then
        sd\<lparr>sd_r0 := curve,
           right := path_builder_move_to_point (right sd) (gsk_curve_get_end_point curve)\<rparr>
      else sd\<lparr>right := path_builder_add_curve (right sd) curve\<rparr>)"

definition append_left :: "StrokeData \<Rightarrow> GskCurve \<Rightarrow> StrokeData" where
  "append_left sd curve =
     (if is_first_curve sd then
        sd\<lparr>sd_l0 := curve,
           left := path_builder_move_to_point (left sd) (gsk_curve_get_end_point curve)\<rparr>
      else sd\<lparr>left := path_builder_add_curve (left sd) curve\<rparr>)"

definition add_segments :: "prims \<Rightarrow> StrokeData \<Rightarrow> curve_ptr \<Rightarrow> curve_ptr \<Rightarrow> curve_ptr \<Rightarrow> StrokeData" where
  "add_segments prm sd curve r l =
     (let tangent1 = gsk_curve_get_end_tangent prm (sd_c sd);
          tangent2 = gsk_curve_get_start_tangent prm (deref sd curve);
          angle = angle_between tangent1 tangent2;
          (sd, r, l) =
            (if \<bar>angle\<bar> < DEG_TO_RAD 5 then
               let sd = append_right sd (sd_r sd);
                   sd = sd\<lparr>right := path_builder_line_to_point (right sd)
                                      (gsk_curve_get_start_point (deref sd r))\<rparr>;
                   sd = append_left sd (sd_l sd);
                   sd = sd\<lparr>left := path_builder_line_to_point (left sd)
                                     (gsk_curve_get_start_point (deref sd l))\<rparr>
               in (sd, r, l)
             else if angle > 0 then
               let (sd, r) =
                     (case gsk_curve_intersect prm (sd_r sd) (deref sd r) of
                        Some (t1, t2, p) \<Rightarrow>
                          let sd = sd\<lparr>sd_r := fst (gsk_curve_split prm (sd_r sd) t1)\<rparr>;
                              (sd, r) = assign sd r (snd (gsk_curve_split prm (deref sd r) t2))
                          in (append_right sd (sd_r sd), r)
                      | None \<Rightarrow>
                          let sd = append_right sd (sd_r sd)
                          in (sd\<lparr>right := path_builder_line_to_point (right sd)
                                             (gsk_curve_get_start_point (deref sd r))\<rparr>, r));
                   sd = append_left sd (sd_l sd);
                   sd = sd\<lparr>left := add_line_join prm (left sd) (stroke sd)
                                     (gsk_curve_get_start_point (deref sd curve))
                                     (gsk_curve_get_end_point (sd_l sd)) tangent1
                                     (gsk_curve_get_start_point (deref sd l)) tangent2 angle\<rparr>
               in (sd, r, l)
             else
               let sd = append_right sd (sd_r sd);
                   sd = sd\<lparr>right := add_line_join prm (right sd) (stroke sd)
                                      (gsk_curve_get_start_point (deref sd curve))
                                      (gsk_curve_get_end_point (sd_r sd)) tangent1
                                      (gsk_curve_get_start_point (deref sd r)) tangent2 angle\<rparr>;
                   (sd, l) =
                     (case gsk_curve_intersect prm (sd_l sd) (deref sd l) of
                        Some (t1, t2, p) \<Rightarrow>
                          let sd = sd\<lparr>sd_l := fst (gsk_curve_split prm (sd_l sd) t1)\<rparr>;
                              (sd, l) = assign sd l (snd (gsk_curve_split prm (deref sd l) t2))
                          in (append_left sd (sd_l sd), l)
                      | None \<Rightarrow>
                          let sd = append_left sd (sd_l sd)
                          in (sd\<lparr>left := path_builder_line_to_point (left sd)
                                            (gsk_curve_get_start_point (deref sd l))\<rparr>, l))
               in (sd, r, l))
      in sd\<lparr>sd_c := deref sd curve, sd_r := deref sd r, sd_l := deref sd l\<rparr>)"

definition add_curve :: "prims \<Rightarrow> StrokeData \<Rightarrow> GskCurve \<Rightarrow> StrokeData" where
  "add_curve prm sd curve =
     (let l = gsk_curve_offset prm curve (- line_width (stroke sd) / 2);
          r = gsk_curve_offset prm curve (line_width (stroke sd) / 2)
      in if \<not> has_current_curve sd then
           sd\<lparr>sd_c0 := curve, sd_r0 := r, sd_l0 := l,
              right := path_builder_move_to_point (right sd) (gsk_curve_get_start_point r),
              left := path_builder_move_to_point (left sd) (gsk_curve_get_start_point l),
              sd_c := curve, sd_r := r, sd_l := l,
              has_current_curve := True, is_first_curve := True\<rparr>
         else (add_segments prm sd (Local curve) (Local r) (Local l))\<lparr>is_first_curve := False\<rparr>)"

subsection \<open>The subdivider (lines 525-709)\<close>

text \<open>
  \<^verbatim>\<open>cubic_is_simple\<close> and \<^verbatim>\<open>cubic_curvature_points\<close> read \<^verbatim>\<open>curve->curve.points\<close>, and
  \<^verbatim>\<open>conic_is_simple\<close> reads \<^verbatim>\<open>curve->conic.points\<close>: each is given on its own variant
  of the union and left unspecified on the others.
\<close>

fun cubic_is_simple :: "GskCurve \<Rightarrow> bool" where
  "cubic_is_simple (CubicCurve p0 p1 p2 p3) =
     (let t1 = get_tangent p0 p1;
          t2 = get_tangent p1 p2;
          t3 = get_tangent p2 p3;
          a1 = angle_between t1 t2;
          a2 = angle_between t2 t3
      in if (a1 < 0 \<and> a2 > 0) \<or> (a1 > 0 \<and> a2 < 0) then False
         else
           let n1 = get_normal p0 p1;
               n2 = get_normal p2 p3;
               s = graphene_vec2_dot n1 n2
           in if \<bar>arccos s\<bar> \<ge> pi / 3 then False else True)"

definition align_points :: "point list \<Rightarrow> point \<Rightarrow> point \<Rightarrow> point list" where
  "align_points p a b =
     (let n1 = get_tangent a b;
          angle = - atan2 (snd n1) (fst n1);
          s = sin angle;
          c = cos angle
      in map (\<lambda>pt. ((fst pt - fst a) * c - (snd pt - snd a) * s,
                     (fst pt - fst a) * s + (snd pt - snd a) * c)) p)"

text \<open>The result is the part of \<^verbatim>\<open>t\<close> the function has filled, in the order of filling;
  its length is the return value \<^verbatim>\<open>n_roots\<close>.\<close>

fun cubic_curvature_points :: "GskCurve \<Rightarrow> real list" where
  "cubic_curvature_points (CubicCurve p0 p1 p2 p3) =
     (let p = align_points [p0, p1, p2, p3] p0 p3;
          a = fst (p ! 2) * snd (p ! 1);
          b = fst (p ! 3) * snd (p ! 1);
          c = fst (p ! 1) * snd (p ! 2);
          d = fst (p ! 3) * snd (p ! 2);
          x = - 3 * a + 2 * b + 3 * c - d;
          y = 3 * a - b - 3 * c;
          z = c - a
      in if \<bar>x\<bar> \<ge> 0.001 then
           let tt = - y / (2 * x);
               ts = (if 0 < tt \<and> tt < 1 then [tt] else []);
               u2 = y * y - 4 * x * z
           in if u2 > 0.001 then
                let u = sqrt u2;
                    tt = (- y + u) / (2 * x);
                    ts = (if 0 < tt \<and> tt < 1 then ts @ [tt] else ts);
                    tt = (- y - u) / (2 * x);
                    ts = (if 0 < tt \<and> tt < 1 then ts @ [tt] else ts)
                in ts
              else ts
         else [])"

definition MAX_SUBDIVISION :: int where
  "MAX_SUBDIVISION = 8"

text \<open>
  The two subdividers call themselves. Their first argument \<open>fuel\<close> is not in the source:
  it bounds the depth of nested calls, and the result \<open>None\<close> says that the recursion
  went deeper. \<^verbatim>\<open>level\<close> is a C \<^verbatim>\<open>int\<close>. \<^verbatim>\<open>qsort\<close> with \<^verbatim>\<open>cmpfloat\<close> sorts the
  parameters in ascending order.
\<close>

primrec subdivide_and_add_curve :: "nat \<Rightarrow> prims \<Rightarrow> StrokeData \<Rightarrow> GskCurve \<Rightarrow> int \<Rightarrow> StrokeData option" where
  "subdivide_and_add_curve 0 prm sd curve level = None"
| "subdivide_and_add_curve (Suc fuel) prm sd curve level =
     (if level = 0 \<or> (level < MAX_SUBDIVISION \<and> cubic_is_simple curve) then
        Some (add_curve prm sd curve)
      else
        let t = (if level = MAX_SUBDIVISION then sort ([0, 1] @ cubic_curvature_points curve)
                 else [0, 1]);
            n = length t
        in if n = 2 then
             (case gsk_curve_split prm curve 0.5 of
                (c1, c2) \<Rightarrow>
                  (case subdivide_and_add_curve fuel prm sd c1 (level - 1) of
                     None \<Rightarrow> None
                   | Some sd \<Rightarrow> subdivide_and_add_curve fuel prm sd c2 (level - 1)))
           else
             fold (\<lambda>i res.
                     case res of
                       None \<Rightarrow> None
                     | Some sd \<Rightarrow>
                         subdivide_and_add_curve fuel prm sd
                           (gsk_curve_segment prm curve (t ! i) (t ! (i + 1))) (level - 1))
               [0..<n - 1] (Some sd))"

fun conic_is_simple :: "GskCurve \<Rightarrow> bool" where
  "conic_is_simple (ConicCurve p0 p1 w p3) =
     (let n1 = get_normal p0 p1;
          n2 = get_normal p1 p3;
          s = graphene_vec2_dot n1 n2
      in if \<bar>arccos s\<bar> \<ge> pi / 3 then False else True)"

primrec subdivide_and_add_conic :: "nat \<Rightarrow> prims \<Rightarrow> StrokeData \<Rightarrow> GskCurve \<Rightarrow> int \<Rightarrow> StrokeData option" where
  "subdivide_and_add_conic 0 prm sd curve level = None"
| "subdivide_and_add_conic (Suc fuel) prm sd curve level =
     (if level = 0 \<or> (level < MAX_SUBDIVISION \<and> conic_is_simple curve) then
        Some (add_curve prm sd curve)
      else
        (case gsk_curve_split prm curve 0.5 of
           (c1, c2) \<Rightarrow>
             (case subdivide_and_add_conic fuel prm sd c1 (level - 1) of
                None \<Rightarrow> None
              | Some sd \<Rightarrow> subdivide_and_add_conic fuel prm sd c2 (level - 1))))"

subsection \<open>Finishing a contour (lines 717-807)\<close>

definition cap_and_connect_contours :: "prims \<Rightarrow> StrokeData \<Rightarrow> StrokeData" where
  "cap_and_connect_contours prm sd =
     (let r0 = gsk_curve_get_start_point (sd_r0 sd);
          l0 = gsk_curve_get_start_point (sd_l0 sd);
          (sd, r1, l1) =
            (if has_current_curve sd then
               (sd\<lparr>right := path_builder_add_curve (right sd) (sd_r sd),
                   left := path_builder_add_curve (left sd) (sd_l sd)\<rparr>,
                gsk_curve_get_end_point (sd_r sd), gsk_curve_get_end_point (sd_l sd))
             else (sd\<lparr>right := path_builder_move_to_point (right sd) r0\<rparr>, r0, l0));
          sd = sd\<lparr>right := add_line_cap (right sd) (stroke sd) r1 l1\<rparr>;
          sd = (if has_current_curve sd then
                  let path = left sd;
                      sd = sd\<lparr>right := path_builder_add_reverse_path prm (right sd) path\<rparr>
                  in if \<not> is_first_curve sd then
                       sd\<lparr>right := path_builder_add_curve (right sd) (gsk_curve_reverse (sd_l0 sd))\<rparr>
                     else sd
                else sd);
          sd = sd\<lparr>right := add_line_cap (right sd) (stroke sd) l0 r0\<rparr>;
          sd = (if has_current_curve sd then
                  if \<not> is_first_curve sd then
                    sd\<lparr>right := path_builder_add_curve (right sd) (sd_r0 sd)\<rparr>
                  else sd
                else sd);
          sd = sd\<lparr>right := gsk_path_builder_close (right sd)\<rparr>;
          path = right sd;
          sd = sd\<lparr>builder := gsk_path_builder_add_path (builder sd) path\<rparr>
      in sd\<lparr>left := [], right := []\<rparr>)"

definition close_contours :: "prims \<Rightarrow> StrokeData \<Rightarrow> StrokeData" where
  "close_contours prm sd =
     (let sd = (if has_current_curve sd then
                  let sd = add_segments prm sd Field_c0 Field_r0 Field_l0;
                      sd = sd\<lparr>right := path_builder_add_curve (right sd) (sd_r sd)\<rparr>
                  in sd\<lparr>left := path_builder_add_curve (left sd) (sd_l sd)\<rparr>
                else sd);
          sd = sd\<lparr>right := gsk_path_builder_close (right sd)\<rparr>;
          sd = sd\<lparr>left := gsk_path_builder_close (left sd)\<rparr>;
          path = right sd;
          sd = sd\<lparr>builder := gsk_path_builder_add_path (builder sd) path\<rparr>;
          path = left sd;
          sd = sd\<lparr>builder := gsk_path_builder_add_path (builder sd) path\<rparr>
      in sd\<lparr>left := [], right := []\<rparr>)"

subsection \<open>The callback and the driver (lines 809-906)\<close>

fun stroke_op :: "nat \<Rightarrow> prims \<Rightarrow> path_op \<Rightarrow> StrokeData \<Rightarrow> StrokeData option" where
  "stroke_op fuel prm (MOVE p) sd =
     (let sd = (if has_current_point sd then cap_and_connect_contours prm sd else sd);
          curve = LineCurve p (fst p + 1, snd p)
      in Some (sd\<lparr>sd_r0 := gsk_curve_offset prm curve (line_width (stroke sd) / 2),
                  sd_l0 := gsk_curve_offset prm curve (- line_width (stroke sd) / 2),
                  right := [], left := [],
                  has_current_point := True, has_current_curve := False\<rparr>))"
| "stroke_op fuel prm (CLOSE p0 p1) sd =
     (let sd = (if has_current_point sd then
                  let sd = (if \<not> graphene_point_near p0 p1 0.001
                            then add_curve prm sd (LineCurve p0 p1) else sd)
                  in close_contours prm sd
                else sd)
      in Some (sd\<lparr>has_current_point := False, has_current_curve := False\<rparr>))"
| "stroke_op fuel prm (LINE p0 p1) sd = Some (add_curve prm sd (LineCurve p0 p1))"
| "stroke_op fuel prm (CURVE p0 p1 p2 p3) sd =
     subdivide_and_add_curve fuel prm sd (CubicCurve p0 p1 p2 p3) MAX_SUBDIVISION"
| "stroke_op fuel prm (CONIC p0 p1 p2 w) sd =
     subdivide_and_add_conic fuel prm sd (ConicCurve p0 p1 w p2) MAX_SUBDIVISION"

text \<open>
  Modelled from the spec: \<^verbatim>\<open>gsk_contour_foreach\<close> of gskcontour.c, which hands the
  operations of the contour to the callback in source order (section 6); the callback
  always returns \<^verbatim>\<open>TRUE\<close>, so the walk never stops early. A contour is the list of its
  operations.
\<close>

fun gsk_contour_foreach :: "nat \<Rightarrow> prims \<Rightarrow> path_op list \<Rightarrow> StrokeData \<Rightarrow> StrokeData option" where
  "gsk_contour_foreach fuel prm [] sd = Some sd"
| "gsk_contour_foreach fuel prm (pop # pops) sd =
     (case stroke_op fuel prm pop sd of
        None \<Rightarrow> None
      | Some sd \<Rightarrow> gsk_contour_foreach fuel prm pops sd)"

text \<open>\<^verbatim>\<open>memset (&stroke_data, 0, sizeof (StrokeData))\<close>: the flags are false, the builders
  \<^verbatim>\<open>NULL\<close>, and the curves are read only after a move or a segment has set them.\<close>

definition stroke_data_init :: "GskPath list \<Rightarrow> GskStroke \<Rightarrow> StrokeData" where
  "stroke_data_init b stk =
     \<lparr>builder = b, stroke = stk, left = [], right = [],
      has_current_point = False, has_current_curve = False, is_first_curve = False,
      sd_c = LineCurve (0, 0) (0, 0), sd_l = LineCurve (0, 0) (0, 0), sd_r = LineCurve (0, 0) (0, 0),
      sd_c0 = LineCurve (0, 0) (0, 0), sd_l0 = LineCurve (0, 0) (0, 0), sd_r0 = LineCurve (0, 0) (0, 0)\<rparr>"

text \<open>The result is the content of \<^verbatim>\<open>builder\<close> when the function returns. With dashes the
  operations are those of \<^verbatim>\<open>gsk_contour_dash\<close>, a parameter.\<close>

definition gsk_contour_default_add_stroke ::
  "nat \<Rightarrow> prims \<Rightarrow> path_op list \<Rightarrow> GskPath list \<Rightarrow> GskStroke \<Rightarrow> GskPath list option" where
  "gsk_contour_default_add_stroke fuel prm contour b stk =
     (let stroke_data = stroke_data_init b stk;
          res = (if dash_length stk \<le> 0 then gsk_contour_foreach fuel prm contour stroke_data
                 else gsk_contour_foreach fuel prm (contour_dash prm stk contour) stroke_data)
      in case res of
           None \<Rightarrow> None
         | Some stroke_data \<Rightarrow>
             Some (builder (if has_current_point stroke_data
                            then cap_and_connect_contours prm stroke_data
                            else stroke_data)))"

subsection \<open>Notions used to state the properties\<close>

text \<open>
  The pieces that \<^verbatim>\<open>subdivide_and_add_curve\<close> hands to \<^verbatim>\<open>add_curve\<close>, in the order of the
  calls, each with the \<^verbatim>\<open>level\<close> at which it was accepted: the recursion of
  \<^const>\<open>subdivide_and_add_curve\<close> with the state left out. Lemma \<open>subdivide_and_add_curve_pieces\<close>
  below relates the two.
\<close>

primrec subdivide_curve_pieces :: "nat \<Rightarrow> prims \<Rightarrow> GskCurve \<Rightarrow> int \<Rightarrow> (int \<times> GskCurve) list option" where
  "subdivide_curve_pieces 0 prm curve level = None"
| "subdivide_curve_pieces (Suc fuel) prm curve level =
     (if level = 0 \<or> (level < MAX_SUBDIVISION \<and> cubic_is_simple curve) then
        Some [(level, curve)]
      else
        let t = (if level = MAX_SUBDIVISION then sort ([0, 1] @ cubic_curvature_points curve)
                 else [0, 1]);
            n = length t
        in if n = 2 then
             (case gsk_curve_split prm curve 0.5 of
                (c1, c2) \<Rightarrow>
                  (case subdivide_curve_pieces fuel prm c1 (level - 1) of
                     None \<Rightarrow> None
                   | Some ps1 \<Rightarrow>
                       (case subdivide_curve_pieces fuel prm c2 (level - 1) of
                          None \<Rightarrow> None
                        | Some ps2 \<Rightarrow> Some (ps1 @ ps2))))
           else
             fold (\<lambda>i res.
                     case res of
                       None \<Rightarrow> None
                     | Some ps \<Rightarrow>
                         (case subdivide_curve_pieces fuel prm
                                 (gsk_curve_segment prm curve (t ! i) (t ! (i + 1))) (level - 1) of
                            None \<Rightarrow> None
                          | Some ps' \<Rightarrow> Some (ps @ ps')))
               [0..<n - 1] (Some []))"

text \<open>The operations that carry a segment: a line, a cubic or a conic.\<close>

fun is_segment :: "path_op \<Rightarrow> bool" where
  "is_segment (LINE p0 p1) = True"
| "is_segment (CURVE p0 p1 p2 p3) = True"
| "is_segment (CONIC p0 p1 p2 w) = True"
| "is_segment (MOVE p) = False"
| "is_segment (CLOSE p0 p1) = False"

text \<open>Handing a list of such pieces to \<^verbatim>\<open>add_curve\<close>, one after the other.\<close>

definition add_pieces :: "prims \<Rightarrow> (int \<times> GskCurve) list \<Rightarrow> StrokeData \<Rightarrow> StrokeData" where
  "add_pieces prm ps sd = fold (\<lambda>p sd. add_curve prm sd (snd p)) ps sd"

text \<open>The segments of a path: the curves of its operations other than moves, in order.\<close>

definition path_segments :: "prims \<Rightarrow> GskPath \<Rightarrow> GskCurve list" where
  "path_segments prm path = List.map_filter gsk_curve_init_foreach (gsk_path_foreach prm path)"

text \<open>
  The examples stroke the square with corners (0, 0), (10, 0), (10, 10), (0, 10) with a
  pen of width 2, butt caps, miter joins and miter limit 4. \<open>square_state\<close> is the state of
  the stroker on the way: the two builders, \<^verbatim>\<open>is_first_curve\<close>, and the curves \<^verbatim>\<open>c\<close>,
  \<^verbatim>\<open>l\<close>, \<^verbatim>\<open>r\<close>, \<^verbatim>\<open>l0\<close>, \<^verbatim>\<open>r0\<close>.
\<close>

definition square_stroke :: GskStroke where
  "square_stroke = \<lparr>line_width = 2, line_cap = GSK_LINE_CAP_BUTT, line_join = GSK_LINE_JOIN_MITER,
      miter_limit = 4, dash_length = 0\<rparr>"

definition square_state ::
  "GskPathBuilder \<Rightarrow> GskPathBuilder \<Rightarrow> bool \<Rightarrow> GskCurve \<Rightarrow> GskCurve \<Rightarrow> GskCurve \<Rightarrow> GskCurve \<Rightarrow> GskCurve \<Rightarrow> StrokeData" where
  "square_state lf rt first cc ll rr ll0 rr0 =
     \<lparr>builder = [], stroke = square_stroke, left = lf, right = rt,
      has_current_point = True, has_current_curve = True, is_first_curve = first,
      sd_c = cc, sd_l = ll, sd_r = rr, sd_c0 = LineCurve (0, 0) (10, 0), sd_l0 = ll0, sd_r0 = rr0\<rparr>"

section \<open>Properties\<close>

subsection \<open>Rounding to float\<close>

lemma round_to_even_int: "round_to_even (of_int m) = m"
  by (simp add: round_to_even_def)

lemma round_to_even_bounds: "\<lfloor>y\<rfloor> \<le> round_to_even y \<and> round_to_even y \<le> \<lfloor>y\<rfloor> + 1"
  by (simp add: round_to_even_def Let_def)

lemma round_to_even_mono:
  assumes "x \<le> y" shows "round_to_even x \<le> round_to_even y"
proof (cases "\<lfloor>x\<rfloor> = \<lfloor>y\<rfloor>")
  case True
  then show ?thesis using assms by (auto simp: round_to_even_def Let_def)
next
  case False
  then have "\<lfloor>x\<rfloor> + 1 \<le> \<lfloor>y\<rfloor>" using floor_mono[OF assms] by linarith
  then show ?thesis
    using round_to_even_bounds[of x] round_to_even_bounds[of y] by linarith
qed

lemma round_to_even_nearest:
  assumes "of_int m - 1 / 2 < y" and "y < of_int m + 1 / 2"
  shows "round_to_even y = m"
proof (cases "of_int m \<le> y")
  case True
  then have "\<lfloor>y\<rfloor> = m" using assms by linarith
  then show ?thesis using assms by (simp add: round_to_even_def Let_def)
next
  case False
  then have "\<lfloor>y\<rfloor> = m - 1" using assms by linarith
  then show ?thesis using assms False by (simp add: round_to_even_def Let_def)
qed

lemma round_to_even_minus: "round_to_even (- y) = - round_to_even y"
proof (cases "y = of_int \<lfloor>y\<rfloor>")
  case True
  then obtain m where "y = of_int m" ..
  then show ?thesis using round_to_even_int[of m] round_to_even_int[of "- m"] by simp
next
  case False
  then have "of_int \<lfloor>y\<rfloor> < y" using of_int_floor_le[of y] by linarith
  then have f: "\<lfloor>- y\<rfloor> = - \<lfloor>y\<rfloor> - 1" by linarith
  show ?thesis
    unfolding round_to_even_def Let_def f
    by (auto simp: algebra_simps)
qed

lemma to_float_zero: "to_float 0 = 0"
  by (simp add: to_float_def)

lemma to_float_minus: "to_float (- x) = - to_float x"
  by (simp add: to_float_def Let_def round_to_even_minus)

lemma to_float_normal:
  assumes "2 powr of_int k \<le> \<bar>x\<bar>" and "\<bar>x\<bar> < 2 powr of_int (k + 1)" and "- 126 \<le> k"
  shows "to_float x = 2 powr (of_int k - 23) * of_int (round_to_even (x / 2 powr (of_int k - 23)))"
proof -
  have pos: "0 < \<bar>x\<bar>" using assms(1) powr_gt_zero[of 2 "of_int k"] by linarith
  have "\<lfloor>log 2 \<bar>x\<bar>\<rfloor> = k"
    using assms(1,2) pos by (simp add: floor_log_eq_powr_iff)
  then show ?thesis using pos assms(3) by (simp add: to_float_def Let_def max_def)
qed

lemma to_float_subnormal:
  assumes "\<bar>x\<bar> < 2 powr (- 126)"
  shows "to_float x = 2 powr (- 149) * of_int (round_to_even (x / 2 powr (- 149)))"
proof (cases "x = 0")
  case True
  then show ?thesis by (simp add: to_float_def round_to_even_def)
next
  case False
  then have pos: "0 < \<bar>x\<bar>" by simp
  have "log 2 \<bar>x\<bar> < - 126"
    using assms pos by (simp add: log_less_iff)
  then have "\<lfloor>log 2 \<bar>x\<bar>\<rfloor> < - 126" by linarith
  then show ?thesis using False by (simp add: to_float_def Let_def max_def)
qed

lemma to_float_nonneg:
  assumes "0 \<le> x" shows "0 \<le> to_float x"
proof -
  have "0 \<le> round_to_even (x / 2 powr r)" for r
  proof -
    have "0 \<le> x / 2 powr r" using assms by simp
    then have "0 \<le> \<lfloor>x / 2 powr r\<rfloor>" by simp
    then show ?thesis using round_to_even_bounds[of "x / 2 powr r"] by linarith
  qed
  then show ?thesis by (simp add: to_float_def Let_def)
qed

lemma to_float_upper:
  assumes "0 < x"
  shows "to_float x \<le> 2 powr (of_int (max \<lfloor>log 2 x\<rfloor> (- 126)) + 1)"
proof -
  define e where "e = max \<lfloor>log 2 x\<rfloor> (- 126)"
  define u :: real where "u = 2 powr (of_int e - 23)"
  have u: "0 < u" by (simp add: u_def)
  have "x < 2 powr (of_int \<lfloor>log 2 x\<rfloor> + 1)"
    using assms floor_log_eq_powr_iff[of x 2 "\<lfloor>log 2 x\<rfloor>"] by simp
  also have "\<dots> \<le> 2 powr (of_int e + 1)" by (simp add: e_def)
  finally have "x < 2 powr (of_int e + 1)" .
  moreover have "2 powr (of_int e + 1) = u * 2 powr 24"
    by (simp add: u_def powr_diff powr_add)
  ultimately have "x / u < 2 powr 24" using u by (simp add: field_simps)
  then have "x / u \<le> of_int (2 ^ 24)" by simp
  then have "round_to_even (x / u) \<le> 2 ^ 24"
    using round_to_even_mono[of "x / u" "of_int (2 ^ 24)"] round_to_even_int[of "2 ^ 24"] by simp
  then have "of_int (round_to_even (x / u)) \<le> (2 powr 24 :: real)"
    by simp
  then have "u * of_int (round_to_even (x / u)) \<le> u * 2 powr 24"
    using u by simp
  then show ?thesis
    using assms by (simp add: to_float_def Let_def e_def[symmetric] u_def[symmetric]
        \<open>2 powr (of_int e + 1) = u * 2 powr 24\<close>)
qed

lemma to_float_lower:
  assumes "0 < x" and "- 126 \<le> \<lfloor>log 2 x\<rfloor>"
  shows "2 powr of_int \<lfloor>log 2 x\<rfloor> \<le> to_float x"
proof -
  define e where "e = \<lfloor>log 2 x\<rfloor>"
  define u :: real where "u = 2 powr (of_int e - 23)"
  have u: "0 < u" by (simp add: u_def)
  have m: "max e (- 126) = e" using assms(2) by (simp add: e_def)
  have "2 powr of_int e \<le> x"
    using assms(1) floor_log_eq_powr_iff[of x 2 e] by (simp add: e_def)
  moreover have eq: "2 powr of_int e = u * 2 powr 23"
    by (simp add: u_def powr_diff powr_add)
  ultimately have "2 powr 23 \<le> x / u" using u by (simp add: field_simps)
  then have "of_int (2 ^ 23) \<le> x / u" by simp
  then have "2 ^ 23 \<le> round_to_even (x / u)"
    using round_to_even_mono[of "of_int (2 ^ 23)" "x / u"] round_to_even_int[of "2 ^ 23"] by simp
  then have "(2 powr 23 :: real) \<le> of_int (round_to_even (x / u))"
    by simp
  then have "u * 2 powr 23 \<le> u * of_int (round_to_even (x / u))"
    using u by simp
  then show ?thesis
    using assms(1) by (simp add: to_float_def Let_def m u_def[symmetric] e_def[symmetric] eq)
qed

lemma to_float_mono_pos:
  assumes "0 < x" and "x \<le> y"
  shows "to_float x \<le> to_float y"
proof -
  define ex where "ex = max \<lfloor>log 2 x\<rfloor> (- 126)"
  define ey where "ey = max \<lfloor>log 2 y\<rfloor> (- 126)"
  have y: "0 < y" using assms by simp
  have "log 2 x \<le> log 2 y" using assms by simp
  then have fl: "\<lfloor>log 2 x\<rfloor> \<le> \<lfloor>log 2 y\<rfloor>" by (rule floor_mono)
  then have le: "ex \<le> ey" unfolding ex_def ey_def by linarith
  show ?thesis
  proof (cases "ex = ey")
    case True
    have "x / 2 powr (of_int ey - 23) \<le> y / 2 powr (of_int ey - 23)"
      using assms(2) by (simp add: divide_right_mono)
    then have "round_to_even (x / 2 powr (of_int ey - 23)) \<le> round_to_even (y / 2 powr (of_int ey - 23))"
      by (rule round_to_even_mono)
    then show ?thesis
      using assms(1) y True
      by (simp add: to_float_def Let_def ex_def[symmetric] ey_def[symmetric])
  next
    case False
    then have lt: "ex + 1 \<le> ey" using le by simp
    then have "- 126 < ey" by (simp add: ex_def)
    then have eyl: "ey = \<lfloor>log 2 y\<rfloor>" "- 126 \<le> \<lfloor>log 2 y\<rfloor>" by (simp_all add: ey_def max_def split: if_splits)
    have "to_float x \<le> 2 powr (of_int ex + 1)"
      using to_float_upper[OF assms(1)] by (simp add: ex_def)
    also have "\<dots> \<le> 2 powr of_int ey"
    proof -
      have "real_of_int ex + 1 \<le> real_of_int ey" using lt by linarith
      then show ?thesis by simp
    qed
    also have "\<dots> \<le> to_float y"
      using to_float_lower[OF y eyl(2)] eyl(1) by simp
    finally show ?thesis .
  qed
qed

lemma to_float_mono:
  assumes "x \<le> y" shows "to_float x \<le> to_float y"
proof -
  consider "0 < x" | "x \<le> 0" "0 \<le> y" | "y < 0" by linarith
  then show ?thesis
  proof cases
    case 1
    then show ?thesis using assms by (rule to_float_mono_pos)
  next
    case 2
    have "0 \<le> to_float (- x)" using 2(1) by (simp add: to_float_nonneg)
    then have "to_float x \<le> 0" by (simp add: to_float_minus)
    then show ?thesis using to_float_nonneg[OF 2(2)] by linarith
  next
    case 3
    then have "to_float (- y) \<le> to_float (- x)"
      using assms by (intro to_float_mono_pos) simp_all
    then show ?thesis by (simp add: to_float_minus)
  qed
qed

lemma to_float_nearest:
  assumes "2 powr of_int k \<le> \<bar>x\<bar>" and "\<bar>x\<bar> < 2 powr of_int (k + 1)" and "- 126 \<le> k"
      and "of_int m - 1 / 2 < x / 2 powr (of_int k - 23)"
      and "x / 2 powr (of_int k - 23) < of_int m + 1 / 2"
  shows "to_float x = 2 powr (of_int k - 23) * of_int m"
  using to_float_normal[OF assms(1,2,3)] round_to_even_nearest[OF assms(4,5)] by simp

lemma to_float_one: "to_float 1 = 1"
  using to_float_nearest[of 0 1 8388608] by (simp add: powr_minus)

lemma to_float_half: "to_float (1 / 2) = 1 / 2"
  using to_float_nearest[of "- 1" "1 / 2" 8388608] by (simp add: powr_minus)

lemma to_float_representable:
  assumes "8388608 \<le> \<bar>m\<bar>" and "\<bar>m\<bar> < 16777216" and "- 126 \<le> k"
  shows "to_float (of_int m * 2 powr (of_int k - 23)) = of_int m * 2 powr (of_int k - 23)"
proof -
  define u :: real where "u = 2 powr (of_int k - 23)"
  have u: "0 < u" by (simp add: u_def)
  have k: "2 powr of_int k = 8388608 * u" "2 powr of_int (k + 1) = 16777216 * u"
    by (simp_all add: u_def powr_diff powr_add)
  have a: "\<bar>of_int m * u\<bar> = of_int \<bar>m\<bar> * u" using u by (simp add: abs_mult)
  have m: "8388608 \<le> \<bar>real_of_int m\<bar>" "\<bar>real_of_int m\<bar> < 16777216"
    using assms(1,2) by linarith+
  have "8388608 * u \<le> of_int \<bar>m\<bar> * u"
    using m(1) u by (intro mult_right_mono) simp_all
  moreover have "of_int \<bar>m\<bar> * u < 16777216 * u"
    using m(2) u by (intro mult_strict_right_mono) simp_all
  ultimately have "to_float (of_int m * u) = u * of_int (round_to_even (of_int m * u / u))"
    unfolding u_def using to_float_normal[of k "of_int m * 2 powr (of_int k - 23)"] assms(3) k a
    by (simp add: u_def)
  then show ?thesis using u by (simp add: round_to_even_int u_def)
qed

subsection \<open>Bounds on \<open>pi\<close> and on the cosine\<close>

text \<open>
  The partial sums of the arc tangent series enclose the arc tangent; with Machin's
  formula they give \<open>pi\<close> to ten digits. The cosine is enclosed by its Taylor polynomial
  and the Lagrange remainder.
\<close>

lemma arctan_partial_sums:
  assumes "0 \<le> x" and "x \<le> 1"
  shows "(\<Sum>i<2 * n. (- 1) ^ i * (1 / real (i * 2 + 1) * x ^ (i * 2 + 1))) \<le> arctan x"
    and "arctan x \<le> (\<Sum>i<2 * n + 1. (- 1) ^ i * (1 / real (i * 2 + 1) * x ^ (i * 2 + 1)))"
proof -
  let ?a = "\<lambda>n. 1 / real (n * 2 + 1) * x ^ (n * 2 + 1)"
  have z: "?a \<longlonglongrightarrow> 0" using zeroseq_arctan_series[of x] assms by simp
  have p: "0 \<le> ?a n" for n using assms by simp
  have m: "?a (Suc n) \<le> ?a n" for n
  proof -
    have "x ^ (Suc n * 2 + 1) \<le> x ^ (n * 2 + 1)"
      using assms by (intro power_decreasing) simp_all
    moreover have "1 / real (Suc n * 2 + 1) \<le> 1 / real (n * 2 + 1)"
      by (simp add: field_simps)
    ultimately show ?thesis
      using assms by (intro mult_mono) simp_all
  qed
  have s: "arctan x = (\<Sum>k. (- 1) ^ k * ?a k)"
    using arctan_series[of x] assms by simp
  show "(\<Sum>i<2 * n. (- 1) ^ i * ?a i) \<le> arctan x"
    unfolding s by (rule summable_Leibniz'(2)[OF z p m])
  show "arctan x \<le> (\<Sum>i<2 * n + 1. (- 1) ^ i * ?a i)"
    unfolding s by (rule summable_Leibniz'(4)[OF z p m])
qed

lemma pi_bounds: "31415926535 / 10000000000 < pi" "pi < 31415926536 / 10000000000"
proof -
  have m: "pi = 16 * arctan (1 / 5) - 4 * arctan (1 / 239)"
    using machin by simp
  have l5: "(\<Sum>i<2 * 4. (- 1) ^ i * (1 / real (i * 2 + 1) * (1 / 5) ^ (i * 2 + 1))) \<le> arctan (1 / 5)"
    by (rule arctan_partial_sums) simp_all
  have u5: "arctan (1 / 5) \<le> (\<Sum>i<2 * 4 + 1. (- 1) ^ i * (1 / real (i * 2 + 1) * (1 / 5) ^ (i * 2 + 1)))"
    by (rule arctan_partial_sums) simp_all
  have l239: "(\<Sum>i<2 * 1. (- 1) ^ i * (1 / real (i * 2 + 1) * (1 / 239) ^ (i * 2 + 1))) \<le> arctan (1 / 239)"
    by (rule arctan_partial_sums) simp_all
  have u239: "arctan (1 / 239) \<le> (\<Sum>i<2 * 1 + 1. (- 1) ^ i * (1 / real (i * 2 + 1) * (1 / 239) ^ (i * 2 + 1)))"
    by (rule arctan_partial_sums) simp_all
  show "31415926535 / 10000000000 < pi"
    using l5 u239 unfolding m by (simp add: eval_nat_numeral)
  show "pi < 31415926536 / 10000000000"
    using u5 l239 unfolding m by (simp add: eval_nat_numeral)
qed

lemma cos_taylor:
  "\<bar>cos x - (\<Sum>m<n. cos_coeff m * x ^ m)\<bar> \<le> \<bar>x\<bar> ^ n / fact n"
proof -
  obtain t where t: "cos x = (\<Sum>m<n. cos_coeff m * x ^ m) + (cos (t + 1 / 2 * real n * pi) / fact n) * x ^ n"
    using Maclaurin_cos_expansion[of x n] by blast
  have "\<bar>cos x - (\<Sum>m<n. cos_coeff m * x ^ m)\<bar> = \<bar>cos (t + 1 / 2 * real n * pi)\<bar> * (\<bar>x\<bar> ^ n / fact n)"
    unfolding t by (simp add: abs_mult power_abs)
  also have "\<dots> \<le> 1 * (\<bar>x\<bar> ^ n / fact n)"
    by (intro mult_right_mono) simp_all
  finally show ?thesis by simp
qed

lemma cos_sum10:
  "(\<Sum>m<10. cos_coeff m * x ^ m) = 1 - x ^ 2 / 2 + x ^ 4 / 24 - x ^ 6 / 720 + x ^ 8 / 40320"
  by (simp add: eval_nat_numeral cos_coeff_Suc sin_coeff_Suc)

lemma sin_half_supplement: "sin ((pi - x) / 2) = cos (x / 2)"
proof -
  have "sin ((pi - x) / 2) = sin (pi / 2 - x / 2)" by (simp add: diff_divide_distrib)
  also have "\<dots> = cos (x / 2)" using cos_sin_eq[of "x / 2"] by simp
  finally show ?thesis .
qed

subsection \<open>The turn angle\<close>

lemma atan2_bounds: "- pi < atan2 y x \<and> atan2 y x \<le> pi"
proof -
  have a: "- (pi / 2) < arctan (y / x)" "arctan (y / x) < pi / 2"
    using arctan_lbound arctan_ubound by auto
  have p: "0 < pi" by simp
  show ?thesis
  proof (cases "0 < x")
    case True then show ?thesis using a p by (simp add: atan2_def)
  next
    case False
    show ?thesis
    proof (cases "x < 0")
      case xn: True
      show ?thesis
      proof (cases "0 \<le> y")
        case True
        then have "y / x \<le> 0" using xn by (simp add: divide_nonneg_neg)
        then have "arctan (y / x) \<le> 0" by (simp add: arctan_le_zero_iff)
        then show ?thesis using xn True a p by (simp add: atan2_def)
      next
        case yn: False
        then have "0 < y / x" using xn by (simp add: divide_neg_neg)
        then have "0 < arctan (y / x)" by (simp add: zero_less_arctan_iff)
        then show ?thesis using xn yn a p by (simp add: atan2_def)
      qed
    next
      case xz: False
      have "atan2 y x = pi / 2 \<or> atan2 y x = - (pi / 2) \<or> atan2 y x = 0"
        using xz False by (auto simp: atan2_def)
      then show ?thesis using p by (elim disjE) linarith+
    qed
  qed
qed

text \<open>The two floats next to \<open>pi\<close>.\<close>

lemma pi_between_floats: "13176794 / 4194304 < pi" "pi < 13176795 / 4194304"
  using pi_bounds by simp_all

lemma to_float_below_pi: "to_float (13176794 / 4194304) = 13176794 / 4194304"
  using to_float_representable[of 13176794 1] by (simp add: powr_minus)

lemma to_float_above_pi: "to_float (13176795 / 4194304) = 13176795 / 4194304"
  using to_float_representable[of 13176795 1] by (simp add: powr_minus)

lemma to_float_above_two_pi: "to_float (13176795 / 2097152) = 13176795 / 2097152"
  using to_float_representable[of 13176795 2] by (simp add: powr_minus)

lemma no_float_around_pi:
  "to_float x \<le> 13176794 / 4194304 \<or> 13176795 / 4194304 \<le> to_float x"
proof -
  consider "x \<le> 13176794 / 4194304" | "13176795 / 4194304 \<le> x"
    | "13176794 / 4194304 < x" "x < 13176795 / 4194304" by linarith
  then show ?thesis
  proof cases
    case 1
    then show ?thesis using to_float_mono[OF 1] to_float_below_pi by simp
  next
    case 2
    then show ?thesis using to_float_mono[OF 2] to_float_above_pi by simp
  next
    case 3
    have f: "to_float x = 2 powr (of_int 1 - 23) * of_int (round_to_even (x / 2 powr (of_int 1 - 23)))"
      using 3 by (intro to_float_normal) simp_all
    have "\<lfloor>x * 4194304\<rfloor> = 13176794" using 3 by linarith
    then have "round_to_even (x * 4194304) = 13176794 \<or> round_to_even (x * 4194304) = 13176795"
      using round_to_even_bounds[of "x * 4194304"] by linarith
    then show ?thesis using f by (auto simp: powr_minus)
  qed
qed

lemma to_float_two_pi_less: "to_float (2 * pi - 13176795 / 4194304) = 13176794 / 4194304"
  using pi_bounds to_float_nearest[of 1 "2 * pi - 13176795 / 4194304" 13176794]
  by (simp add: powr_minus)

text \<open>
  C8: for all tangent vectors \<open>t1\<close> and \<open>t2\<close> (unit vectors or not), the angle that
  \<^verbatim>\<open>angle_between\<close> returns, the difference of the two arcs stored in a \<^verbatim>\<open>float\<close> and
  normalised, lies in the half-open interval from \<open>- pi\<close>, excluded, to \<open>pi\<close>, included.
  No \<^verbatim>\<open>float\<close> equals \<open>pi\<close> or \<open>- pi\<close>: a stored difference that is not above \<open>pi\<close> is
  at most the float below \<open>pi\<close>, one that is not below \<open>- pi\<close> is at least the float
  above \<open>- pi\<close>, and the correction by \<open>2 * pi\<close> takes a stored difference beyond
  \<open>pi\<close> or \<open>- pi\<close> to a value whose rounding lies between the float above \<open>- pi\<close> and
  the float below \<open>pi\<close>.
\<close>

theorem turn_angle_half_open_range:
  "- pi < angle_between t1 t2 \<and> angle_between t1 t2 \<le> pi"
proof -
  define d where "d = atan2 (snd t2) (fst t2) - atan2 (snd t1) (fst t1)"
  define a0 where "a0 = to_float d"
  have d: "- (2 * pi) \<le> d" "d \<le> 2 * pi"
    using atan2_bounds[of "snd t2" "fst t2"] atan2_bounds[of "snd t1" "fst t1"]
    by (simp_all add: d_def)
  have p: "13176794 / 4194304 < pi" "pi < 13176795 / 4194304" by (rule pi_between_floats)+
  have hi: "a0 \<le> 13176795 / 2097152"
  proof -
    have "d \<le> 13176795 / 2097152" using d(2) p(2) by simp
    from to_float_mono[OF this] show ?thesis by (simp add: a0_def to_float_above_two_pi)
  qed
  have lo: "- (13176795 / 2097152) \<le> a0"
  proof -
    have "- d \<le> 13176795 / 2097152" using d(1) p(2) by simp
    from to_float_mono[OF this] show ?thesis
      by (simp add: a0_def to_float_above_two_pi to_float_minus)
  qed
  have gap: "a0 \<le> 13176794 / 4194304 \<or> 13176795 / 4194304 \<le> a0"
    unfolding a0_def by (rule no_float_around_pi)
  have gap': "- (13176794 / 4194304) \<le> a0 \<or> a0 \<le> - (13176795 / 4194304)"
    using no_float_around_pi[of "- d"] by (auto simp: a0_def to_float_minus)
  have r: "angle_between t1 t2 =
             (if a0 > pi then
                (if to_float (a0 - 2 * pi) < - pi then to_float (to_float (a0 - 2 * pi) + 2 * pi)
                 else to_float (a0 - 2 * pi))
              else if a0 < - pi then to_float (a0 + 2 * pi) else a0)"
    by (simp add: angle_between_def Let_def d_def a0_def)
  show ?thesis
  proof (cases "a0 > pi")
    case True
    then have ge: "13176795 / 4194304 \<le> a0" using gap p(1) by linarith
    have "- (a0 - 2 * pi) \<le> 2 * pi - 13176795 / 4194304" using ge by simp
    from to_float_mono[OF this] have "- to_float (a0 - 2 * pi) \<le> 13176794 / 4194304"
      by (simp only: to_float_two_pi_less to_float_minus)
    then have l: "- (13176794 / 4194304) \<le> to_float (a0 - 2 * pi)" by linarith
    have "a0 - 2 * pi \<le> 1" using hi pi_bounds(1) by simp
    from to_float_mono[OF this] have u: "to_float (a0 - 2 * pi) \<le> 1"
      by (simp add: to_float_one)
    show ?thesis unfolding r using True l u p pi_bounds(1) by simp
  next
    case False
    then have le: "a0 \<le> 13176794 / 4194304" using gap p(2) by linarith
    show ?thesis
    proof (cases "a0 < - pi")
      case True
      then have le2: "a0 \<le> - (13176795 / 4194304)" using gap' p(1) by linarith
      then have "a0 + 2 * pi \<le> 2 * pi - 13176795 / 4194304" by simp
      from to_float_mono[OF this] have u: "to_float (a0 + 2 * pi) \<le> 13176794 / 4194304"
        by (simp add: to_float_two_pi_less)
      have "- 1 \<le> a0 + 2 * pi" using lo pi_bounds(1) by simp
      from to_float_mono[OF this] have l: "- 1 \<le> to_float (a0 + 2 * pi)"
        by (simp add: to_float_minus to_float_one)
      show ?thesis unfolding r using True False l u p pi_bounds(1) by simp
    next
      case nl: False
      then have "- (13176794 / 4194304) \<le> a0" using gap' p(2) by linarith
      then show ?thesis unfolding r using False nl le p by simp
    qed
  qed
qed

text \<open>
  The three ways through \<^verbatim>\<open>angle_between\<close>: the stored difference is returned, or it
  is below \<open>- pi\<close> and corrected, or above \<open>pi\<close> and corrected.
\<close>

lemma angle_between_plain:
  assumes "atan2 (snd t2) (fst t2) - atan2 (snd t1) (fst t1) = d" and "to_float d = a"
      and "\<not> a > pi" and "\<not> a < - pi"
  shows "angle_between t1 t2 = a"
  using assms by (simp add: angle_between_def Let_def)

lemma angle_between_low:
  assumes "atan2 (snd t2) (fst t2) - atan2 (snd t1) (fst t1) = d" and "to_float d = a0"
      and "a0 < - pi" and "to_float (a0 + 2 * pi) = a"
  shows "angle_between t1 t2 = a"
proof -
  have "\<not> a0 > pi" using assms(3) pi_gt_zero by linarith
  then show ?thesis using assms by (simp add: angle_between_def Let_def)
qed

lemma angle_between_high:
  assumes "atan2 (snd t2) (fst t2) - atan2 (snd t1) (fst t1) = d" and "to_float d = a0"
      and "a0 > pi" and "to_float (a0 - 2 * pi) = a" and "\<not> a < - pi"
  shows "angle_between t1 t2 = a"
  using assms by (simp add: angle_between_def Let_def)

text \<open>
  The reversal of direction. The difference of the arcs of \<open>(- 1, 0)\<close> and \<open>(1, 0)\<close> is
  \<open>- pi\<close>; it is stored as the float below \<open>- pi\<close>, to which \<open>2 * pi\<close> is added, and the
  function returns the float below \<open>pi\<close>. In the other direction it returns the float
  above \<open>- pi\<close>.
\<close>

lemma to_float_pi: "to_float pi = 13176795 / 4194304"
  using pi_bounds to_float_nearest[of 1 pi 13176795] by (simp add: powr_minus)

lemma angle_between_reversal:
  "angle_between (- 1, 0) (1, 0) = 13176794 / 4194304"
  "angle_between (1, 0) (- 1, 0) = - (13176794 / 4194304)"
proof -
  have p: "13176794 / 4194304 < pi" "pi < 13176795 / 4194304" by (rule pi_between_floats)+
  have a: "atan2 0 1 = 0" "atan2 0 (- 1) = pi" by (simp_all add: atan2_def)
  have m: "to_float (- pi) = - (13176795 / 4194304)" by (simp only: to_float_minus to_float_pi)
  have e: "- (13176795 / 4194304) + 2 * pi = 2 * pi - 13176795 / 4194304"
          "13176795 / 4194304 - 2 * pi = - (2 * pi - 13176795 / 4194304)" by simp_all
  have t: "to_float (- (13176795 / 4194304) + 2 * pi) = 13176794 / 4194304"
          "to_float (13176795 / 4194304 - 2 * pi) = - (13176794 / 4194304)"
    unfolding e by (simp_all only: to_float_minus to_float_two_pi_less)
  show "angle_between (- 1, 0) (1, 0) = 13176794 / 4194304"
  proof (rule angle_between_low[OF _ m _ t(1)])
    show "atan2 (snd (1, 0)) (fst (1, 0)) - atan2 (snd (- 1, 0)) (fst (- 1, 0)) = - pi"
      by (simp add: a)
    show "- (13176795 / 4194304) < - pi" using p by simp
  qed
  show "angle_between (1, 0) (- 1, 0) = - (13176794 / 4194304)"
  proof (rule angle_between_high[OF _ to_float_pi _ t(2)])
    show "atan2 (snd (- 1, 0)) (fst (- 1, 0)) - atan2 (snd (1, 0)) (fst (1, 0)) = pi"
      by (simp add: a)
    show "pi < 13176795 / 4194304" by (rule p)
    show "\<not> - (13176794 / 4194304) < - pi" using p by simp
  qed
qed

text \<open>The witness is the reversal of direction, both ways.\<close>

theorem turn_angle_half_open_range_witness:
  "angle_between (- 1, 0) (1, 0) = 13176794 / 4194304 \<and>
   - pi < angle_between (- 1, 0) (1, 0) \<and> angle_between (- 1, 0) (1, 0) \<le> pi \<and>
   angle_between (1, 0) (- 1, 0) = - (13176794 / 4194304) \<and>
   - pi < angle_between (1, 0) (- 1, 0) \<and> angle_between (1, 0) (- 1, 0) \<le> pi"
  using turn_angle_half_open_range[of "(- 1, 0)" "(1, 0)"]
        turn_angle_half_open_range[of "(1, 0)" "(- 1, 0)"] angle_between_reversal
  by blast

subsection \<open>Reversing a path\<close>

lemma add_op_eq:
  "add_op pop ops =
     (case gsk_curve_init_foreach pop of Some c \<Rightarrow> gsk_curve_reverse c # ops | None \<Rightarrow> ops)"
  by (cases pop) simp_all

lemma fold_add_op:
  "fold add_op pops acc =
     rev (map gsk_curve_reverse (List.map_filter gsk_curve_init_foreach pops)) @ acc"
proof (induction pops arbitrary: acc)
  case Nil
  then show ?case by (simp add: List.map_filter_simps)
next
  case (Cons pop pops)
  show ?case
    by (cases "gsk_curve_init_foreach pop")
       (simp_all add: Cons.IH add_op_eq[of pop] List.map_filter_simps)
qed

lemma path_builder_add_curve_append:
  "path_builder_add_curve b curve = b @ path_builder_add_curve [] curve"
  by (cases curve)
     (simp_all add: gsk_path_builder_line_to_def gsk_path_builder_curve_to_def
        gsk_path_builder_conic_to_def)

lemma fold_add_curve:
  "fold (\<lambda>curve b. path_builder_add_curve b curve) cs b =
     b @ concat (map (path_builder_add_curve []) cs)"
proof (induction cs arbitrary: b)
  case Nil
  then show ?case by simp
next
  case (Cons c cs)
  show ?case using path_builder_add_curve_append[of b c] by (simp add: Cons.IH)
qed

lemma reverse_points:
  "gsk_curve_get_start_point (gsk_curve_reverse c) = gsk_curve_get_end_point c"
  "gsk_curve_get_end_point (gsk_curve_reverse c) = gsk_curve_get_start_point c"
  by (cases c; simp)+

text \<open>
  C10: \<^verbatim>\<open>path_builder_add_reverse_path\<close> appends to the builder the segments of the path
  in reverse order, each one reversed, and nothing for a move. When the path has a
  segment, the first curve appended starts at the end point of the last segment of the
  path and the last curve appended ends at the start point of its first segment.
\<close>

theorem add_reverse_path_reverses:
  "path_builder_add_reverse_path prm b path =
     b @ concat (map (path_builder_add_curve [])
                  (rev (map gsk_curve_reverse (path_segments prm path)))) \<and>
   (path_segments prm path \<noteq> [] \<longrightarrow>
      gsk_curve_get_start_point (hd (rev (map gsk_curve_reverse (path_segments prm path))))
        = gsk_curve_get_end_point (last (path_segments prm path)) \<and>
      gsk_curve_get_end_point (last (rev (map gsk_curve_reverse (path_segments prm path))))
        = gsk_curve_get_start_point (hd (path_segments prm path)))"
  by (simp add: path_builder_add_reverse_path_def Let_def fold_add_op fold_add_curve
        path_segments_def hd_rev last_rev hd_map last_map reverse_points)

text \<open>
  The witness reverses the path that moves to (0, -1) and draws lines to (10, -1) and
  (11, 0), onto a builder standing at (11, 0): the lines come back to (10, -1) and
  (0, -1), and the move leaves no trace.
\<close>

theorem add_reverse_path_reverses_witness:
  "\<forall>prm.
     path_segments prm [Move_to (0, - 1), Line_to (10, - 1), Line_to (11, 0)]
       = [LineCurve (0, - 1) (10, - 1), LineCurve (10, - 1) (11, 0)] \<and>
     path_builder_add_reverse_path prm [Move_to (11, 0)]
         [Move_to (0, - 1), Line_to (10, - 1), Line_to (11, 0)]
       = [Move_to (11, 0), Line_to (10, - 1), Line_to (0, - 1)] \<and>
     gsk_curve_get_start_point (hd (rev (map gsk_curve_reverse
         (path_segments prm [Move_to (0, - 1), Line_to (10, - 1), Line_to (11, 0)])))) = (11, 0) \<and>
     gsk_curve_get_end_point (last (rev (map gsk_curve_reverse
         (path_segments prm [Move_to (0, - 1), Line_to (10, - 1), Line_to (11, 0)])))) = (0, - 1)"
proof
  fix prm
  let ?path = "[Move_to (0, - 1), Line_to (10, - 1), Line_to (11, 0)]"
  have segs: "path_segments prm ?path = [LineCurve (0, - 1) (10, - 1), LineCurve (10, - 1) (11, 0)]"
    by (simp add: path_segments_def gsk_path_foreach_def List.map_filter_simps)
  from add_reverse_path_reverses [of prm "[Move_to (11, 0)]" ?path]
  show "path_segments prm ?path = [LineCurve (0, - 1) (10, - 1), LineCurve (10, - 1) (11, 0)] \<and>
     path_builder_add_reverse_path prm [Move_to (11, 0)] ?path
       = [Move_to (11, 0), Line_to (10, - 1), Line_to (0, - 1)] \<and>
     gsk_curve_get_start_point (hd (rev (map gsk_curve_reverse (path_segments prm ?path)))) = (11, 0) \<and>
     gsk_curve_get_end_point (last (rev (map gsk_curve_reverse (path_segments prm ?path)))) = (0, - 1)"
    by (simp add: segs gsk_path_builder_line_to_def)
qed

subsection \<open>Termination of the subdividers\<close>

lemma fold_option_some:
  assumes "\<And>i sd. \<exists>sd'. f i sd = Some sd'"
  shows "\<exists>sd'. fold (\<lambda>i res. case res of None \<Rightarrow> None | Some sd \<Rightarrow> f i sd) xs (Some sd) = Some sd'"
proof (induction xs arbitrary: sd)
  case Nil
  then show ?case by simp
next
  case (Cons x xs)
  from assms obtain sd1 where "f x sd = Some sd1" by blast
  then show ?case using Cons.IH[of sd1] by simp
qed

lemma subdivide_and_add_curve_returns:
  "0 \<le> level \<Longrightarrow> nat level < fuel \<Longrightarrow>
   \<exists>sd'. subdivide_and_add_curve fuel prm sd curve level = Some sd'"
proof (induction fuel arbitrary: sd curve level)
  case 0
  then show ?case by simp
next
  case (Suc fuel)
  show ?case
  proof (cases "level = 0 \<or> (level < MAX_SUBDIVISION \<and> cubic_is_simple curve)")
    case True
    then show ?thesis by simp
  next
    case False
    then have l: "0 \<le> level - 1" "nat (level - 1) < fuel" using Suc.prems by auto
    have ih: "\<And>sd c. \<exists>sd'. subdivide_and_add_curve fuel prm sd c (level - 1) = Some sd'"
      using Suc.IH[OF l] by blast
    define t where "t = (if level = MAX_SUBDIVISION
                         then sort ([0, 1] @ cubic_curvature_points curve) else [0, 1])"
    show ?thesis
    proof (cases "length t = 2")
      case True
      obtain c1 c2 where s: "gsk_curve_split prm curve 0.5 = (c1, c2)" by fastforce
      obtain sd1 where 1: "subdivide_and_add_curve fuel prm sd c1 (level - 1) = Some sd1"
        using ih by blast
      obtain sd2 where 2: "subdivide_and_add_curve fuel prm sd1 c2 (level - 1) = Some sd2"
        using ih by blast
      show ?thesis using False True s 1 2 unfolding t_def by (simp add: Let_def)
    next
      case n: False
      have "\<exists>sd'. fold (\<lambda>i res. case res of None \<Rightarrow> None | Some sd \<Rightarrow>
                 subdivide_and_add_curve fuel prm sd
                   (gsk_curve_segment prm curve (t ! i) (t ! (i + 1))) (level - 1))
               [0..<length t - 1] (Some sd) = Some sd'"
        by (rule fold_option_some) (rule ih)
      then show ?thesis using False n unfolding t_def
        by (simp add: Let_def split: if_splits)
    qed
  qed
qed

lemma subdivide_and_add_conic_returns:
  "0 \<le> level \<Longrightarrow> nat level < fuel \<Longrightarrow>
   \<exists>sd'. subdivide_and_add_conic fuel prm sd curve level = Some sd'"
proof (induction fuel arbitrary: sd curve level)
  case 0
  then show ?case by simp
next
  case (Suc fuel)
  show ?case
  proof (cases "level = 0 \<or> (level < MAX_SUBDIVISION \<and> conic_is_simple curve)")
    case True
    then show ?thesis by simp
  next
    case False
    then have l: "0 \<le> level - 1" "nat (level - 1) < fuel" using Suc.prems by auto
    have ih: "\<And>sd c. \<exists>sd'. subdivide_and_add_conic fuel prm sd c (level - 1) = Some sd'"
      using Suc.IH[OF l] by blast
    obtain c1 c2 where s: "gsk_curve_split prm curve 0.5 = (c1, c2)" by fastforce
    obtain sd1 where 1: "subdivide_and_add_conic fuel prm sd c1 (level - 1) = Some sd1"
      using ih by blast
    obtain sd2 where 2: "subdivide_and_add_conic fuel prm sd1 c2 (level - 1) = Some sd2"
      using ih by blast
    show ?thesis using False s 1 2 by simp
  qed
qed

text \<open>
  C9: for every curve and every \<^verbatim>\<open>level\<close> from 0 to 8 both subdividers return. The
  recursion depth is bounded by \<^verbatim>\<open>level\<close>: a call returns as soon as \<open>fuel\<close>, the number
  of calls that may be active at once, exceeds \<^verbatim>\<open>level\<close>, so that 9 active calls (the
  first and 8 nested ones) always suffice. At level 0 the curve is accepted without a
  test.
\<close>

theorem subdividers_return_within_depth:
  assumes "0 \<le> level" and "level \<le> MAX_SUBDIVISION" and "nat level < fuel"
  shows "(\<exists>sd'. subdivide_and_add_curve fuel prm sd cubic level = Some sd') \<and>
         (\<exists>sd'. subdivide_and_add_conic fuel prm sd conic level = Some sd') \<and>
         (\<exists>sd'. subdivide_and_add_curve 9 prm sd cubic level = Some sd') \<and>
         (\<exists>sd'. subdivide_and_add_conic 9 prm sd conic level = Some sd') \<and>
         subdivide_and_add_curve fuel prm sd cubic 0 = Some (add_curve prm sd cubic) \<and>
         subdivide_and_add_conic fuel prm sd conic 0 = Some (add_curve prm sd conic)"
proof -
  have nine: "nat level < 9" using assms(1,2) by (simp add: MAX_SUBDIVISION_def)
  obtain k where k: "fuel = Suc k" using assms(3) by (cases fuel) auto
  show ?thesis
    using subdivide_and_add_curve_returns[OF assms(1) assms(3)]
          subdivide_and_add_conic_returns[OF assms(1) assms(3)]
          subdivide_and_add_curve_returns[OF assms(1) nine]
          subdivide_and_add_conic_returns[OF assms(1) nine]
    by (simp add: k)
qed

text \<open>The witness is the first call of the driver, at level 8, with room for 9 active
  calls, on the state after a move to the origin.\<close>

theorem subdividers_return_within_depth_witness:
  "\<forall>prm. (0::int) \<le> 8 \<and> 8 \<le> MAX_SUBDIVISION \<and> nat 8 < 9 \<and>
     (\<exists>sd'. subdivide_and_add_curve 9 prm (stroke_data_init [] square_stroke)
               (CubicCurve (0, 0) (10, 0) (10, 10) (20, 10)) 8 = Some sd') \<and>
     (\<exists>sd'. subdivide_and_add_conic 9 prm (stroke_data_init [] square_stroke)
               (ConicCurve (0, 0) (10, 0) 1 (10, 10)) 8 = Some sd')"
proof
  fix prm
  have h: "(0::int) \<le> 8" "8 \<le> MAX_SUBDIVISION" "nat 8 < 9"
    by (simp_all add: MAX_SUBDIVISION_def)
  from subdividers_return_within_depth [OF h, of prm "stroke_data_init [] square_stroke"
      "CubicCurve (0, 0) (10, 0) (10, 10) (20, 10)" "ConicCurve (0, 0) (10, 0) 1 (10, 10)"]
  show "(0::int) \<le> 8 \<and> 8 \<le> MAX_SUBDIVISION \<and> nat 8 < 9 \<and>
     (\<exists>sd'. subdivide_and_add_curve 9 prm (stroke_data_init [] square_stroke)
               (CubicCurve (0, 0) (10, 0) (10, 10) (20, 10)) 8 = Some sd') \<and>
     (\<exists>sd'. subdivide_and_add_conic 9 prm (stroke_data_init [] square_stroke)
               (ConicCurve (0, 0) (10, 0) 1 (10, 10)) 8 = Some sd')"
    using h by blast
qed

subsection \<open>What the orchestrator leaves untouched\<close>

lemma assign_frame:
  "assign sd p v = (sd', p') \<Longrightarrow>
     builder sd' = builder sd \<and> has_current_point sd' = has_current_point sd \<and>
     is_first_curve sd' = is_first_curve sd \<and> left sd' = left sd \<and> right sd' = right sd \<and>
     stroke sd' = stroke sd"
  by (cases p) auto

lemma append_right_frame:
  "builder (append_right sd c) = builder sd"
  "has_current_point (append_right sd c) = has_current_point sd"
  "is_first_curve (append_right sd c) = is_first_curve sd"
  "stroke (append_right sd c) = stroke sd"
  by (simp_all add: append_right_def)

lemma append_left_frame:
  "builder (append_left sd c) = builder sd"
  "has_current_point (append_left sd c) = has_current_point sd"
  "is_first_curve (append_left sd c) = is_first_curve sd"
  "stroke (append_left sd c) = stroke sd"
  by (simp_all add: append_left_def)

lemma add_segments_frame:
  "builder (add_segments prm sd curve r l) = builder sd \<and>
   has_current_point (add_segments prm sd curve r l) = has_current_point sd"
  by (auto simp: add_segments_def Let_def append_right_frame append_left_frame
      split: prod.splits option.splits dest!: assign_frame)

lemma add_curve_frame:
  "builder (add_curve prm sd curve) = builder sd"
  "has_current_point (add_curve prm sd curve) = has_current_point sd"
  by (simp_all add: add_curve_def Let_def add_segments_frame)

lemma add_pieces_append:
  "add_pieces prm (ps @ ps') sd = add_pieces prm ps' (add_pieces prm ps sd)"
  by (simp add: add_pieces_def)

lemma add_pieces_frame:
  "builder (add_pieces prm ps sd) = builder sd \<and>
   has_current_point (add_pieces prm ps sd) = has_current_point sd"
  unfolding add_pieces_def
  by (induction ps arbitrary: sd) (simp_all add: add_curve_frame)

lemma fold_none:
  "fold (\<lambda>i res. case res of None \<Rightarrow> None | Some x \<Rightarrow> f i x) xs None = None"
  by (induction xs) simp_all

lemma fold_pieces:
  assumes "\<And>i sd. F i sd = map_option (\<lambda>ps. add_pieces prm ps sd) (P i)"
  shows "fold (\<lambda>i res. case res of None \<Rightarrow> None | Some sd \<Rightarrow> F i sd) xs
           (Some (add_pieces prm acc sd0)) =
         map_option (\<lambda>ps. add_pieces prm ps sd0)
           (fold (\<lambda>i res. case res of None \<Rightarrow> None
                    | Some ps \<Rightarrow> (case P i of None \<Rightarrow> None | Some ps' \<Rightarrow> Some (ps @ ps')))
              xs (Some acc))"
proof (induction xs arbitrary: acc)
  case Nil
  then show ?case by simp
next
  case (Cons x xs)
  show ?case
  proof (cases "P x")
    case None
    then show ?thesis by (simp add: assms fold_none)
  next
    case (Some ps')
    then show ?thesis using Cons.IH[of "acc @ ps'"] by (simp add: assms add_pieces_append)
  qed
qed

text \<open>The subdivider does to the state what \<^verbatim>\<open>add_curve\<close> does with its pieces, one
  after the other.\<close>

lemma subdivide_and_add_curve_pieces:
  "subdivide_and_add_curve fuel prm sd curve level =
     map_option (\<lambda>ps. add_pieces prm ps sd) (subdivide_curve_pieces fuel prm curve level)"
proof (induction fuel arbitrary: sd curve level)
  case 0
  then show ?case by simp
next
  case (Suc fuel)
  show ?case
  proof (cases "level = 0 \<or> (level < MAX_SUBDIVISION \<and> cubic_is_simple curve)")
    case True
    then show ?thesis by (auto simp: add_pieces_def)
  next
    case False
    define t where "t = (if level = MAX_SUBDIVISION
                         then sort ([0, 1] @ cubic_curvature_points curve) else [0, 1])"
    show ?thesis
    proof (cases "length t = 2")
      case True
      obtain c1 c2 where s: "gsk_curve_split prm curve 0.5 = (c1, c2)" by fastforce
      show ?thesis using False True s unfolding t_def
        by (auto simp: Let_def Suc.IH add_pieces_append split: option.splits)
    next
      case n: False
      have "fold (\<lambda>i res. case res of None \<Rightarrow> None | Some sd \<Rightarrow>
                 subdivide_and_add_curve fuel prm sd
                   (gsk_curve_segment prm curve (t ! i) (t ! (i + 1))) (level - 1))
               [0..<length t - 1] (Some (add_pieces prm [] sd)) =
            map_option (\<lambda>ps. add_pieces prm ps sd)
              (fold (\<lambda>i res. case res of None \<Rightarrow> None
                    | Some ps \<Rightarrow>
                        (case subdivide_curve_pieces fuel prm
                                (gsk_curve_segment prm curve (t ! i) (t ! (i + 1))) (level - 1)
                         of None \<Rightarrow> None | Some ps' \<Rightarrow> Some (ps @ ps')))
                 [0..<length t - 1] (Some []))"
        by (rule fold_pieces) (rule Suc.IH)
      moreover have "add_pieces prm [] sd = sd" by (simp add: add_pieces_def)
      ultimately show ?thesis using False n unfolding t_def
        by (auto simp: Let_def split: if_splits)
    qed
  qed
qed

lemma subdivide_and_add_curve_frame:
  "subdivide_and_add_curve fuel prm sd curve level = Some sd' \<Longrightarrow>
   builder sd' = builder sd \<and> has_current_point sd' = has_current_point sd"
  by (auto simp: subdivide_and_add_curve_pieces add_pieces_frame)

lemma subdivide_and_add_conic_frame:
  "subdivide_and_add_conic fuel prm sd curve level = Some sd' \<Longrightarrow>
   builder sd' = builder sd \<and> has_current_point sd' = has_current_point sd"
proof (induction fuel arbitrary: sd sd' curve level)
  case 0
  then show ?case by simp
next
  case (Suc fuel)
  show ?case
  proof (cases "level = 0 \<or> (level < MAX_SUBDIVISION \<and> conic_is_simple curve)")
    case True
    then show ?thesis using Suc.prems by (auto simp: add_curve_frame)
  next
    case False
    obtain c1 c2 where s: "gsk_curve_split prm curve 0.5 = (c1, c2)" by fastforce
    from Suc.prems False s obtain sd1 where
      1: "subdivide_and_add_conic fuel prm sd c1 (level - 1) = Some sd1" and
      2: "subdivide_and_add_conic fuel prm sd1 c2 (level - 1) = Some sd'"
      by (auto split: option.splits)
    show ?thesis using Suc.IH[OF 1] Suc.IH[OF 2] by simp
  qed
qed

lemma stroke_op_segment:
  assumes "is_segment pop" and "9 \<le> fuel"
  shows "\<exists>sd'. stroke_op fuel prm pop sd = Some sd' \<and> builder sd' = builder sd \<and>
           has_current_point sd' = has_current_point sd"
proof (cases pop)
  case (LINE p0 p1)
  then show ?thesis by (simp add: add_curve_frame)
next
  case (CURVE p0 p1 p2 p3)
  have "\<exists>sd'. subdivide_and_add_curve fuel prm sd (CubicCurve p0 p1 p2 p3) MAX_SUBDIVISION = Some sd'"
    using assms(2) by (intro subdivide_and_add_curve_returns) (simp_all add: MAX_SUBDIVISION_def)
  then show ?thesis using CURVE by (auto dest: subdivide_and_add_curve_frame)
next
  case (CONIC p0 p1 p2 w)
  have "\<exists>sd'. subdivide_and_add_conic fuel prm sd (ConicCurve p0 p1 w p2) MAX_SUBDIVISION = Some sd'"
    using assms(2) by (intro subdivide_and_add_conic_returns) (simp_all add: MAX_SUBDIVISION_def)
  then show ?thesis using CONIC by (auto dest: subdivide_and_add_conic_frame)
qed (use assms in simp_all)

lemma foreach_segments:
  assumes "list_all is_segment segs" and "9 \<le> fuel"
  shows "\<exists>sd'. gsk_contour_foreach fuel prm segs sd = Some sd' \<and> builder sd' = builder sd \<and>
           has_current_point sd' = has_current_point sd"
  using assms(1)
proof (induction segs arbitrary: sd)
  case Nil
  then show ?case by simp
next
  case (Cons pop segs)
  then obtain sd1 where 1: "stroke_op fuel prm pop sd = Some sd1" "builder sd1 = builder sd"
     "has_current_point sd1 = has_current_point sd"
    using stroke_op_segment[of pop fuel prm sd] assms(2) by auto
  from Cons obtain sd2 where "gsk_contour_foreach fuel prm segs sd1 = Some sd2"
     "builder sd2 = builder sd1" "has_current_point sd2 = has_current_point sd1"
    by fastforce
  then show ?case using 1 by simp
qed

lemma foreach_append:
  "gsk_contour_foreach fuel prm (xs @ ys) sd =
     (case gsk_contour_foreach fuel prm xs sd of
        None \<Rightarrow> None
      | Some sd' \<Rightarrow> gsk_contour_foreach fuel prm ys sd')"
  by (induction xs arbitrary: sd) (simp_all split: option.splits)

lemma cap_and_connect_contours_deposit:
  "\<exists>path. builder (cap_and_connect_contours prm sd) = builder sd @ [path] \<and> closed_path path"
  by (simp add: cap_and_connect_contours_def Let_def gsk_path_builder_add_path_def
        gsk_path_builder_close_def closed_path_def split: prod.splits)

lemma close_contours_deposit:
  "\<exists>pr pl. builder (close_contours prm sd) = builder sd @ [pr, pl] \<and>
     closed_path pr \<and> closed_path pl"
  by (simp add: close_contours_def Let_def gsk_path_builder_add_path_def
        gsk_path_builder_close_def closed_path_def add_segments_frame)

subsection \<open>Evaluating the stroker on axis-parallel lines\<close>

lemma normalize_axis:
  "graphene_vec2_normalize (x, 0) = (sgn x, 0)"
  "graphene_vec2_normalize (0, y) = (0, sgn y)"
  by (simp_all add: graphene_vec2_normalize_def graphene_vec2_length_def sgn_real_def)

lemma atan2_axis:
  "atan2 0 1 = 0" "atan2 1 0 = pi / 2" "atan2 0 (- 1) = pi" "atan2 (- 1) 0 = - (pi / 2)"
  by (simp_all add: atan2_def)

lemma to_float_pi_half: "to_float (pi / 2) = 13176795 / 8388608"
  using pi_bounds to_float_nearest[of 0 "pi / 2" 13176795] by (simp add: powr_minus)

text \<open>
  Each corner of the square turns by a quarter: the turn angle is the float nearest to
  \<open>pi / 2\<close>. At the third corner the difference of the arcs is \<open>- 3 * pi / 2\<close>, stored as
  the float \<open>- 2470649 / 524288\<close>, and the correction by \<open>2 * pi\<close> rounds to the same
  angle.
\<close>

lemma quarter_turns:
  "angle_between (1, 0) (0, 1) = 13176795 / 8388608"
  "angle_between (0, 1) (- 1, 0) = 13176795 / 8388608"
  "angle_between (- 1, 0) (0, - 1) = 13176795 / 8388608"
  "angle_between (0, - 1) (1, 0) = 13176795 / 8388608"
proof -
  have r: "\<not> 13176795 / 8388608 > pi" "\<not> 13176795 / 8388608 < - pi"
    using pi_bounds by simp_all
  show "angle_between (1, 0) (0, 1) = 13176795 / 8388608"
    by (rule angle_between_plain[OF _ to_float_pi_half r]) (simp add: atan2_axis)
  show "angle_between (0, 1) (- 1, 0) = 13176795 / 8388608"
    by (rule angle_between_plain[OF _ to_float_pi_half r]) (simp add: atan2_axis)
  show "angle_between (0, - 1) (1, 0) = 13176795 / 8388608"
    by (rule angle_between_plain[OF _ to_float_pi_half r]) (simp add: atan2_axis)
  have d: "to_float (- (3 * pi / 2)) = - (2470649 / 524288)"
  proof -
    have "to_float (3 * pi / 2) = 2470649 / 524288"
      using pi_bounds to_float_nearest[of 2 "3 * pi / 2" 9882596] by (simp add: powr_minus)
    then show ?thesis by (simp only: to_float_minus)
  qed
  have c: "to_float (- (2470649 / 524288) + 2 * pi) = 13176795 / 8388608"
    using pi_bounds to_float_nearest[of 0 "- (2470649 / 524288) + 2 * pi" 13176795]
    by (simp add: powr_minus)
  show "angle_between (- 1, 0) (0, - 1) = 13176795 / 8388608"
  proof (rule angle_between_low[OF _ d _ c])
    show "atan2 (snd (0, - 1)) (fst (0, - 1)) - atan2 (snd (- 1, 0)) (fst (- 1, 0)) = - (3 * pi / 2)"
      by (simp add: atan2_axis)
    show "- (2470649 / 524288) < - pi" using pi_bounds by simp
  qed
qed

lemma quarter_is_a_turn:
  "\<not> \<bar>13176795 / 8388608\<bar> < DEG_TO_RAD 5" "(0::real) < 13176795 / 8388608"
  using pi_bounds by (simp_all add: DEG_TO_RAD_def)

text \<open>
  At a quarter turn the rounded sine is at least 1 / 2, so that a miter join with a limit
  of 2 or more is sharp.
\<close>

lemma add_line_join_quarter_turn:
  assumes "line_join stk = GSK_LINE_JOIN_MITER" and "2 \<le> miter_limit stk"
  shows "add_line_join prm b stk c a ta bb tb (13176795 / 8388608) =
           (case line_intersect a ta bb tb of
              Some p \<Rightarrow> path_builder_line_to_point (path_builder_line_to_point b p) bb
            | None \<Rightarrow> b)"
proof -
  define s where "s = to_float \<bar>sin ((pi - 13176795 / 8388608) / 2)\<bar>"
  have c: "sin ((pi - 13176795 / 8388608) / 2) = cos (13176795 / 16777216)"
    unfolding sin_half_supplement by simp
  have "cos (pi / 3) \<le> cos (13176795 / 16777216)"
    using pi_bounds by (intro cos_monotone_0_pi_le) simp_all
  then have "1 / 2 \<le> \<bar>sin ((pi - 13176795 / 8388608) / 2)\<bar>"
    unfolding c by (simp add: cos_60)
  from to_float_mono[OF this] have h: "1 / 2 \<le> s"
    by (simp add: s_def to_float_half)
  then have "1 / s \<le> 2" by (simp add: field_simps)
  then have "s \<noteq> 0 \<and> 1 / s \<le> miter_limit stk" using h assms(2) by auto
  then show ?thesis
    using assms(1) by (simp add: add_line_join_def Let_def s_def[symmetric] split: option.splits)
qed

lemmas stroker_eval = square_stroke_def Let_def
      add_curve_def add_segments_def close_contours_def cap_and_connect_contours_def
      get_normal_def get_tangent_def
      normalize_axis quarter_turns DEG_TO_RAD_def line_curve_intersect_def graphene_point_interpolate_def
      graphene_point_near_def
      append_right_def append_left_def add_line_join_quarter_turn add_line_cap_def line_intersect_def
      path_builder_move_to_point_def gsk_path_builder_move_to_def
      path_builder_line_to_point_def gsk_path_builder_line_to_def
      path_builder_add_reverse_path_def gsk_path_foreach_def
      gsk_path_builder_close_def gsk_path_builder_add_path_def

lemma stroke_single_line:
  "gsk_contour_default_add_stroke fuel prm [MOVE (0, 0), LINE (0, 0) (10, 0)] []
      \<lparr>line_width = 2, line_cap = GSK_LINE_CAP_BUTT, line_join = GSK_LINE_JOIN_MITER,
        miter_limit = ml, dash_length = 0\<rparr>
   = Some [[Move_to (0, 1), Line_to (10, 1), Line_to (10, - 1), Line_to (0, - 1), Line_to (0, 1), Close]]"
  by (simp add: gsk_contour_default_add_stroke_def stroke_data_init_def stroker_eval)

lemma stroke_single_move:
  "gsk_contour_default_add_stroke fuel prm [MOVE (0, 0)] [] square_stroke
   = Some [[Move_to (0, 1), Line_to (0, - 1), Line_to (0, 1), Close]]"
  by (simp add: gsk_contour_default_add_stroke_def stroke_data_init_def stroker_eval)

lemma stroke_two_moves:
  "map_option builder (gsk_contour_foreach fuel prm [MOVE (0, 0), MOVE (20, 0)] (stroke_data_init [] square_stroke))
   = Some [[Move_to (0, 1), Line_to (0, - 1), Line_to (0, 1), Close]]"
  by (simp add: stroke_data_init_def stroker_eval)

subsection \<open>Contours and the paths the builder receives\<close>

lemma stroke_op_move:
  "\<exists>sd'. stroke_op fuel prm (MOVE p) sd = Some sd' \<and> has_current_point sd' \<and>
     (if has_current_point sd
      then (\<exists>path. builder sd' = builder sd @ [path] \<and> closed_path path)
      else builder sd' = builder sd)"
  using cap_and_connect_contours_deposit[of prm sd] by (auto simp: Let_def)

lemma stroke_op_close:
  assumes "has_current_point sd"
  shows "\<exists>sd' pr pl. stroke_op fuel prm (CLOSE q0 q1) sd = Some sd' \<and>
           builder sd' = builder sd @ [pr, pl] \<and> closed_path pr \<and> closed_path pl \<and>
           \<not> has_current_point sd'"
proof (cases "graphene_point_near q0 q1 0.001")
  case True
  then show ?thesis using assms close_contours_deposit[of prm sd] by (auto simp: Let_def)
next
  case False
  then show ?thesis
    using assms close_contours_deposit[of prm "add_curve prm sd (LineCurve q0 q1)"]
    by (auto simp: Let_def add_curve_frame)
qed

lemma open_contour_walk:
  assumes "list_all is_segment segs" and "9 \<le> fuel" and "\<not> has_current_point sd"
  shows "\<exists>sd'. gsk_contour_foreach fuel prm (MOVE p # segs) sd = Some sd' \<and>
           builder sd' = builder sd \<and> has_current_point sd'"
proof -
  obtain sd1 where 1: "stroke_op fuel prm (MOVE p) sd = Some sd1" "has_current_point sd1"
      "builder sd1 = builder sd"
    using stroke_op_move[of fuel prm p sd] assms(3) by auto
  obtain sd2 where 2: "gsk_contour_foreach fuel prm segs sd1 = Some sd2" "builder sd2 = builder sd1"
      "has_current_point sd2 = has_current_point sd1"
    using foreach_segments[OF assms(1,2), of prm sd1] by blast
  show ?thesis using 1 2 by simp
qed

lemma init_fields:
  "builder (stroke_data_init b stk) = b" "\<not> has_current_point (stroke_data_init b stk)"
  by (simp_all add: stroke_data_init_def)

text \<open>
  C4: an open contour, a move followed by segments and ended by the end of the stream or
  by the next move, adds exactly one path to the output builder, and the path is closed.
  At the end of the stream it is the driver that finishes the contour, since
  \<^verbatim>\<open>has_current_point\<close> is set; before a move it is the callback. The list of segments may
  be empty. The first part is the driver without dashes on the contour alone, the second
  the walk over the contour and the move that follows it, from a state without a current
  point. A path here is what one call of \<^verbatim>\<open>gsk_path_builder_add_path\<close> adds.
\<close>

theorem open_contour_one_closed_path:
  assumes "list_all is_segment segs" and "9 \<le> fuel" and "dash_length stk \<le> 0"
      and "\<not> has_current_point sd"
  shows "(\<exists>path. gsk_contour_default_add_stroke fuel prm (MOVE p # segs) b stk = Some (b @ [path]) \<and>
                  closed_path path) \<and>
         (\<exists>sd' path. gsk_contour_foreach fuel prm (MOVE p # segs @ [MOVE q]) sd = Some sd' \<and>
                  builder sd' = builder sd @ [path] \<and> closed_path path \<and> has_current_point sd')"
proof -
  obtain sd1 where 1: "gsk_contour_foreach fuel prm (MOVE p # segs) (stroke_data_init b stk) = Some sd1"
      "builder sd1 = b" "has_current_point sd1"
    using open_contour_walk[OF assms(1,2), of "stroke_data_init b stk" prm p] by (auto simp: init_fields)
  obtain path where p: "builder (cap_and_connect_contours prm sd1) = b @ [path]" "closed_path path"
    using cap_and_connect_contours_deposit[of prm sd1] 1(2) by auto
  have a: "gsk_contour_default_add_stroke fuel prm (MOVE p # segs) b stk = Some (b @ [path])"
    using assms(3) 1 p(1) by (simp add: gsk_contour_default_add_stroke_def Let_def)
  obtain sd2 where 2: "gsk_contour_foreach fuel prm (MOVE p # segs) sd = Some sd2"
      "builder sd2 = builder sd" "has_current_point sd2"
    using open_contour_walk[OF assms(1,2,4), of prm p] by auto
  obtain sd3 path' where 3: "stroke_op fuel prm (MOVE q) sd2 = Some sd3" "has_current_point sd3"
      "builder sd3 = builder sd2 @ [path']" "closed_path path'"
    using stroke_op_move[of fuel prm q sd2] 2(3) by auto
  have "gsk_contour_foreach fuel prm ((MOVE p # segs) @ [MOVE q]) sd = Some sd3"
    using 2(1) 3(1) by (simp only: foreach_append) simp
  then show ?thesis using a p(2) 2(2) 3 by auto
qed

text \<open>The witness is the contour of a single move to the origin: the builder receives
  the degenerate outline from (0, 1) to (0, -1) and back, closed.\<close>

theorem open_contour_one_closed_path_witness:
  "\<forall>prm. list_all is_segment [] \<and> (9::nat) \<le> 9 \<and> dash_length square_stroke \<le> 0 \<and>
     \<not> has_current_point (stroke_data_init [] square_stroke) \<and>
     gsk_contour_default_add_stroke 9 prm [MOVE (0, 0)] [] square_stroke
       = Some [[Move_to (0, 1), Line_to (0, - 1), Line_to (0, 1), Close]] \<and>
     closed_path [Move_to (0, 1), Line_to (0, - 1), Line_to (0, 1), Close] \<and>
     map_option builder (gsk_contour_foreach 9 prm [MOVE (0, 0), MOVE (20, 0)]
         (stroke_data_init [] square_stroke))
       = Some [[Move_to (0, 1), Line_to (0, - 1), Line_to (0, 1), Close]]"
proof
  fix prm
  have h: "list_all is_segment []" "(9::nat) \<le> 9" "dash_length square_stroke \<le> 0"
      "\<not> has_current_point (stroke_data_init [] square_stroke)"
    by (simp_all add: square_stroke_def stroke_data_init_def)
  from open_contour_one_closed_path [OF h, of prm "(0, 0)" "[]" "(20, 0)"]
  have "closed_path [Move_to (0, 1), Line_to (0, - 1), Line_to (0, 1), Close]"
    by (auto simp: stroke_single_move)
  then show "list_all is_segment [] \<and> (9::nat) \<le> 9 \<and> dash_length square_stroke \<le> 0 \<and>
     \<not> has_current_point (stroke_data_init [] square_stroke) \<and>
     gsk_contour_default_add_stroke 9 prm [MOVE (0, 0)] [] square_stroke
       = Some [[Move_to (0, 1), Line_to (0, - 1), Line_to (0, 1), Close]] \<and>
     closed_path [Move_to (0, 1), Line_to (0, - 1), Line_to (0, 1), Close] \<and>
     map_option builder (gsk_contour_foreach 9 prm [MOVE (0, 0), MOVE (20, 0)]
         (stroke_data_init [] square_stroke))
       = Some [[Move_to (0, 1), Line_to (0, - 1), Line_to (0, 1), Close]]"
    using h stroke_single_move[of 9 prm] stroke_two_moves[of 9 prm] by simp
qed

text \<open>
  C5: the open line from (0, 0) to (10, 0), stroked with width 2, butt caps and miter
  joins, yields exactly one path: it starts at (0, 1), runs through (10, 1), (10, -1) and
  (0, -1), returns to (0, 1) and is closed, which is the rectangle with these corners.
\<close>

theorem single_line_butt_rectangle:
  "gsk_contour_default_add_stroke fuel prm [MOVE (0, 0), LINE (0, 0) (10, 0)] []
      \<lparr>line_width = 2, line_cap = GSK_LINE_CAP_BUTT, line_join = GSK_LINE_JOIN_MITER,
        miter_limit = ml, dash_length = 0\<rparr>
   = Some [[Move_to (0, 1), Line_to (10, 1), Line_to (10, - 1), Line_to (0, - 1), Line_to (0, 1), Close]] \<and>
   closed_path [Move_to (0, 1), Line_to (10, 1), Line_to (10, - 1), Line_to (0, - 1), Line_to (0, 1), Close]"
  by (simp add: stroke_single_line closed_path_def)

subsection \<open>The square, step by step\<close>

lemma square_first_line:
  "gsk_contour_foreach fuel prm [MOVE (0, 0), LINE (0, 0) (10, 0)] (stroke_data_init [] square_stroke)
   = Some (square_state
      [Move_to (0, - 1)]
      [Move_to (0, 1)] True
      (LineCurve (0, 0) (10, 0)) (LineCurve (0, - 1) (10, - 1)) (LineCurve (0, 1) (10, 1))
      (LineCurve (0, - 1) (10, - 1)) (LineCurve (0, 1) (10, 1)))"
  by (simp add: square_state_def stroke_data_init_def stroker_eval)

lemma square_second_line:
  "add_curve prm (square_state
      [Move_to (0, - 1)]
      [Move_to (0, 1)] True
      (LineCurve (0, 0) (10, 0)) (LineCurve (0, - 1) (10, - 1)) (LineCurve (0, 1) (10, 1))
      (LineCurve (0, - 1) (10, - 1)) (LineCurve (0, 1) (10, 1)))
     (LineCurve (10, 0) (10, 10))
   = (square_state
      [Move_to (0, - 1), Move_to (10, - 1), Line_to (11, - 1), Line_to (11, 0)]
      [Move_to (0, 1), Move_to (9, 1)] False
      (LineCurve (10, 0) (10, 10)) (LineCurve (11, 0) (11, 10)) (LineCurve (9, 1) (9, 10))
      (LineCurve (0, - 1) (10, - 1)) (LineCurve (0, 1) (9, 1)))"
  using quarter_is_a_turn by (simp add: square_state_def stroker_eval)

lemma square_third_line:
  "add_curve prm (square_state
      [Move_to (0, - 1), Move_to (10, - 1), Line_to (11, - 1), Line_to (11, 0)]
      [Move_to (0, 1), Move_to (9, 1)] False
      (LineCurve (10, 0) (10, 10)) (LineCurve (11, 0) (11, 10)) (LineCurve (9, 1) (9, 10))
      (LineCurve (0, - 1) (10, - 1)) (LineCurve (0, 1) (9, 1)))
     (LineCurve (10, 10) (0, 10))
   = (square_state
      [Move_to (0, - 1), Move_to (10, - 1), Line_to (11, - 1), Line_to (11, 0), Line_to (11, 10), Line_to (11, 11), Line_to (10, 11)]
      [Move_to (0, 1), Move_to (9, 1), Line_to (9, 9)] False
      (LineCurve (10, 10) (0, 10)) (LineCurve (10, 11) (0, 11)) (LineCurve (9, 9) (0, 9))
      (LineCurve (0, - 1) (10, - 1)) (LineCurve (0, 1) (9, 1)))"
  using quarter_is_a_turn by (simp add: square_state_def stroker_eval)

lemma square_closing_line:
  "add_curve prm (square_state
      [Move_to (0, - 1), Move_to (10, - 1), Line_to (11, - 1), Line_to (11, 0), Line_to (11, 10), Line_to (11, 11), Line_to (10, 11)]
      [Move_to (0, 1), Move_to (9, 1), Line_to (9, 9)] False
      (LineCurve (10, 10) (0, 10)) (LineCurve (10, 11) (0, 11)) (LineCurve (9, 9) (0, 9))
      (LineCurve (0, - 1) (10, - 1)) (LineCurve (0, 1) (9, 1)))
     (LineCurve (0, 10) (0, 0))
   = (square_state
      [Move_to (0, - 1), Move_to (10, - 1), Line_to (11, - 1), Line_to (11, 0), Line_to (11, 10), Line_to (11, 11), Line_to (10, 11), Line_to (0, 11), Line_to (- 1, 11), Line_to (- 1, 10)]
      [Move_to (0, 1), Move_to (9, 1), Line_to (9, 9), Line_to (1, 9)] False
      (LineCurve (0, 10) (0, 0)) (LineCurve (- 1, 10) (- 1, 0)) (LineCurve (1, 9) (1, 0))
      (LineCurve (0, - 1) (10, - 1)) (LineCurve (0, 1) (9, 1)))"
  using quarter_is_a_turn by (simp add: square_state_def stroker_eval)

lemma square_close_contours:
  "builder (close_contours prm (square_state
      [Move_to (0, - 1), Move_to (10, - 1), Line_to (11, - 1), Line_to (11, 0), Line_to (11, 10), Line_to (11, 11), Line_to (10, 11), Line_to (0, 11), Line_to (- 1, 11), Line_to (- 1, 10)]
      [Move_to (0, 1), Move_to (9, 1), Line_to (9, 9), Line_to (1, 9)] False
      (LineCurve (0, 10) (0, 0)) (LineCurve (- 1, 10) (- 1, 0)) (LineCurve (1, 9) (1, 0))
      (LineCurve (0, - 1) (10, - 1)) (LineCurve (0, 1) (9, 1))))
   = [[Move_to (0, 1), Move_to (9, 1), Line_to (9, 9), Line_to (1, 9), Line_to (1, 1), Line_to (9, 1), Close],
      [Move_to (0, - 1), Move_to (10, - 1), Line_to (11, - 1), Line_to (11, 0), Line_to (11, 10), Line_to (11, 11), Line_to (10, 11), Line_to (0, 11), Line_to (- 1, 11), Line_to (- 1, 10), Line_to (- 1, 0), Line_to (- 1, - 1), Line_to (0, - 1), Line_to (10, - 1), Close]]"
  using quarter_is_a_turn by (simp add: square_state_def stroker_eval)

lemma square_two_lines:
  "gsk_contour_foreach fuel prm [MOVE (0, 0), LINE (0, 0) (10, 0), LINE (10, 0) (10, 10)]
     (stroke_data_init [] square_stroke)
   = Some (square_state
      [Move_to (0, - 1), Move_to (10, - 1), Line_to (11, - 1), Line_to (11, 0)]
      [Move_to (0, 1), Move_to (9, 1)] False
      (LineCurve (10, 0) (10, 10)) (LineCurve (11, 0) (11, 10)) (LineCurve (9, 1) (9, 10))
      (LineCurve (0, - 1) (10, - 1)) (LineCurve (0, 1) (9, 1)))"
proof -
  have "gsk_contour_foreach fuel prm ([MOVE (0, 0), LINE (0, 0) (10, 0)] @ [LINE (10, 0) (10, 10)])
          (stroke_data_init [] square_stroke)
        = Some (square_state
      [Move_to (0, - 1), Move_to (10, - 1), Line_to (11, - 1), Line_to (11, 0)]
      [Move_to (0, 1), Move_to (9, 1)] False
      (LineCurve (10, 0) (10, 10)) (LineCurve (11, 0) (11, 10)) (LineCurve (9, 1) (9, 10))
      (LineCurve (0, - 1) (10, - 1)) (LineCurve (0, 1) (9, 1)))"
    by (simp only: foreach_append square_first_line) (simp add: square_second_line)
  then show ?thesis by simp
qed

lemma square_stroked:
  "gsk_contour_default_add_stroke fuel prm
     [MOVE (0, 0), LINE (0, 0) (10, 0), LINE (10, 0) (10, 10), LINE (10, 10) (0, 10), CLOSE (0, 10) (0, 0)] [] square_stroke
   = Some [[Move_to (0, 1), Move_to (9, 1), Line_to (9, 9), Line_to (1, 9), Line_to (1, 1), Line_to (9, 1), Close],
      [Move_to (0, - 1), Move_to (10, - 1), Line_to (11, - 1), Line_to (11, 0), Line_to (11, 10), Line_to (11, 11), Line_to (10, 11), Line_to (0, 11), Line_to (- 1, 11), Line_to (- 1, 10), Line_to (- 1, 0), Line_to (- 1, - 1), Line_to (0, - 1), Line_to (10, - 1), Close]]"
proof -
  have near: "\<not> graphene_point_near (0, 10) (0, 0) (1 / 1000)"
    by (simp add: graphene_point_near_def)
  have hcp: "\<And>lf rt first cc ll rr ll0 rr0.
      has_current_point (square_state lf rt first cc ll rr ll0 rr0)"
    by (simp add: square_state_def)
  have "gsk_contour_foreach fuel prm
          ([MOVE (0, 0), LINE (0, 0) (10, 0), LINE (10, 0) (10, 10)] @
           [LINE (10, 10) (0, 10), CLOSE (0, 10) (0, 0)]) (stroke_data_init [] square_stroke)
        = Some ((close_contours prm (square_state
      [Move_to (0, - 1), Move_to (10, - 1), Line_to (11, - 1), Line_to (11, 0), Line_to (11, 10), Line_to (11, 11), Line_to (10, 11), Line_to (0, 11), Line_to (- 1, 11), Line_to (- 1, 10)]
      [Move_to (0, 1), Move_to (9, 1), Line_to (9, 9), Line_to (1, 9)] False
      (LineCurve (0, 10) (0, 0)) (LineCurve (- 1, 10) (- 1, 0)) (LineCurve (1, 9) (1, 0))
      (LineCurve (0, - 1) (10, - 1)) (LineCurve (0, 1) (9, 1))))
                 \<lparr>has_current_point := False, has_current_curve := False\<rparr>)"
    by (simp only: foreach_append square_two_lines)
       (simp add: square_third_line square_closing_line near hcp Let_def)
  then show ?thesis
    by (simp add: gsk_contour_default_add_stroke_def square_close_contours Let_def square_stroke_def[symmetric])
       (simp add: square_stroke_def)
qed

text \<open>
  C3: a contour that ends with a close adds exactly two paths to the output builder, and
  both are closed. The first part is the driver without dashes on a contour made of a
  move, any segments and a close; the second is the callback on a close in any state that
  has a current point. A path here is what one call of \<^verbatim>\<open>gsk_path_builder_add_path\<close> adds.
\<close>

theorem closed_contour_two_closed_paths:
  assumes "list_all is_segment segs" and "9 \<le> fuel" and "dash_length stk \<le> 0"
      and "has_current_point sd"
  shows "(\<exists>pr pl. gsk_contour_default_add_stroke fuel prm (MOVE p # segs @ [CLOSE q0 q1]) b stk
                    = Some (b @ [pr, pl]) \<and> closed_path pr \<and> closed_path pl) \<and>
         (\<exists>sd' pr pl. stroke_op fuel prm (CLOSE q0 q1) sd = Some sd' \<and>
                    builder sd' = builder sd @ [pr, pl] \<and> closed_path pr \<and> closed_path pl \<and>
                    \<not> has_current_point sd')"
proof -
  obtain sd1 where 1: "gsk_contour_foreach fuel prm (MOVE p # segs) (stroke_data_init b stk) = Some sd1"
      "builder sd1 = b" "has_current_point sd1"
    using open_contour_walk[OF assms(1,2), of "stroke_data_init b stk" prm p] by (auto simp: init_fields)
  obtain sd2 pr pl where 2: "stroke_op fuel prm (CLOSE q0 q1) sd1 = Some sd2"
      "builder sd2 = b @ [pr, pl]" "closed_path pr" "closed_path pl" "\<not> has_current_point sd2"
    using stroke_op_close[OF 1(3), of fuel prm q0 q1] 1(2) by auto
  have "gsk_contour_foreach fuel prm ((MOVE p # segs) @ [CLOSE q0 q1]) (stroke_data_init b stk) = Some sd2"
    using 1(1) 2(1) by (simp only: foreach_append) simp
  then have "gsk_contour_default_add_stroke fuel prm (MOVE p # segs @ [CLOSE q0 q1]) b stk = Some (b @ [pr, pl])"
    using assms(3) 2(2,5) by (simp add: gsk_contour_default_add_stroke_def Let_def)
  then show ?thesis using 2(3,4) stroke_op_close[OF assms(4), of fuel prm q0 q1] by blast
qed


text \<open>The witness is the square: the builder receives the inner outline from the right
  offsets and the outer outline, with its four miters, from the left offsets. Each of the
  two paths begins with the move made when the first segment arrived, followed at once
  by the move that stands for the deferred first segment.\<close>

theorem closed_contour_two_closed_paths_witness:
  "\<forall>prm. list_all is_segment [LINE (0, 0) (10, 0), LINE (10, 0) (10, 10), LINE (10, 10) (0, 10)] \<and>
     (9::nat) \<le> 9 \<and> dash_length square_stroke \<le> 0 \<and>
     has_current_point (square_state
      [Move_to (0, - 1), Move_to (10, - 1), Line_to (11, - 1), Line_to (11, 0), Line_to (11, 10), Line_to (11, 11), Line_to (10, 11), Line_to (0, 11), Line_to (- 1, 11), Line_to (- 1, 10)]
      [Move_to (0, 1), Move_to (9, 1), Line_to (9, 9), Line_to (1, 9)] False
      (LineCurve (0, 10) (0, 0)) (LineCurve (- 1, 10) (- 1, 0)) (LineCurve (1, 9) (1, 0))
      (LineCurve (0, - 1) (10, - 1)) (LineCurve (0, 1) (9, 1))) \<and>
     gsk_contour_default_add_stroke 9 prm
       [MOVE (0, 0), LINE (0, 0) (10, 0), LINE (10, 0) (10, 10), LINE (10, 10) (0, 10), CLOSE (0, 10) (0, 0)] [] square_stroke
     = Some [[Move_to (0, 1), Move_to (9, 1), Line_to (9, 9), Line_to (1, 9), Line_to (1, 1), Line_to (9, 1), Close],
        [Move_to (0, - 1), Move_to (10, - 1), Line_to (11, - 1), Line_to (11, 0), Line_to (11, 10), Line_to (11, 11), Line_to (10, 11), Line_to (0, 11), Line_to (- 1, 11), Line_to (- 1, 10), Line_to (- 1, 0), Line_to (- 1, - 1), Line_to (0, - 1), Line_to (10, - 1), Close]] \<and>
     closed_path [Move_to (0, 1), Move_to (9, 1), Line_to (9, 9), Line_to (1, 9), Line_to (1, 1), Line_to (9, 1), Close] \<and>
     closed_path [Move_to (0, - 1), Move_to (10, - 1), Line_to (11, - 1), Line_to (11, 0), Line_to (11, 10), Line_to (11, 11), Line_to (10, 11), Line_to (0, 11), Line_to (- 1, 11), Line_to (- 1, 10), Line_to (- 1, 0), Line_to (- 1, - 1), Line_to (0, - 1), Line_to (10, - 1), Close]"
proof
  fix prm
  let ?sd = "(square_state
      [Move_to (0, - 1), Move_to (10, - 1), Line_to (11, - 1), Line_to (11, 0), Line_to (11, 10), Line_to (11, 11), Line_to (10, 11), Line_to (0, 11), Line_to (- 1, 11), Line_to (- 1, 10)]
      [Move_to (0, 1), Move_to (9, 1), Line_to (9, 9), Line_to (1, 9)] False
      (LineCurve (0, 10) (0, 0)) (LineCurve (- 1, 10) (- 1, 0)) (LineCurve (1, 9) (1, 0))
      (LineCurve (0, - 1) (10, - 1)) (LineCurve (0, 1) (9, 1)))"
  have h: "list_all is_segment [LINE (0, 0) (10, 0), LINE (10, 0) (10, 10), LINE (10, 10) (0, 10)]"
      "(9::nat) \<le> 9" "dash_length square_stroke \<le> 0" "has_current_point ?sd"
    by (simp_all add: square_stroke_def square_state_def)
  from closed_contour_two_closed_paths [OF h, of prm "(0, 0)" "(0, 10)" "(0, 0)" "[]"]
  have "closed_path [Move_to (0, 1), Move_to (9, 1), Line_to (9, 9), Line_to (1, 9), Line_to (1, 1), Line_to (9, 1), Close] \<and>
     closed_path [Move_to (0, - 1), Move_to (10, - 1), Line_to (11, - 1), Line_to (11, 0), Line_to (11, 10), Line_to (11, 11), Line_to (10, 11), Line_to (0, 11), Line_to (- 1, 11), Line_to (- 1, 10), Line_to (- 1, 0), Line_to (- 1, - 1), Line_to (0, - 1), Line_to (10, - 1), Close]"
    by (auto simp: square_stroked)
  then show "list_all is_segment [LINE (0, 0) (10, 0), LINE (10, 0) (10, 10), LINE (10, 10) (0, 10)] \<and>
     (9::nat) \<le> 9 \<and> dash_length square_stroke \<le> 0 \<and>
     has_current_point ?sd \<and>
     gsk_contour_default_add_stroke 9 prm
       [MOVE (0, 0), LINE (0, 0) (10, 0), LINE (10, 0) (10, 10), LINE (10, 10) (0, 10), CLOSE (0, 10) (0, 0)] [] square_stroke
     = Some [[Move_to (0, 1), Move_to (9, 1), Line_to (9, 9), Line_to (1, 9), Line_to (1, 1), Line_to (9, 1), Close],
        [Move_to (0, - 1), Move_to (10, - 1), Line_to (11, - 1), Line_to (11, 0), Line_to (11, 10), Line_to (11, 11), Line_to (10, 11), Line_to (0, 11), Line_to (- 1, 11), Line_to (- 1, 10), Line_to (- 1, 0), Line_to (- 1, - 1), Line_to (0, - 1), Line_to (10, - 1), Close]] \<and>
     closed_path [Move_to (0, 1), Move_to (9, 1), Line_to (9, 9), Line_to (1, 9), Line_to (1, 1), Line_to (9, 1), Close] \<and>
     closed_path [Move_to (0, - 1), Move_to (10, - 1), Line_to (11, - 1), Line_to (11, 0), Line_to (11, 10), Line_to (11, 11), Line_to (10, 11), Line_to (0, 11), Line_to (- 1, 11), Line_to (- 1, 10), Line_to (- 1, 0), Line_to (- 1, - 1), Line_to (0, - 1), Line_to (10, - 1), Close]"
    using h square_stroked[of 9 prm] by simp
qed

subsection \<open>The miter limit\<close>

text \<open>
  The corner of the examples below: the stroke of width 2 runs from (0, 0) to (10, 0)
  and turns left by an eighth of a turn towards (11, 1). The turn angle is the float
  nearest to \<open>pi / 4\<close>; the left offsets end in (10, -1) and start in
  \<open>(10 + 1 / sqrt 2, - (1 / sqrt 2))\<close>, and their rays meet in \<open>(9 + sqrt 2, - 1)\<close>. The
  sine of half the supplement of the angle is stored as 7750063 / 8388608.
\<close>

lemma cos_eighth_turn:
  "9238795283 / 10000000000 < cos (13176795 / 33554432 :: real)"
  "cos (13176795 / 33554432 :: real) < 9238795284 / 10000000000"
proof -
  define X :: real where "X = 13176795 / 33554432"
  define S :: real where "S = 1 - X ^ 2 / 2 + X ^ 4 / 24 - X ^ 6 / 720 + X ^ 8 / 40320"
  define E :: real where "E = X ^ 10 / 3628800"
  have "\<bar>cos X - (\<Sum>m<10. cos_coeff m * X ^ m)\<bar> \<le> \<bar>X\<bar> ^ 10 / fact 10"
    by (rule cos_taylor)
  moreover have "\<bar>X\<bar> ^ 10 / fact 10 = E"
    by (simp add: E_def X_def fact_numeral)
  ultimately have b: "\<bar>cos X - S\<bar> \<le> E"
    by (simp only: cos_sum10 S_def)
  have l: "9238795283 / 10000000000 < S - E"
    by (simp add: S_def E_def X_def power_divide)
  have u: "S + E < 9238795284 / 10000000000"
    by (simp add: S_def E_def X_def power_divide)
  show "9238795283 / 10000000000 < cos (13176795 / 33554432 :: real)"
    using b l unfolding X_def[symmetric] by linarith
  show "cos (13176795 / 33554432 :: real) < 9238795284 / 10000000000"
    using b u unfolding X_def[symmetric] by linarith
qed

lemma to_float_pi_quarter: "to_float (pi / 4) = 13176795 / 16777216"
  using pi_bounds to_float_nearest[of "- 1" "pi / 4" 13176795] by (simp add: powr_minus)

lemma eighth_turn_tangents:
  "get_tangent (0, 0) (10, 0) = (1, 0)"
  "get_tangent (10, 0) (11, 1) = (1 / sqrt 2, 1 / sqrt 2)"
  by (simp_all add: get_tangent_def graphene_vec2_normalize_def graphene_vec2_length_def)

lemma eighth_turn_angle:
  "angle_between (1, 0) (1 / sqrt 2, 1 / sqrt 2) = 13176795 / 16777216"
proof (rule angle_between_plain[OF _ to_float_pi_quarter])
  show "atan2 (snd (1 / sqrt 2, 1 / sqrt 2)) (fst (1 / sqrt 2, 1 / sqrt 2))
          - atan2 (snd (1, 0)) (fst (1, 0)) = pi / 4"
    by (simp add: atan2_def arctan_one)
  show "\<not> 13176795 / 16777216 > pi" "\<not> 13176795 / 16777216 < - pi"
    using pi_bounds by simp_all
qed

lemma eighth_turn_offsets:
  "gsk_curve_offset prm (LineCurve (0, 0) (10, 0)) (- 1) = LineCurve (0, - 1) (10, - 1)"
  "gsk_curve_offset prm (LineCurve (10, 0) (11, 1)) (- 1)
     = LineCurve (10 + 1 / sqrt 2, - (1 / sqrt 2)) (11 + 1 / sqrt 2, 1 - 1 / sqrt 2)"
  by (simp_all add: get_normal_def graphene_vec2_normalize_def graphene_vec2_length_def)

lemma eighth_turn_intersect:
  "line_intersect (10, - 1) (1, 0) (10 + 1 / sqrt 2, - (1 / sqrt 2)) (1 / sqrt 2, 1 / sqrt 2)
     = Some (9 + sqrt 2, - 1)"
proof -
  define r :: real where "r = 1 / sqrt 2"
  have r2: "r * r = 1 / 2" by (simp add: r_def)
  have "sqrt 2 < sqrt (4 :: real)" by (rule real_sqrt_less_mono) simp
  moreover have "sqrt 4 = (2::real)" using real_sqrt_abs[of 2] by simp
  ultimately have rl: "1 / 2 < r" by (simp add: r_def field_simps)
  have ri: "1 / r = sqrt 2" by (simp add: r_def)
  have det: "\<not> \<bar>0 * - r - r * - 1\<bar> \<le> 1 / 1000" using rl by simp
  have x: "(- r * (0 * 10 + - 1 * - 1) - - 1 * (r * (10 + r) + - r * - r)) / (0 * - r - r * - 1)
             = 9 + sqrt 2"
  proof -
    have "(- r * (0 * 10 + - 1 * - 1) - - 1 * (r * (10 + r) + - r * - r)) = 9 * r + 2 * (r * r)"
      by (simp add: algebra_simps)
    also have "\<dots> = 9 * r + 1" by (simp add: r2)
    finally show ?thesis using rl ri by (simp add: field_simps)
  qed
  have y: "(0 * (r * (10 + r) + - r * - r) - r * (0 * 10 + - 1 * - 1)) / (0 * - r - r * - 1) = - 1"
    using rl by simp
  show ?thesis
    unfolding line_intersect_def Let_def fst_conv snd_conv r_def[symmetric]
    using det x y by simp
qed

lemma rounded_sine_eighth_turn:
  "to_float \<bar>sin ((pi - 13176795 / 16777216) / 2)\<bar> = 7750063 / 8388608"
proof -
  have c: "sin ((pi - 13176795 / 16777216) / 2) = cos (13176795 / 33554432)"
    unfolding sin_half_supplement by simp
  have a: "\<bar>cos (13176795 / 33554432 :: real)\<bar> = cos (13176795 / 33554432)"
    using cos_eighth_turn(1) by simp
  show ?thesis
    unfolding c a
    using cos_eighth_turn to_float_nearest[of "- 1" "cos (13176795 / 33554432)" 15500126]
    by (simp add: powr_minus)
qed

lemma eighth_turn_is_a_turn:
  "\<not> \<bar>13176795 / 16777216\<bar> < DEG_TO_RAD 5" "(0::real) < 13176795 / 16777216"
  using pi_bounds by (simp_all add: DEG_TO_RAD_def)

text \<open>
  In a state that has a current curve, a segment that turns left by 5 degrees or more
  gives the left builder the pending left offset and the join.
\<close>

lemma left_of_left_turn:
  assumes "angle = angle_between (gsk_curve_get_end_tangent prm (sd_c sd))
                                 (gsk_curve_get_start_tangent prm cv)"
      and "\<not> \<bar>angle\<bar> < DEG_TO_RAD 5" and "angle > 0"
  shows "left (add_curve prm (sd\<lparr>has_current_curve := True\<rparr>) cv) =
           add_line_join prm (left (append_left sd (sd_l sd))) (stroke sd)
             (gsk_curve_get_start_point cv)
             (gsk_curve_get_end_point (sd_l sd))
             (gsk_curve_get_end_tangent prm (sd_c sd))
             (gsk_curve_get_start_point (gsk_curve_offset prm cv (- line_width (stroke sd) / 2)))
             (gsk_curve_get_start_tangent prm cv) angle"
  using assms
  by (cases "gsk_curve_intersect prm (sd_r sd)
               (gsk_curve_offset prm cv (line_width (stroke sd) / 2))")
     (auto simp: add_curve_def add_segments_def Let_def append_right_def append_left_def
           split: prod.splits)

text \<open>
  The stroker on the two lines of the corner, for any miter limit: the left builder is
  what \<^verbatim>\<open>add_line_join\<close> makes of the two moves that precede the join.
\<close>

lemma eighth_turn_stroked:
  "\<exists>sd. gsk_contour_foreach fuel prm [MOVE (0, 0), LINE (0, 0) (10, 0), LINE (10, 0) (11, 1)]
          (stroke_data_init []
             \<lparr>line_width = 2, line_cap = GSK_LINE_CAP_BUTT, line_join = GSK_LINE_JOIN_MITER,
               miter_limit = ml, dash_length = 0\<rparr>) = Some sd \<and>
        left sd = add_line_join prm [Move_to (0, - 1), Move_to (10, - 1)]
             \<lparr>line_width = 2, line_cap = GSK_LINE_CAP_BUTT, line_join = GSK_LINE_JOIN_MITER,
               miter_limit = ml, dash_length = 0\<rparr>
             (10, 0) (10, - 1) (1, 0) (10 + 1 / sqrt 2, - (1 / sqrt 2)) (1 / sqrt 2, 1 / sqrt 2)
             (13176795 / 16777216)"
proof -
  let ?stk = "\<lparr>line_width = 2, line_cap = GSK_LINE_CAP_BUTT, line_join = GSK_LINE_JOIN_MITER,
               miter_limit = ml, dash_length = 0\<rparr>"
  define sd1 where "sd1 =
     \<lparr>builder = [], stroke = ?stk, left = [Move_to (0, - 1)], right = [Move_to (0, 1)],
      has_current_point = True, has_current_curve = True, is_first_curve = True,
      sd_c = LineCurve (0, 0) (10, 0), sd_l = LineCurve (0, - 1) (10, - 1),
      sd_r = LineCurve (0, 1) (10, 1), sd_c0 = LineCurve (0, 0) (10, 0),
      sd_l0 = LineCurve (0, - 1) (10, - 1), sd_r0 = LineCurve (0, 1) (10, 1)\<rparr>"
  have one: "gsk_contour_foreach fuel prm [MOVE (0, 0), LINE (0, 0) (10, 0)]
               (stroke_data_init [] ?stk) = Some sd1"
    by (simp add: sd1_def stroke_data_init_def add_curve_def Let_def get_normal_def normalize_axis
          path_builder_move_to_point_def gsk_path_builder_move_to_def)
  have cc: "sd1\<lparr>has_current_curve := True\<rparr> = sd1" by (simp add: sd1_def)
  have f: "sd_c sd1 = LineCurve (0, 0) (10, 0)" "sd_l sd1 = LineCurve (0, - 1) (10, - 1)"
      "stroke sd1 = ?stk"
      "left (append_left sd1 (LineCurve (0, - 1) (10, - 1))) = [Move_to (0, - 1), Move_to (10, - 1)]"
    by (simp_all add: sd1_def append_left_def path_builder_move_to_point_def
          gsk_path_builder_move_to_def)
  have a: "13176795 / 16777216 = angle_between (gsk_curve_get_end_tangent prm (sd_c sd1))
             (gsk_curve_get_start_tangent prm (LineCurve (10, 0) (11, 1)))"
    unfolding f by (simp add: eighth_turn_tangents eighth_turn_angle)
  have l: "left (add_curve prm sd1 (LineCurve (10, 0) (11, 1))) =
           add_line_join prm [Move_to (0, - 1), Move_to (10, - 1)] ?stk
             (10, 0) (10, - 1) (1, 0) (10 + 1 / sqrt 2, - (1 / sqrt 2)) (1 / sqrt 2, 1 / sqrt 2)
             (13176795 / 16777216)"
    using left_of_left_turn[OF a eighth_turn_is_a_turn, unfolded cc]
    unfolding f by (simp add: eighth_turn_tangents eighth_turn_offsets del: gsk_curve_offset.simps)
  have "gsk_contour_foreach fuel prm ([MOVE (0, 0), LINE (0, 0) (10, 0)] @ [LINE (10, 0) (11, 1)])
          (stroke_data_init [] ?stk) = Some (add_curve prm sd1 (LineCurve (10, 0) (11, 1)))"
    by (simp only: foreach_append one) simp
  then show ?thesis using l by simp
qed

text \<open>
  C2, as the specification states it: at a miter join whose offset rays intersect, the
  sharp miter is emitted if and only if \<open>1 / |sin ((pi - angle) / 2)|\<close> is at most the
  miter limit. It fails at the corner above when the miter limit is the float
  2269941 / 2097152 (about 1.08239222). The quotient of the specification, about
  1.08239221, is at most the limit, for the angle as the stroker has it and for the
  angle \<open>pi / 4\<close> of the geometry alike; the source divides by the sine as it is stored
  in the \<^verbatim>\<open>float\<close> \<^verbatim>\<open>s\<close>, that quotient, about 1.08239223, is above the limit, and the
  builder receives the bevel: the line to the start of the second offset and no line to
  the intersection of the rays. So does the left builder of the stroker that is run on the
  two lines.
\<close>

theorem rounded_sine_bevel_within_limit:
  "\<forall>fuel prm b.
     get_tangent (0, 0) (10, 0) = (1, 0) \<and>
     get_tangent (10, 0) (11, 1) = (1 / sqrt 2, 1 / sqrt 2) \<and>
     angle_between (1, 0) (1 / sqrt 2, 1 / sqrt 2) = 13176795 / 16777216 \<and>
     gsk_curve_offset prm (LineCurve (0, 0) (10, 0)) (- 1) = LineCurve (0, - 1) (10, - 1) \<and>
     gsk_curve_offset prm (LineCurve (10, 0) (11, 1)) (- 1)
       = LineCurve (10 + 1 / sqrt 2, - (1 / sqrt 2)) (11 + 1 / sqrt 2, 1 - 1 / sqrt 2) \<and>
     line_intersect (10, - 1) (1, 0) (10 + 1 / sqrt 2, - (1 / sqrt 2)) (1 / sqrt 2, 1 / sqrt 2)
       = Some (9 + sqrt 2, - 1) \<and>
     1 / \<bar>sin ((pi - 13176795 / 16777216) / 2)\<bar> \<le> 2269941 / 2097152 \<and>
     1 / \<bar>sin ((pi - pi / 4) / 2)\<bar> \<le> 2269941 / 2097152 \<and>
     add_line_join prm b
        \<lparr>line_width = 2, line_cap = GSK_LINE_CAP_BUTT, line_join = GSK_LINE_JOIN_MITER,
          miter_limit = 2269941 / 2097152, dash_length = 0\<rparr>
        (10, 0) (10, - 1) (1, 0) (10 + 1 / sqrt 2, - (1 / sqrt 2)) (1 / sqrt 2, 1 / sqrt 2)
        (13176795 / 16777216)
       = b @ [Line_to (10 + 1 / sqrt 2, - (1 / sqrt 2))] \<and>
     add_line_join prm b
        \<lparr>line_width = 2, line_cap = GSK_LINE_CAP_BUTT, line_join = GSK_LINE_JOIN_MITER,
          miter_limit = 2269941 / 2097152, dash_length = 0\<rparr>
        (10, 0) (10, - 1) (1, 0) (10 + 1 / sqrt 2, - (1 / sqrt 2)) (1 / sqrt 2, 1 / sqrt 2)
        (13176795 / 16777216)
       \<noteq> b @ [Line_to (9 + sqrt 2, - 1), Line_to (10 + 1 / sqrt 2, - (1 / sqrt 2))] \<and>
     (\<exists>sd. gsk_contour_foreach fuel prm [MOVE (0, 0), LINE (0, 0) (10, 0), LINE (10, 0) (11, 1)]
              (stroke_data_init []
                 \<lparr>line_width = 2, line_cap = GSK_LINE_CAP_BUTT, line_join = GSK_LINE_JOIN_MITER,
                   miter_limit = 2269941 / 2097152, dash_length = 0\<rparr>) = Some sd \<and>
           left sd = [Move_to (0, - 1), Move_to (10, - 1), Line_to (10 + 1 / sqrt 2, - (1 / sqrt 2))])"
proof (intro allI)
  fix fuel :: nat and prm :: prims and b :: GskPathBuilder
  let ?stk = "\<lparr>line_width = 2, line_cap = GSK_LINE_CAP_BUTT, line_join = GSK_LINE_JOIN_MITER,
          miter_limit = 2269941 / 2097152, dash_length = 0\<rparr>"
  let ?bb = "(10 + 1 / sqrt 2, - (1 / sqrt 2))"
  have q1: "1 / \<bar>sin ((pi - 13176795 / 16777216) / 2)\<bar> \<le> 2269941 / 2097152"
  proof -
    have c: "sin ((pi - 13176795 / 16777216) / 2) = cos (13176795 / 33554432)"
      unfolding sin_half_supplement by simp
    show ?thesis unfolding c using cos_eighth_turn(1) by (simp add: field_simps)
  qed
  have q2: "1 / \<bar>sin ((pi - pi / 4) / 2)\<bar> \<le> 2269941 / 2097152"
  proof -
    have c: "sin ((pi - pi / 4) / 2) = cos (pi / 8)"
      unfolding sin_half_supplement by simp
    have "cos (13176795 / 33554432) \<le> cos (pi / 8)"
      using pi_bounds by (intro cos_monotone_0_pi_le) simp_all
    then have "9238795283 / 10000000000 < cos (pi / 8)"
      using cos_eighth_turn(1) by linarith
    then show ?thesis unfolding c by (simp add: field_simps)
  qed
  have e: "add_line_join prm b' ?stk (10, 0) (10, - 1) (1, 0) ?bb (1 / sqrt 2, 1 / sqrt 2)
             (13176795 / 16777216) = b' @ [Line_to ?bb]" for b'
    unfolding add_line_join_def Let_def eighth_turn_intersect rounded_sine_eighth_turn
    by (simp add: path_builder_line_to_point_def gsk_path_builder_line_to_def)
  have n: "b @ [Line_to ?bb] \<noteq> b @ [Line_to (9 + sqrt 2, - 1), Line_to ?bb]" by simp
  have w: "\<exists>sd. gsk_contour_foreach fuel prm [MOVE (0, 0), LINE (0, 0) (10, 0), LINE (10, 0) (11, 1)]
              (stroke_data_init [] ?stk) = Some sd \<and>
           left sd = [Move_to (0, - 1), Move_to (10, - 1), Line_to ?bb]"
    using eighth_turn_stroked[of fuel prm "2269941 / 2097152"] unfolding e by simp
  show "get_tangent (0, 0) (10, 0) = (1, 0) \<and>
     get_tangent (10, 0) (11, 1) = (1 / sqrt 2, 1 / sqrt 2) \<and>
     angle_between (1, 0) (1 / sqrt 2, 1 / sqrt 2) = 13176795 / 16777216 \<and>
     gsk_curve_offset prm (LineCurve (0, 0) (10, 0)) (- 1) = LineCurve (0, - 1) (10, - 1) \<and>
     gsk_curve_offset prm (LineCurve (10, 0) (11, 1)) (- 1)
       = LineCurve (10 + 1 / sqrt 2, - (1 / sqrt 2)) (11 + 1 / sqrt 2, 1 - 1 / sqrt 2) \<and>
     line_intersect (10, - 1) (1, 0) (10 + 1 / sqrt 2, - (1 / sqrt 2)) (1 / sqrt 2, 1 / sqrt 2)
       = Some (9 + sqrt 2, - 1) \<and>
     1 / \<bar>sin ((pi - 13176795 / 16777216) / 2)\<bar> \<le> 2269941 / 2097152 \<and>
     1 / \<bar>sin ((pi - pi / 4) / 2)\<bar> \<le> 2269941 / 2097152 \<and>
     add_line_join prm b ?stk (10, 0) (10, - 1) (1, 0) ?bb (1 / sqrt 2, 1 / sqrt 2)
        (13176795 / 16777216)
       = b @ [Line_to ?bb] \<and>
     add_line_join prm b ?stk (10, 0) (10, - 1) (1, 0) ?bb (1 / sqrt 2, 1 / sqrt 2)
        (13176795 / 16777216)
       \<noteq> b @ [Line_to (9 + sqrt 2, - 1), Line_to ?bb] \<and>
     (\<exists>sd. gsk_contour_foreach fuel prm [MOVE (0, 0), LINE (0, 0) (10, 0), LINE (10, 0) (11, 1)]
              (stroke_data_init [] ?stk) = Some sd \<and>
           left sd = [Move_to (0, - 1), Move_to (10, - 1), Line_to ?bb])"
    unfolding e
    using eighth_turn_tangents eighth_turn_angle eighth_turn_offsets[of prm] eighth_turn_intersect
      q1 q2 n w
    by blast
qed

text \<open>
  C2, amended: at a miter join whose two offset rays intersect at \<open>p\<close>, the builder
  receives the sharp miter (a line to \<open>p\<close>, then a line to \<open>b\<close>) if and only if
  \<open>1 / s\<close> is at most the miter limit, equality included, where \<open>s\<close> is
  \<open>|sin ((pi - angle) / 2)|\<close> rounded to \<^verbatim>\<open>float\<close>; it receives the single bevel line to
  \<open>b\<close> otherwise. The quotient does not exist for a zero \<open>s\<close>; the source then computes
  an infinite quotient, which is above every limit.
\<close>

theorem miter_limit_on_rounded_sine:
  assumes "line_join stk = GSK_LINE_JOIN_MITER"
      and "line_intersect a ta bb tb = Some p"
  shows "((add_line_join prm b stk c a ta bb tb angle = b @ [Line_to p, Line_to bb]) =
           (to_float \<bar>sin ((pi - angle) / 2)\<bar> \<noteq> 0 \<and>
            1 / to_float \<bar>sin ((pi - angle) / 2)\<bar> \<le> miter_limit stk)) \<and>
         ((add_line_join prm b stk c a ta bb tb angle = b @ [Line_to bb]) =
           (\<not> (to_float \<bar>sin ((pi - angle) / 2)\<bar> \<noteq> 0 \<and>
               1 / to_float \<bar>sin ((pi - angle) / 2)\<bar> \<le> miter_limit stk)))"
  using assms
  by (simp add: add_line_join_def Let_def path_builder_line_to_point_def gsk_path_builder_line_to_def)

text \<open>
  The witness is the corner above with the next float, 9079765 / 8388608, as the miter
  limit: the quotient 8388608 / 7750063 is below it and the sharp miter through
  \<open>(9 + sqrt 2, - 1)\<close> is emitted.
\<close>

theorem miter_limit_on_rounded_sine_witness:
  "\<forall>prm b.
   line_join \<lparr>line_width = 2, line_cap = GSK_LINE_CAP_BUTT, line_join = GSK_LINE_JOIN_MITER,
      miter_limit = 9079765 / 8388608, dash_length = 0\<rparr> = GSK_LINE_JOIN_MITER \<and>
   line_intersect (10, - 1) (1, 0) (10 + 1 / sqrt 2, - (1 / sqrt 2)) (1 / sqrt 2, 1 / sqrt 2)
     = Some (9 + sqrt 2, - 1) \<and>
   to_float \<bar>sin ((pi - 13176795 / 16777216) / 2)\<bar> = 7750063 / 8388608 \<and>
   add_line_join prm b
      \<lparr>line_width = 2, line_cap = GSK_LINE_CAP_BUTT, line_join = GSK_LINE_JOIN_MITER,
        miter_limit = 9079765 / 8388608, dash_length = 0\<rparr>
      (10, 0) (10, - 1) (1, 0) (10 + 1 / sqrt 2, - (1 / sqrt 2)) (1 / sqrt 2, 1 / sqrt 2)
      (13176795 / 16777216)
    = b @ [Line_to (9 + sqrt 2, - 1), Line_to (10 + 1 / sqrt 2, - (1 / sqrt 2))]"
proof (intro allI)
  fix prm :: prims and b :: GskPathBuilder
  let ?stk = "\<lparr>line_width = 2, line_cap = GSK_LINE_CAP_BUTT, line_join = GSK_LINE_JOIN_MITER,
      miter_limit = 9079765 / 8388608, dash_length = 0\<rparr>"
  let ?bb = "(10 + 1 / sqrt 2, - (1 / sqrt 2))"
  have j: "line_join ?stk = GSK_LINE_JOIN_MITER" by simp
  note i = eighth_turn_intersect
  note s = rounded_sine_eighth_turn
  from miter_limit_on_rounded_sine [OF j i, of prm b "(10, 0)" "13176795 / 16777216"]
  have "add_line_join prm b ?stk (10, 0) (10, - 1) (1, 0) ?bb (1 / sqrt 2, 1 / sqrt 2)
          (13176795 / 16777216)
        = b @ [Line_to (9 + sqrt 2, - 1), Line_to ?bb]"
    unfolding s by simp
  then show "line_join ?stk = GSK_LINE_JOIN_MITER \<and>
   line_intersect (10, - 1) (1, 0) ?bb (1 / sqrt 2, 1 / sqrt 2) = Some (9 + sqrt 2, - 1) \<and>
   to_float \<bar>sin ((pi - 13176795 / 16777216) / 2)\<bar> = 7750063 / 8388608 \<and>
   add_line_join prm b ?stk (10, 0) (10, - 1) (1, 0) ?bb (1 / sqrt 2, 1 / sqrt 2)
      (13176795 / 16777216)
    = b @ [Line_to (9 + sqrt 2, - 1), Line_to ?bb]"
    using j i s by blast
qed

subsection \<open>Which side is joined and which is trimmed\<close>

lemma first_corner_angle:
  "angle_between (gsk_curve_get_end_tangent prm (LineCurve (0, 0) (10, 0)))
                 (gsk_curve_get_start_tangent prm (LineCurve (10, 0) (10, 10))) = 13176795 / 8388608"
  by (simp add: get_tangent_def normalize_axis quarter_turns)

text \<open>
  C1, as the specification states it: where the turn angle is positive the join is made
  on the right offsets and the left offsets are intersected and trimmed. It fails at the
  first corner of the square. The angle is 13176795 / 8388608, the float nearest to
  \<open>pi / 2\<close>; the miter through (11, -1) is added to the left builder, and the left curves
  are the untrimmed offsets; the right builder receives no join, and both right curves
  are trimmed at their intersection (9, 1): the first ends there (\<^verbatim>\<open>r0\<close>), the second
  starts there (\<^verbatim>\<open>r\<close>).
\<close>

theorem positive_turn_join_is_on_the_left:
  "\<forall>fuel prm.
     angle_between (gsk_curve_get_end_tangent prm (LineCurve (0, 0) (10, 0)))
                   (gsk_curve_get_start_tangent prm (LineCurve (10, 0) (10, 10))) = 13176795 / 8388608 \<and>
     (0::real) < 13176795 / 8388608 \<and> \<not> \<bar>13176795 / 8388608\<bar> < DEG_TO_RAD 5 \<and>
     (\<exists>sd. gsk_contour_foreach fuel prm [MOVE (0, 0), LINE (0, 0) (10, 0), LINE (10, 0) (10, 10)]
              (stroke_data_init [] square_stroke) = Some sd \<and>
           left sd = [Move_to (0, - 1), Move_to (10, - 1), Line_to (11, - 1), Line_to (11, 0)] \<and>
           right sd = [Move_to (0, 1), Move_to (9, 1)] \<and>
           sd_r0 sd = LineCurve (0, 1) (9, 1) \<and>
           sd_r sd = LineCurve (9, 1) (9, 10) \<and>
           gsk_curve_offset prm (LineCurve (10, 0) (10, 10)) 1 = LineCurve (9, 0) (9, 10) \<and>
           sd_l0 sd = LineCurve (0, - 1) (10, - 1) \<and>
           sd_l sd = LineCurve (11, 0) (11, 10) \<and>
           gsk_curve_offset prm (LineCurve (10, 0) (10, 10)) (- 1) = LineCurve (11, 0) (11, 10))"
proof (intro allI)
  fix fuel prm
  let ?sd = "(square_state
      [Move_to (0, - 1), Move_to (10, - 1), Line_to (11, - 1), Line_to (11, 0)]
      [Move_to (0, 1), Move_to (9, 1)] False
      (LineCurve (10, 0) (10, 10)) (LineCurve (11, 0) (11, 10)) (LineCurve (9, 1) (9, 10))
      (LineCurve (0, - 1) (10, - 1)) (LineCurve (0, 1) (9, 1)))"
  have w: "gsk_contour_foreach fuel prm [MOVE (0, 0), LINE (0, 0) (10, 0), LINE (10, 0) (10, 10)]
              (stroke_data_init [] square_stroke) = Some ?sd"
    by (rule square_two_lines)
  have f: "left ?sd = [Move_to (0, - 1), Move_to (10, - 1), Line_to (11, - 1), Line_to (11, 0)]"
      "right ?sd = [Move_to (0, 1), Move_to (9, 1)]"
      "sd_r0 ?sd = LineCurve (0, 1) (9, 1)" "sd_r ?sd = LineCurve (9, 1) (9, 10)"
      "sd_l0 ?sd = LineCurve (0, - 1) (10, - 1)" "sd_l ?sd = LineCurve (11, 0) (11, 10)"
    by (simp_all add: square_state_def)
  have off: "gsk_curve_offset prm (LineCurve (10, 0) (10, 10)) 1 = LineCurve (9, 0) (9, 10)"
      "gsk_curve_offset prm (LineCurve (10, 0) (10, 10)) (- 1) = LineCurve (11, 0) (11, 10)"
    by (simp_all add: get_normal_def normalize_axis)
  show "angle_between (gsk_curve_get_end_tangent prm (LineCurve (0, 0) (10, 0)))
                   (gsk_curve_get_start_tangent prm (LineCurve (10, 0) (10, 10))) = 13176795 / 8388608 \<and>
     (0::real) < 13176795 / 8388608 \<and> \<not> \<bar>13176795 / 8388608\<bar> < DEG_TO_RAD 5 \<and>
     (\<exists>sd. gsk_contour_foreach fuel prm [MOVE (0, 0), LINE (0, 0) (10, 0), LINE (10, 0) (10, 10)]
              (stroke_data_init [] square_stroke) = Some sd \<and>
           left sd = [Move_to (0, - 1), Move_to (10, - 1), Line_to (11, - 1), Line_to (11, 0)] \<and>
           right sd = [Move_to (0, 1), Move_to (9, 1)] \<and>
           sd_r0 sd = LineCurve (0, 1) (9, 1) \<and>
           sd_r sd = LineCurve (9, 1) (9, 10) \<and>
           gsk_curve_offset prm (LineCurve (10, 0) (10, 10)) 1 = LineCurve (9, 0) (9, 10) \<and>
           sd_l0 sd = LineCurve (0, - 1) (10, - 1) \<and>
           sd_l sd = LineCurve (11, 0) (11, 10) \<and>
           gsk_curve_offset prm (LineCurve (10, 0) (10, 10)) (- 1) = LineCurve (11, 0) (11, 10))"
    using first_corner_angle[of prm] quarter_is_a_turn w f off by blast
qed

text \<open>
  C1, amended: where the turn angle is positive and not below 5 degrees, the join is
  made on the left builder, between the end of the pending left offset and the start of
  the new one, which is not trimmed; the right builder receives the pending right offset
  cut at its intersection with the new one, or, when they do not intersect, the whole of
  it and a line to the start of the new one. This holds for the two ways the source calls
  \<^verbatim>\<open>add_segments\<close>: with the locals of \<^verbatim>\<open>add_curve\<close>, and with the first curves of the
  contour in \<^verbatim>\<open>close_contours\<close>.
\<close>

theorem positive_turn_joins_left:
  assumes "angle = angle_between (gsk_curve_get_end_tangent prm (sd_c sd))
                                 (gsk_curve_get_start_tangent prm (deref sd curve))"
      and "\<not> \<bar>angle\<bar> < DEG_TO_RAD 5" and "angle > 0"
      and "(\<exists>cv rv lv. curve = Local cv \<and> r = Local rv \<and> l = Local lv) \<or>
           (curve = Field_c0 \<and> r = Field_r0 \<and> l = Field_l0)"
  shows "left (add_segments prm sd curve r l) =
           add_line_join prm (left (append_left sd (sd_l sd))) (stroke sd)
             (gsk_curve_get_start_point (deref sd curve))
             (gsk_curve_get_end_point (sd_l sd))
             (gsk_curve_get_end_tangent prm (sd_c sd))
             (gsk_curve_get_start_point (deref (append_left sd (sd_l sd)) l))
             (gsk_curve_get_start_tangent prm (deref sd curve)) angle \<and>
         sd_l (add_segments prm sd curve r l) = deref (append_left sd (sd_l sd)) l \<and>
         right (add_segments prm sd curve r l) =
           (case gsk_curve_intersect prm (sd_r sd) (deref sd r) of
              Some (t1, t2, p) \<Rightarrow> right (append_right sd (fst (gsk_curve_split prm (sd_r sd) t1)))
            | None \<Rightarrow> path_builder_line_to_point (right (append_right sd (sd_r sd)))
                        (gsk_curve_get_start_point (deref (append_right sd (sd_r sd)) r)))"
  using assms(4)
proof (elim disjE exE conjE)
  fix cv rv lv
  assume "curve = Local cv" "r = Local rv" "l = Local lv"
  then show ?thesis using assms(1,2,3)
    by (cases "gsk_curve_intersect prm (sd_r sd) rv")
       (auto simp: add_segments_def Let_def append_right_def append_left_def split: prod.splits)
next
  assume "curve = Field_c0" "r = Field_r0" "l = Field_l0"
  then show ?thesis using assms(1,2,3)
    by (cases "gsk_curve_intersect prm (sd_r sd) (sd_r0 sd)")
       (auto simp: add_segments_def Let_def append_right_def append_left_def split: prod.splits)
qed


text \<open>The witness is the first corner of the square.\<close>

theorem positive_turn_joins_left_witness:
  "\<forall>prm.
     13176795 / 8388608 = angle_between
        (gsk_curve_get_end_tangent prm (sd_c (square_state
      [Move_to (0, - 1)]
      [Move_to (0, 1)] True
      (LineCurve (0, 0) (10, 0)) (LineCurve (0, - 1) (10, - 1)) (LineCurve (0, 1) (10, 1))
      (LineCurve (0, - 1) (10, - 1)) (LineCurve (0, 1) (10, 1)))))
        (gsk_curve_get_start_tangent prm
           (deref (square_state
      [Move_to (0, - 1)]
      [Move_to (0, 1)] True
      (LineCurve (0, 0) (10, 0)) (LineCurve (0, - 1) (10, - 1)) (LineCurve (0, 1) (10, 1))
      (LineCurve (0, - 1) (10, - 1)) (LineCurve (0, 1) (10, 1))) (Local (LineCurve (10, 0) (10, 10))))) \<and>
     \<not> \<bar>13176795 / 8388608\<bar> < DEG_TO_RAD 5 \<and> (0::real) < 13176795 / 8388608 \<and>
     left (add_segments prm (square_state
      [Move_to (0, - 1)]
      [Move_to (0, 1)] True
      (LineCurve (0, 0) (10, 0)) (LineCurve (0, - 1) (10, - 1)) (LineCurve (0, 1) (10, 1))
      (LineCurve (0, - 1) (10, - 1)) (LineCurve (0, 1) (10, 1)))
            (Local (LineCurve (10, 0) (10, 10))) (Local (LineCurve (9, 0) (9, 10)))
            (Local (LineCurve (11, 0) (11, 10))))
       = [Move_to (0, - 1), Move_to (10, - 1), Line_to (11, - 1), Line_to (11, 0)] \<and>
     sd_l (add_segments prm (square_state
      [Move_to (0, - 1)]
      [Move_to (0, 1)] True
      (LineCurve (0, 0) (10, 0)) (LineCurve (0, - 1) (10, - 1)) (LineCurve (0, 1) (10, 1))
      (LineCurve (0, - 1) (10, - 1)) (LineCurve (0, 1) (10, 1)))
            (Local (LineCurve (10, 0) (10, 10))) (Local (LineCurve (9, 0) (9, 10)))
            (Local (LineCurve (11, 0) (11, 10))))
       = LineCurve (11, 0) (11, 10) \<and>
     right (add_segments prm (square_state
      [Move_to (0, - 1)]
      [Move_to (0, 1)] True
      (LineCurve (0, 0) (10, 0)) (LineCurve (0, - 1) (10, - 1)) (LineCurve (0, 1) (10, 1))
      (LineCurve (0, - 1) (10, - 1)) (LineCurve (0, 1) (10, 1)))
            (Local (LineCurve (10, 0) (10, 10))) (Local (LineCurve (9, 0) (9, 10)))
            (Local (LineCurve (11, 0) (11, 10))))
       = [Move_to (0, 1), Move_to (9, 1)]"
proof
  fix prm
  let ?sd = "(square_state
      [Move_to (0, - 1)]
      [Move_to (0, 1)] True
      (LineCurve (0, 0) (10, 0)) (LineCurve (0, - 1) (10, - 1)) (LineCurve (0, 1) (10, 1))
      (LineCurve (0, - 1) (10, - 1)) (LineCurve (0, 1) (10, 1)))"
  let ?c = "Local (LineCurve (10, 0) (10, 10))"
  let ?r = "Local (LineCurve (9, 0) (9, 10))"
  let ?l = "Local (LineCurve (11, 0) (11, 10))"
  have c: "sd_c ?sd = LineCurve (0, 0) (10, 0)" "deref ?sd ?c = LineCurve (10, 0) (10, 10)"
    by (simp_all add: square_state_def)
  have a: "13176795 / 8388608 = angle_between (gsk_curve_get_end_tangent prm (sd_c ?sd))
                      (gsk_curve_get_start_tangent prm (deref ?sd ?c))"
    unfolding c by (rule first_corner_angle[symmetric])
  have p: "(\<exists>cv rv lv. ?c = Local cv \<and> ?r = Local rv \<and> ?l = Local lv) \<or>
           (?c = Field_c0 \<and> ?r = Field_r0 \<and> ?l = Field_l0)"
    by simp
  from positive_turn_joins_left [OF a quarter_is_a_turn p]
  have "left (add_segments prm ?sd ?c ?r ?l)
          = [Move_to (0, - 1), Move_to (10, - 1), Line_to (11, - 1), Line_to (11, 0)] \<and>
        sd_l (add_segments prm ?sd ?c ?r ?l) = LineCurve (11, 0) (11, 10) \<and>
        right (add_segments prm ?sd ?c ?r ?l) = [Move_to (0, 1), Move_to (9, 1)]"
    by (simp add: square_state_def stroker_eval)
  then show "13176795 / 8388608 = angle_between (gsk_curve_get_end_tangent prm (sd_c ?sd))
                      (gsk_curve_get_start_tangent prm (deref ?sd ?c)) \<and>
     \<not> \<bar>13176795 / 8388608\<bar> < DEG_TO_RAD 5 \<and> (0::real) < 13176795 / 8388608 \<and>
     left (add_segments prm ?sd ?c ?r ?l)
       = [Move_to (0, - 1), Move_to (10, - 1), Line_to (11, - 1), Line_to (11, 0)] \<and>
     sd_l (add_segments prm ?sd ?c ?r ?l) = LineCurve (11, 0) (11, 10) \<and>
     right (add_segments prm ?sd ?c ?r ?l) = [Move_to (0, 1), Move_to (9, 1)]"
    using a quarter_is_a_turn by blast
qed

subsection \<open>The pending offsets\<close>

text \<open>
  C7, as the specification states it: between two segments the pending curves \<^verbatim>\<open>l\<close> and
  \<^verbatim>\<open>r\<close> are the offsets of \<^verbatim>\<open>c\<close> at distances \<open>- w / 2\<close> and \<open>w / 2\<close>, trimmed only at
  their end. It fails after the second side of the square: the pending \<^verbatim>\<open>r\<close> runs from
  (9, 1) to (9, 10), the offset of \<^verbatim>\<open>c\<close> from (9, 0) to (9, 10). They share their end point
  and differ in their start point: \<^verbatim>\<open>r\<close> is the second part of the offset split at 1/10.
\<close>

theorem pending_right_offset_trimmed_at_start:
  "\<forall>fuel prm.
     \<exists>sd. gsk_contour_foreach fuel prm [MOVE (0, 0), LINE (0, 0) (10, 0), LINE (10, 0) (10, 10)]
              (stroke_data_init [] square_stroke) = Some sd \<and>
          sd_c sd = LineCurve (10, 0) (10, 10) \<and>
          gsk_curve_offset prm (sd_c sd) (line_width (stroke sd) / 2) = LineCurve (9, 0) (9, 10) \<and>
          sd_r sd = LineCurve (9, 1) (9, 10) \<and>
          sd_r sd \<noteq> gsk_curve_offset prm (sd_c sd) (line_width (stroke sd) / 2) \<and>
          gsk_curve_get_start_point (sd_r sd)
            \<noteq> gsk_curve_get_start_point (gsk_curve_offset prm (sd_c sd) (line_width (stroke sd) / 2)) \<and>
          gsk_curve_get_end_point (sd_r sd)
            = gsk_curve_get_end_point (gsk_curve_offset prm (sd_c sd) (line_width (stroke sd) / 2)) \<and>
          sd_r sd = snd (gsk_curve_split prm
                      (gsk_curve_offset prm (sd_c sd) (line_width (stroke sd) / 2)) (1 / 10))"
proof (intro allI)
  fix fuel prm
  let ?sd = "(square_state
      [Move_to (0, - 1), Move_to (10, - 1), Line_to (11, - 1), Line_to (11, 0)]
      [Move_to (0, 1), Move_to (9, 1)] False
      (LineCurve (10, 0) (10, 10)) (LineCurve (11, 0) (11, 10)) (LineCurve (9, 1) (9, 10))
      (LineCurve (0, - 1) (10, - 1)) (LineCurve (0, 1) (9, 1)))"
  have w: "gsk_contour_foreach fuel prm [MOVE (0, 0), LINE (0, 0) (10, 0), LINE (10, 0) (10, 10)]
              (stroke_data_init [] square_stroke) = Some ?sd"
    by (rule square_two_lines)
  have f: "sd_c ?sd = LineCurve (10, 0) (10, 10)" "sd_r ?sd = LineCurve (9, 1) (9, 10)"
      "line_width (stroke ?sd) / 2 = 1"
    by (simp_all add: square_state_def square_stroke_def)
  have off: "gsk_curve_offset prm (LineCurve (10, 0) (10, 10)) 1 = LineCurve (9, 0) (9, 10)"
    by (simp add: get_normal_def normalize_axis)
  have sp: "snd (gsk_curve_split prm (LineCurve (9, 0) (9, 10)) (1 / 10)) = LineCurve (9, 1) (9, 10)"
    by (simp add: graphene_point_interpolate_def Let_def)
  have "sd_c ?sd = LineCurve (10, 0) (10, 10) \<and>
          gsk_curve_offset prm (sd_c ?sd) (line_width (stroke ?sd) / 2) = LineCurve (9, 0) (9, 10) \<and>
          sd_r ?sd = LineCurve (9, 1) (9, 10) \<and>
          sd_r ?sd \<noteq> gsk_curve_offset prm (sd_c ?sd) (line_width (stroke ?sd) / 2) \<and>
          gsk_curve_get_start_point (sd_r ?sd)
            \<noteq> gsk_curve_get_start_point (gsk_curve_offset prm (sd_c ?sd) (line_width (stroke ?sd) / 2)) \<and>
          gsk_curve_get_end_point (sd_r ?sd)
            = gsk_curve_get_end_point (gsk_curve_offset prm (sd_c ?sd) (line_width (stroke ?sd) / 2)) \<and>
          sd_r ?sd = snd (gsk_curve_split prm
                      (gsk_curve_offset prm (sd_c ?sd) (line_width (stroke ?sd) / 2)) (1 / 10))"
    unfolding f off sp by simp
  with w show "\<exists>sd. gsk_contour_foreach fuel prm [MOVE (0, 0), LINE (0, 0) (10, 0), LINE (10, 0) (10, 10)]
              (stroke_data_init [] square_stroke) = Some sd \<and>
          sd_c sd = LineCurve (10, 0) (10, 10) \<and>
          gsk_curve_offset prm (sd_c sd) (line_width (stroke sd) / 2) = LineCurve (9, 0) (9, 10) \<and>
          sd_r sd = LineCurve (9, 1) (9, 10) \<and>
          sd_r sd \<noteq> gsk_curve_offset prm (sd_c sd) (line_width (stroke sd) / 2) \<and>
          gsk_curve_get_start_point (sd_r sd)
            \<noteq> gsk_curve_get_start_point (gsk_curve_offset prm (sd_c sd) (line_width (stroke sd) / 2)) \<and>
          gsk_curve_get_end_point (sd_r sd)
            = gsk_curve_get_end_point (gsk_curve_offset prm (sd_c sd) (line_width (stroke sd) / 2)) \<and>
          sd_r sd = snd (gsk_curve_split prm
                      (gsk_curve_offset prm (sd_c sd) (line_width (stroke sd) / 2)) (1 / 10))"
    by blast
qed

text \<open>
  C7, amended: after \<^verbatim>\<open>add_curve\<close> has taken a segment, \<^verbatim>\<open>c\<close> is that segment and each
  of \<^verbatim>\<open>l\<close> and \<^verbatim>\<open>r\<close> is the offset of \<^verbatim>\<open>c\<close> at distance \<open>- w / 2\<close> and \<open>w / 2\<close>, whole
  or with a first part split off: they have been trimmed at their start only.
\<close>

theorem pending_offsets_trimmed_at_start_only:
  "sd_c (add_curve prm sd curve) = curve \<and>
   (sd_l (add_curve prm sd curve) = gsk_curve_offset prm curve (- line_width (stroke sd) / 2) \<or>
    (\<exists>t. sd_l (add_curve prm sd curve) =
           snd (gsk_curve_split prm (gsk_curve_offset prm curve (- line_width (stroke sd) / 2)) t))) \<and>
   (sd_r (add_curve prm sd curve) = gsk_curve_offset prm curve (line_width (stroke sd) / 2) \<or>
    (\<exists>t. sd_r (add_curve prm sd curve) =
           snd (gsk_curve_split prm (gsk_curve_offset prm curve (line_width (stroke sd) / 2)) t)))"
proof (cases "has_current_curve sd")
  case False
  then show ?thesis by (simp add: add_curve_def Let_def)
next
  case True
  define L where "L = gsk_curve_offset prm curve (- line_width (stroke sd) / 2)"
  define R where "R = gsk_curve_offset prm curve (line_width (stroke sd) / 2)"
  have "sd_c (add_segments prm sd (Local curve) (Local R) (Local L)) = curve \<and>
        (sd_l (add_segments prm sd (Local curve) (Local R) (Local L)) = L \<or>
         (\<exists>t. sd_l (add_segments prm sd (Local curve) (Local R) (Local L)) =
                snd (gsk_curve_split prm L t))) \<and>
        (sd_r (add_segments prm sd (Local curve) (Local R) (Local L)) = R \<or>
         (\<exists>t. sd_r (add_segments prm sd (Local curve) (Local R) (Local L)) =
                snd (gsk_curve_split prm R t)))"
    by (auto simp: add_segments_def Let_def split: prod.splits option.splits)
  then show ?thesis using True by (simp add: add_curve_def Let_def L_def R_def)
qed

subsection \<open>The pieces of a subdivided cubic\<close>

lemma fold_pieces_simple:
  assumes "\<And>i ps. P i = Some ps \<Longrightarrow> \<forall>p\<in>set ps. Q p"
      and "fold (\<lambda>i res. case res of None \<Rightarrow> None
                    | Some ps \<Rightarrow> (case P i of None \<Rightarrow> None | Some ps' \<Rightarrow> Some (ps @ ps')))
             xs (Some acc) = Some out"
      and "\<forall>p\<in>set acc. Q p"
  shows "\<forall>p\<in>set out. Q p"
  using assms(2,3)
proof (induction xs arbitrary: acc)
  case Nil
  then show ?case by simp
next
  case (Cons x xs)
  show ?case
  proof (cases "P x")
    case None
    then show ?thesis using Cons.prems(1) by (simp add: fold_none)
  next
    case (Some ps')
    have "\<forall>p\<in>set (acc @ ps'). Q p" using Cons.prems(2) assms(1)[OF Some] by auto
    then show ?thesis using Cons.IH[of "acc @ ps'"] Cons.prems(1) Some by simp
  qed
qed

lemma pieces_simple:
  "subdivide_curve_pieces fuel prm curve level = Some ps \<Longrightarrow>
   \<forall>p\<in>set ps. fst p \<noteq> 0 \<longrightarrow> cubic_is_simple (snd p)"
proof (induction fuel arbitrary: curve level ps)
  case 0
  then show ?case by simp
next
  case (Suc fuel)
  show ?case
  proof (cases "level = 0 \<or> (level < MAX_SUBDIVISION \<and> cubic_is_simple curve)")
    case True
    then show ?thesis using Suc.prems by auto
  next
    case False
    define t where "t = (if level = MAX_SUBDIVISION
                         then sort ([0, 1] @ cubic_curvature_points curve) else [0, 1])"
    show ?thesis
    proof (cases "length t = 2")
      case True
      obtain c1 c2 where s: "gsk_curve_split prm curve 0.5 = (c1, c2)" by fastforce
      from Suc.prems False True s obtain ps1 ps2 where
        1: "subdivide_curve_pieces fuel prm c1 (level - 1) = Some ps1" and
        2: "subdivide_curve_pieces fuel prm c2 (level - 1) = Some ps2" and
        3: "ps = ps1 @ ps2"
        unfolding t_def by (auto simp: Let_def split: option.splits if_splits)
      show ?thesis using Suc.IH[OF 1] Suc.IH[OF 2] 3 by auto
    next
      case n: False
      have f: "fold (\<lambda>i res. case res of None \<Rightarrow> None
                    | Some ps \<Rightarrow>
                        (case subdivide_curve_pieces fuel prm
                                (gsk_curve_segment prm curve (t ! i) (t ! (i + 1))) (level - 1)
                         of None \<Rightarrow> None | Some ps' \<Rightarrow> Some (ps @ ps')))
                 [0..<length t - 1] (Some []) = Some ps"
        using Suc.prems False n unfolding t_def by (auto simp: Let_def split: if_splits)
      show ?thesis
        by (rule fold_pieces_simple[OF _ f]) (use Suc.IH in auto)
    qed
  qed
qed

lemma pieces_returns:
  assumes "0 \<le> level" "nat level < fuel"
  shows "\<exists>ps. subdivide_curve_pieces fuel prm curve level = Some ps"
proof -
  obtain sd' where
    "subdivide_and_add_curve fuel prm (stroke_data_init [] square_stroke) curve level = Some sd'"
    using subdivide_and_add_curve_returns[OF assms] by blast
  then show ?thesis by (auto simp: subdivide_and_add_curve_pieces)
qed

lemma pieces_descend:
  assumes "0 < level" "nat level \<le> fuel" "\<not> (level < MAX_SUBDIVISION \<and> cubic_is_simple c)"
      and "level = MAX_SUBDIVISION \<longrightarrow> cubic_curvature_points c = []"
      and "gsk_curve_split prm c (1 / 2) = (c1, c2)"
      and "(\<exists>ps. subdivide_curve_pieces fuel prm c1 (level - 1) = Some ps \<and> x \<in> set ps) \<or>
           (\<exists>ps. subdivide_curve_pieces fuel prm c2 (level - 1) = Some ps \<and> x \<in> set ps)"
  shows "\<exists>ps. subdivide_curve_pieces (Suc fuel) prm c level = Some ps \<and> x \<in> set ps"
proof -
  have l: "0 \<le> level - 1" "nat (level - 1) < fuel" using assms(1,2) by auto
  obtain ps1 where 1: "subdivide_curve_pieces fuel prm c1 (level - 1) = Some ps1"
    using pieces_returns[OF l] by blast
  obtain ps2 where 2: "subdivide_curve_pieces fuel prm c2 (level - 1) = Some ps2"
    using pieces_returns[OF l] by blast
  have "subdivide_curve_pieces (Suc fuel) prm c level = Some (ps1 @ ps2)"
    using assms(1,3,4,5) 1 2 by (auto simp: Let_def)
  moreover have "x \<in> set (ps1 @ ps2)" using assms(6) 1 2 by auto
  ultimately show ?thesis by blast
qed

text \<open>Cubics whose control points lie on the x axis: one that runs forth on its first
  leg and back on its last is not simple, since the two end normals are opposite.\<close>

lemma on_axis_not_simple:
  assumes "a < b" "d < c"
  shows "\<not> cubic_is_simple (CubicCurve (a, 0) (b, 0) (c, 0) (d, 0))"
proof -
  have "get_normal (a, 0) (b, 0) = (0, 1)" "get_normal (c, 0) (d, 0) = (0, -1)"
    using assms by (simp_all add: get_normal_def normalize_axis)
  then show ?thesis by (simp add: Let_def graphene_vec2_dot_def)
qed

lemma on_axis_split:
  "gsk_curve_split prm (CubicCurve (a, 0) (b, 0) (c, 0) (d, 0)) (1 / 2) =
    (CubicCurve (a, 0) ((a + b) / 2, 0) ((a + 2 * b + c) / 4, 0) ((a + 3 * b + 3 * c + d) / 8, 0),
     CubicCurve ((a + 3 * b + 3 * c + d) / 8, 0) ((b + 2 * c + d) / 4, 0) ((c + d) / 2, 0) (d, 0))"
  by (simp add: Let_def graphene_point_interpolate_def field_simps)

lemma on_axis_curvature_points:
  "a < d \<Longrightarrow> cubic_curvature_points (CubicCurve (a, 0) (b, 0) (c, 0) (d, 0)) = []"
  by (simp add: Let_def align_points_def get_tangent_def normalize_axis atan2_def)

lemma on_axis_descend_left:
  assumes "fuel' = Suc fuel" "0 < level" "nat level \<le> fuel"
      and "level = MAX_SUBDIVISION \<or> (a < b \<and> d < c)" "level = MAX_SUBDIVISION \<longrightarrow> a < d"
      and "\<exists>ps. subdivide_curve_pieces fuel prm
                 (CubicCurve (a, 0) ((a + b) / 2, 0) ((a + 2 * b + c) / 4, 0)
                    ((a + 3 * b + 3 * c + d) / 8, 0))
                 (level - 1) = Some ps \<and> x \<in> set ps"
  shows "\<exists>ps. subdivide_curve_pieces fuel' prm (CubicCurve (a, 0) (b, 0) (c, 0) (d, 0)) level
                = Some ps \<and> x \<in> set ps"
  unfolding assms(1)
  by (rule pieces_descend[OF assms(2) assms(3) _ _ on_axis_split])
     (use assms in \<open>auto simp: on_axis_not_simple on_axis_curvature_points
                      simp del: cubic_is_simple.simps cubic_curvature_points.simps\<close>)

lemma on_axis_descend_right:
  assumes "fuel' = Suc fuel" "0 < level" "nat level \<le> fuel"
      and "level = MAX_SUBDIVISION \<or> (a < b \<and> d < c)" "level = MAX_SUBDIVISION \<longrightarrow> a < d"
      and "\<exists>ps. subdivide_curve_pieces fuel prm
                 (CubicCurve ((a + 3 * b + 3 * c + d) / 8, 0) ((b + 2 * c + d) / 4, 0)
                    ((c + d) / 2, 0) (d, 0))
                 (level - 1) = Some ps \<and> x \<in> set ps"
  shows "\<exists>ps. subdivide_curve_pieces fuel' prm (CubicCurve (a, 0) (b, 0) (c, 0) (d, 0)) level
                = Some ps \<and> x \<in> set ps"
  unfolding assms(1)
  by (rule pieces_descend[OF assms(2) assms(3) _ _ on_axis_split])
     (use assms in \<open>auto simp: on_axis_not_simple on_axis_curvature_points
                      simp del: cubic_is_simple.simps cubic_curvature_points.simps\<close>)

text \<open>
  The cubic with control points (0, 0), (4, 0), (-1, 0), (3, 0) runs along the x axis,
  turns back and turns forth again. Halving it eight times towards its first turning
  point gives, at levels 7 down to 0, the pieces below; each is found among the pieces of
  the one before.
\<close>

lemma reversing_cubic_level_0:
  "\<exists>ps. subdivide_curve_pieces 1 prm
           (CubicCurve (13980885 / 8388608, 0) (6990571 / 4194304, 0) (3495253 / 2097152, 0) (1747563 / 1048576, 0)) 0 = Some ps \<and>
        (0, CubicCurve (13980885 / 8388608, 0) (6990571 / 4194304, 0)
            (3495253 / 2097152, 0) (1747563 / 1048576, 0)) \<in> set ps"
  by simp

lemma reversing_cubic_level_1:
  "\<exists>ps. subdivide_curve_pieces 2 prm
           (CubicCurve (218421 / 131072, 0) (436907 / 262144, 0) (873845 / 524288, 0) (1747563 / 1048576, 0)) 1 = Some ps \<and>
        (0, CubicCurve (13980885 / 8388608, 0) (6990571 / 4194304, 0)
            (3495253 / 2097152, 0) (1747563 / 1048576, 0)) \<in> set ps"
  using on_axis_descend_right
        [where level = 1 and fuel = 1 and fuel' = 2
          and a = "218421 / 131072" and b = "436907 / 262144" and c = "873845 / 524288" and d = "1747563 / 1048576" and prm = prm
          and x = "(0, CubicCurve (13980885 / 8388608, 0) (6990571 / 4194304, 0)
                  (3495253 / 2097152, 0) (1747563 / 1048576, 0))"]
        reversing_cubic_level_0[of prm]
  by (simp add: MAX_SUBDIVISION_def
        del: subdivide_curve_pieces.simps cubic_is_simple.simps cubic_curvature_points.simps)

lemma reversing_cubic_level_2:
  "\<exists>ps. subdivide_curve_pieces 3 prm
           (CubicCurve (218421 / 131072, 0) (109243 / 65536, 0) (54613 / 32768, 0) (27291 / 16384, 0)) 2 = Some ps \<and>
        (0, CubicCurve (13980885 / 8388608, 0) (6990571 / 4194304, 0)
            (3495253 / 2097152, 0) (1747563 / 1048576, 0)) \<in> set ps"
  using on_axis_descend_left
        [where level = 2 and fuel = 2 and fuel' = 3
          and a = "218421 / 131072" and b = "109243 / 65536" and c = "54613 / 32768" and d = "27291 / 16384" and prm = prm
          and x = "(0, CubicCurve (13980885 / 8388608, 0) (6990571 / 4194304, 0)
                  (3495253 / 2097152, 0) (1747563 / 1048576, 0))"]
        reversing_cubic_level_1[of prm]
  by (simp add: MAX_SUBDIVISION_def
        del: subdivide_curve_pieces.simps cubic_is_simple.simps cubic_curvature_points.simps)

lemma reversing_cubic_level_3:
  "\<exists>ps. subdivide_curve_pieces 4 prm
           (CubicCurve (3405 / 2048, 0) (6827 / 4096, 0) (13661 / 8192, 0) (27291 / 16384, 0)) 3 = Some ps \<and>
        (0, CubicCurve (13980885 / 8388608, 0) (6990571 / 4194304, 0)
            (3495253 / 2097152, 0) (1747563 / 1048576, 0)) \<in> set ps"
  using on_axis_descend_right
        [where level = 3 and fuel = 3 and fuel' = 4
          and a = "3405 / 2048" and b = "6827 / 4096" and c = "13661 / 8192" and d = "27291 / 16384" and prm = prm
          and x = "(0, CubicCurve (13980885 / 8388608, 0) (6990571 / 4194304, 0)
                  (3495253 / 2097152, 0) (1747563 / 1048576, 0))"]
        reversing_cubic_level_2[of prm]
  by (simp add: MAX_SUBDIVISION_def
        del: subdivide_curve_pieces.simps cubic_is_simple.simps cubic_curvature_points.simps)

lemma reversing_cubic_level_4:
  "\<exists>ps. subdivide_curve_pieces 5 prm
           (CubicCurve (3405 / 2048, 0) (1711 / 1024, 0) (853 / 512, 0) (423 / 256, 0)) 4 = Some ps \<and>
        (0, CubicCurve (13980885 / 8388608, 0) (6990571 / 4194304, 0)
            (3495253 / 2097152, 0) (1747563 / 1048576, 0)) \<in> set ps"
  using on_axis_descend_left
        [where level = 4 and fuel = 4 and fuel' = 5
          and a = "3405 / 2048" and b = "1711 / 1024" and c = "853 / 512" and d = "423 / 256" and prm = prm
          and x = "(0, CubicCurve (13980885 / 8388608, 0) (6990571 / 4194304, 0)
                  (3495253 / 2097152, 0) (1747563 / 1048576, 0))"]
        reversing_cubic_level_3[of prm]
  by (simp add: MAX_SUBDIVISION_def
        del: subdivide_curve_pieces.simps cubic_is_simple.simps cubic_curvature_points.simps)

lemma reversing_cubic_level_5:
  "\<exists>ps. subdivide_curve_pieces 6 prm
           (CubicCurve (51 / 32, 0) (107 / 64, 0) (215 / 128, 0) (423 / 256, 0)) 5 = Some ps \<and>
        (0, CubicCurve (13980885 / 8388608, 0) (6990571 / 4194304, 0)
            (3495253 / 2097152, 0) (1747563 / 1048576, 0)) \<in> set ps"
  using on_axis_descend_right
        [where level = 5 and fuel = 5 and fuel' = 6
          and a = "51 / 32" and b = "107 / 64" and c = "215 / 128" and d = "423 / 256" and prm = prm
          and x = "(0, CubicCurve (13980885 / 8388608, 0) (6990571 / 4194304, 0)
                  (3495253 / 2097152, 0) (1747563 / 1048576, 0))"]
        reversing_cubic_level_4[of prm]
  by (simp add: MAX_SUBDIVISION_def
        del: subdivide_curve_pieces.simps cubic_is_simple.simps cubic_curvature_points.simps)

lemma reversing_cubic_level_6:
  "\<exists>ps. subdivide_curve_pieces 7 prm
           (CubicCurve (51 / 32, 0) (7 / 4, 0) (13 / 8, 0) (3 / 2, 0)) 6 = Some ps \<and>
        (0, CubicCurve (13980885 / 8388608, 0) (6990571 / 4194304, 0)
            (3495253 / 2097152, 0) (1747563 / 1048576, 0)) \<in> set ps"
  using on_axis_descend_left
        [where level = 6 and fuel = 6 and fuel' = 7
          and a = "51 / 32" and b = "7 / 4" and c = "13 / 8" and d = "3 / 2" and prm = prm
          and x = "(0, CubicCurve (13980885 / 8388608, 0) (6990571 / 4194304, 0)
                  (3495253 / 2097152, 0) (1747563 / 1048576, 0))"]
        reversing_cubic_level_5[of prm]
  by (simp add: MAX_SUBDIVISION_def
        del: subdivide_curve_pieces.simps cubic_is_simple.simps cubic_curvature_points.simps)

lemma reversing_cubic_level_7:
  "\<exists>ps. subdivide_curve_pieces 8 prm
           (CubicCurve (0, 0) (2, 0) (7 / 4, 0) (3 / 2, 0)) 7 = Some ps \<and>
        (0, CubicCurve (13980885 / 8388608, 0) (6990571 / 4194304, 0)
            (3495253 / 2097152, 0) (1747563 / 1048576, 0)) \<in> set ps"
  using on_axis_descend_right
        [where level = 7 and fuel = 7 and fuel' = 8
          and a = "0" and b = "2" and c = "7 / 4" and d = "3 / 2" and prm = prm
          and x = "(0, CubicCurve (13980885 / 8388608, 0) (6990571 / 4194304, 0)
                  (3495253 / 2097152, 0) (1747563 / 1048576, 0))"]
        reversing_cubic_level_6[of prm]
  by (simp add: MAX_SUBDIVISION_def
        del: subdivide_curve_pieces.simps cubic_is_simple.simps cubic_curvature_points.simps)

lemma reversing_cubic_level_8:
  "\<exists>ps. subdivide_curve_pieces 9 prm
           (CubicCurve (0, 0) (4, 0) (- 1, 0) (3, 0)) 8 = Some ps \<and>
        (0, CubicCurve (13980885 / 8388608, 0) (6990571 / 4194304, 0)
            (3495253 / 2097152, 0) (1747563 / 1048576, 0)) \<in> set ps"
  using on_axis_descend_left
        [where level = 8 and fuel = 8 and fuel' = 9
          and a = "0" and b = "4" and c = "- 1" and d = "3" and prm = prm
          and x = "(0, CubicCurve (13980885 / 8388608, 0) (6990571 / 4194304, 0)
                  (3495253 / 2097152, 0) (1747563 / 1048576, 0))"]
        reversing_cubic_level_7[of prm]
  by (simp add: MAX_SUBDIVISION_def
        del: subdivide_curve_pieces.simps cubic_is_simple.simps cubic_curvature_points.simps)

lemma reversing_cubic_last_piece:
  "\<not> cubic_is_simple (CubicCurve (13980885 / 8388608, 0) (6990571 / 4194304, 0) (3495253 / 2097152, 0) (1747563 / 1048576, 0))"
  by (rule on_axis_not_simple) simp_all

text \<open>
  C6, as the specification states it: every piece the subdivider, called at level 8,
  hands to \<^verbatim>\<open>add_curve\<close> is simple. It fails for the cubic above: the piece reached after
  eight halvings is handed over at level 0, where no test is made, and is not simple.
\<close>

theorem level_zero_piece_not_simple:
  "\<forall>prm sd.
     \<exists>ps. subdivide_and_add_curve 9 prm sd (CubicCurve (0, 0) (4, 0) (- 1, 0) (3, 0)) MAX_SUBDIVISION
            = Some (add_pieces prm ps sd) \<and>
          subdivide_curve_pieces 9 prm (CubicCurve (0, 0) (4, 0) (- 1, 0) (3, 0)) MAX_SUBDIVISION
            = Some ps \<and>
          (0, CubicCurve (13980885 / 8388608, 0) (6990571 / 4194304, 0) (3495253 / 2097152, 0) (1747563 / 1048576, 0)) \<in> set ps \<and>
          \<not> cubic_is_simple (CubicCurve (13980885 / 8388608, 0) (6990571 / 4194304, 0) (3495253 / 2097152, 0) (1747563 / 1048576, 0))"
proof (intro allI)
  fix prm sd
  obtain ps where ps:
      "subdivide_curve_pieces 9 prm (CubicCurve (0, 0) (4, 0) (- 1, 0) (3, 0)) 8 = Some ps"
      "(0, CubicCurve (13980885 / 8388608, 0) (6990571 / 4194304, 0) (3495253 / 2097152, 0) (1747563 / 1048576, 0)) \<in> set ps"
    using reversing_cubic_level_8[of prm] by blast
  have "subdivide_and_add_curve 9 prm sd (CubicCurve (0, 0) (4, 0) (- 1, 0) (3, 0)) MAX_SUBDIVISION
            = Some (add_pieces prm ps sd)"
    using ps(1) by (simp add: subdivide_and_add_curve_pieces MAX_SUBDIVISION_def)
  then show "\<exists>ps. subdivide_and_add_curve 9 prm sd (CubicCurve (0, 0) (4, 0) (- 1, 0) (3, 0)) MAX_SUBDIVISION
            = Some (add_pieces prm ps sd) \<and>
          subdivide_curve_pieces 9 prm (CubicCurve (0, 0) (4, 0) (- 1, 0) (3, 0)) MAX_SUBDIVISION
            = Some ps \<and>
          (0, CubicCurve (13980885 / 8388608, 0) (6990571 / 4194304, 0) (3495253 / 2097152, 0) (1747563 / 1048576, 0)) \<in> set ps \<and>
          \<not> cubic_is_simple (CubicCurve (13980885 / 8388608, 0) (6990571 / 4194304, 0) (3495253 / 2097152, 0) (1747563 / 1048576, 0))"
    using ps reversing_cubic_last_piece by (auto simp: MAX_SUBDIVISION_def)
qed

text \<open>
  C6, amended: every piece the subdivider, called at level 8, hands to \<^verbatim>\<open>add_curve\<close> at a
  level other than 0 is simple. (The pieces handed over are those of
  \<^const>\<open>subdivide_curve_pieces\<close>: the resulting state is the one \<^verbatim>\<open>add_curve\<close> produces
  from them.)
\<close>

theorem pieces_above_level_zero_simple:
  assumes "subdivide_and_add_curve fuel prm sd curve MAX_SUBDIVISION = Some sd'"
  shows "\<exists>ps. subdivide_curve_pieces fuel prm curve MAX_SUBDIVISION = Some ps \<and>
              sd' = add_pieces prm ps sd \<and>
              (\<forall>p\<in>set ps. fst p \<noteq> 0 \<longrightarrow> cubic_is_simple (snd p))"
proof -
  from assms obtain ps where
    ps: "subdivide_curve_pieces fuel prm curve MAX_SUBDIVISION = Some ps" "sd' = add_pieces prm ps sd"
    by (auto simp: subdivide_and_add_curve_pieces)
  show ?thesis using ps pieces_simple[OF ps(1)] by blast
qed

text \<open>The witness is the cubic of scenario S5 of the specification, subdivided from
  the state after a move to the origin.\<close>

theorem pieces_above_level_zero_simple_witness:
  "\<forall>prm. \<exists>sd' ps.
     subdivide_and_add_curve 9 prm (stroke_data_init [] square_stroke)
        (CubicCurve (0, 0) (10, 0) (10, 10) (20, 10)) MAX_SUBDIVISION = Some sd' \<and>
     subdivide_curve_pieces 9 prm (CubicCurve (0, 0) (10, 0) (10, 10) (20, 10)) MAX_SUBDIVISION
        = Some ps \<and>
     sd' = add_pieces prm ps (stroke_data_init [] square_stroke) \<and>
     (\<forall>p\<in>set ps. fst p \<noteq> 0 \<longrightarrow> cubic_is_simple (snd p))"
proof
  fix prm
  obtain sd' where h:
    "subdivide_and_add_curve 9 prm (stroke_data_init [] square_stroke)
        (CubicCurve (0, 0) (10, 0) (10, 10) (20, 10)) MAX_SUBDIVISION = Some sd'"
    using subdivide_and_add_curve_returns[of MAX_SUBDIVISION 9 prm
        "stroke_data_init [] square_stroke" "CubicCurve (0, 0) (10, 0) (10, 10) (20, 10)"]
    by (auto simp: MAX_SUBDIVISION_def)
  from pieces_above_level_zero_simple [OF h] h
  show "\<exists>sd' ps.
     subdivide_and_add_curve 9 prm (stroke_data_init [] square_stroke)
        (CubicCurve (0, 0) (10, 0) (10, 10) (20, 10)) MAX_SUBDIVISION = Some sd' \<and>
     subdivide_curve_pieces 9 prm (CubicCurve (0, 0) (10, 0) (10, 10) (20, 10)) MAX_SUBDIVISION
        = Some ps \<and>
     sd' = add_pieces prm ps (stroke_data_init [] square_stroke) \<and>
     (\<forall>p\<in>set ps. fst p \<noteq> 0 \<longrightarrow> cubic_is_simple (snd p))"
    by blast
qed

end
